theory Spec2Isabelle
  imports Complex_Main
begin

section \<open>JavaScript values and numeric parsing\<close>

text \<open>
  The two engines of the repository are \<open>calculateBudget\<close> (lib/budget-calc.js) and
  \<open>runComplianceChecks\<close> (lib/templates.js). Both are pure functions of JSON data.

  Numbers have two models. In the first, which begins here, a finite JavaScript number is
  the rational it denotes, and \<open>NaN\<close>, the one non-number the code tests for, is \<open>None\<close>;
  binary rounding, overflow and the IEEE infinities (also the literal \<open>Infinity\<close> that
  \<open>parseFloat\<close> reads) are outside it. It serves the compliance checks, which compare and
  print numbers, and the question which default the budget engine takes. The second model,
  further down, has the doubles of IEEE 754 with their rounding, their infinities and
  \<open>NaN\<close>: the figures of the budget engine are computed in it. Strings are lists of 8-bit
  characters, which is exact for ASCII text. The fields of a line item are primitive values
  of any kind; the rates of a budget, the bounds of a scheme and the limits of a section
  are numbers where they are present.
\<close>

datatype jsval = JUndefined | JNull | JBool bool | JNum rat | JStr string

text \<open>An object with primitive fields; a key that is absent reads as \<open>undefined\<close>.\<close>

type_synonym obj = "string \<rightharpoonup> jsval"

definition get :: "obj \<Rightarrow> string \<Rightarrow> jsval" where
  "get item k = (case item k of None \<Rightarrow> JUndefined | Some v \<Rightarrow> v)"

definition isWhiteSpace :: "char \<Rightarrow> bool" where
  "isWhiteSpace c \<longleftrightarrow>
     c = CHR '' '' \<or> c = CHR 0x09 \<or> c = CHR 0x0A \<or> c = CHR 0x0B \<or> c = CHR 0x0C \<or> c = CHR 0x0D"

definition isDigit :: "char \<Rightarrow> bool" where
  "isDigit c \<longleftrightarrow> (48::nat) \<le> of_char c \<and> of_char c \<le> (57::nat)"

text \<open>The value of a run of decimal digits, most significant first.\<close>

definition digitsValue :: "string \<Rightarrow> nat" where
  "digitsValue ds = foldl (\<lambda>acc c. 10 * acc + (of_char c - 48)) 0 ds"

text \<open>
  \<open>ExponentPart\<close> of a \<open>StrDecimalLiteral\<close>: \<open>e\<close> or \<open>E\<close>, an optional sign and at least
  one digit. Without a digit the exponent is not part of the longest literal prefix.
\<close>

definition exponentPart :: "string \<Rightarrow> int" where
  "exponentPart s =
     (case s of
        [] \<Rightarrow> 0
      | c # r \<Rightarrow>
          if c = CHR ''e'' \<or> c = CHR ''E'' then
            (case r of
               [] \<Rightarrow> 0
             | d # r' \<Rightarrow>
                 if d = CHR ''-'' then
                   (if takeWhile isDigit r' = [] then 0 else - int (digitsValue (takeWhile isDigit r')))
                 else if d = CHR ''+'' then
                   (if takeWhile isDigit r' = [] then 0 else int (digitsValue (takeWhile isDigit r')))
                 else
                   (if takeWhile isDigit r = [] then 0 else int (digitsValue (takeWhile isDigit r))))
          else 0)"

definition pow10 :: "int \<Rightarrow> rat" where
  "pow10 e = (if 0 \<le> e then 10 ^ nat e else 1 / 10 ^ nat (- e))"

text \<open>An unsigned decimal literal: digits, an optional fraction, an optional exponent.\<close>

definition unsignedDecimal :: "string \<Rightarrow> rat option" where
  "unsignedDecimal u =
     (let ip = takeWhile isDigit u;
          r1 = dropWhile isDigit u;
          fp = (case r1 of [] \<Rightarrow> [] | c # r \<Rightarrow> if c = CHR ''.'' then takeWhile isDigit r else []);
          r2 = (case r1 of [] \<Rightarrow> [] | c # r \<Rightarrow> if c = CHR ''.'' then dropWhile isDigit r else r1)
      in if ip = [] \<and> fp = [] then None
         else Some ((of_nat (digitsValue ip) + of_nat (digitsValue fp) / 10 ^ length fp)
                    * pow10 (exponentPart r2)))"

text \<open>
  \<open>parseFloat\<close> on a string: leading white space is skipped, then the longest prefix
  that is a decimal literal is read; when there is none the result is \<open>NaN\<close>.
\<close>

definition parseFloat_str :: "string \<Rightarrow> rat option" where
  "parseFloat_str s =
     (case dropWhile isWhiteSpace s of
        [] \<Rightarrow> None
      | c # r \<Rightarrow>
          if c = CHR ''-'' then map_option uminus (unsignedDecimal r)
          else if c = CHR ''+'' then unsignedDecimal r
          else unsignedDecimal (c # r))"

text \<open>
  \<open>parseFloat\<close> converts its argument to a string first: a number prints and reads back
  as itself, \<open>undefined\<close>, \<open>null\<close>, \<open>true\<close> and \<open>false\<close> print as words that are no number.
\<close>

fun parseFloat :: "jsval \<Rightarrow> rat option" where
  "parseFloat (JNum r) = Some r"
| "parseFloat (JStr s) = parseFloat_str s"
| "parseFloat JUndefined = None"
| "parseFloat JNull = None"
| "parseFloat (JBool b) = None"

text \<open>\<open>x || d\<close> on a number \<open>x\<close>: \<open>NaN\<close> and \<open>0\<close> are falsy.\<close>

definition orDefault :: "rat option \<Rightarrow> rat \<Rightarrow> rat" where
  "orDefault x d = (case x of None \<Rightarrow> d | Some v \<Rightarrow> if v = 0 then d else v)"

section \<open>Budget calculation in exact arithmetic (lib/budget-calc.js)\<close>

definition DEFAULT_ON_COST_RATE :: rat where
  "DEFAULT_ON_COST_RATE = 25 / 100"

text \<open>\<open>Math.round\<close> is the nearest integer, a tie going up.\<close>

definition Math_round :: "rat \<Rightarrow> rat" where
  "Math_round x = of_int \<lfloor>x + 1 / 2\<rfloor>"

definition round_js :: "rat \<Rightarrow> rat" where
  "round_js n = Math_round (n * 100) / 100"

definition sum_js :: "rat list \<Rightarrow> rat" where
  "sum_js arr = round_js (foldl (\<lambda>a b. a + b) 0 arr)"

text \<open>
  The argument of \<open>calculateBudget\<close>. A field that is absent is \<open>None\<close> and takes the
  default of the destructuring pattern.
\<close>

record budgetData =
  staff :: "obj list option"
  travel :: "obj list option"
  equipment :: "obj list option"
  consumables :: "obj list option"
  other :: "obj list option"
  subcontracting :: "obj list option"
  costModel :: "string option"
  fecRate :: "rat option"
  overheadRate :: "rat option"
  customRate :: "rat option"

text \<open>The value of a field, or its default when the field is absent.\<close>

definition orElse :: "'a option \<Rightarrow> 'a \<Rightarrow> 'a" where
  "orElse x d = (case x of None \<Rightarrow> d | Some v \<Rightarrow> v)"

text \<open>
  The callbacks of \<open>map\<close>, one per category. Each returns \<open>{...item, key: value, ...}\<close>:
  the fields of the item, with the keys that follow written over them.
\<close>

definition staffCalc :: "obj \<Rightarrow> obj" where
  "staffCalc item =
     (let baseSalary = orDefault (parseFloat (get item ''salary'')) 0;
          fte = orDefault (parseFloat (get item ''fte'')) 100 / 100;
          months = orDefault (parseFloat (get item ''months'')) 0;
          onCostRate = orDefault (parseFloat (get item ''onCostRate'')) DEFAULT_ON_COST_RATE;
          annualCost = baseSalary * fte;
          monthlyCost = annualCost / 12;
          totalBase = monthlyCost * months;
          onCosts = totalBase * onCostRate;
          totalWithOnCosts = totalBase + onCosts
      in item(''fte'' \<mapsto> JNum (fte * 100),
              ''annualCost'' \<mapsto> JNum annualCost,
              ''monthlyCost'' \<mapsto> JNum monthlyCost,
              ''totalBase'' \<mapsto> JNum (round_js totalBase),
              ''onCosts'' \<mapsto> JNum (round_js onCosts),
              ''total'' \<mapsto> JNum (round_js totalWithOnCosts)))"

definition travelCalc :: "obj \<Rightarrow> obj" where
  "travelCalc item =
     (let costPerTrip = orDefault (parseFloat (get item ''costPerTrip'')) 0;
          numTrips = orDefault (parseFloat (get item ''numTrips'')) 1
      in item(''total'' \<mapsto> JNum (round_js (costPerTrip * numTrips))))"

text \<open>Equipment, consumables, other costs and subcontracting share one body.\<close>

definition costCalc :: "obj \<Rightarrow> obj" where
  "costCalc item = item(''total'' \<mapsto> JNum (round_js (orDefault (parseFloat (get item ''cost'')) 0)))"

text \<open>Reading \<open>i.total\<close> of a computed item, which is always a number.\<close>

definition totalOf :: "obj \<Rightarrow> rat" where
  "totalOf i = (case get i ''total'' of JNum r \<Rightarrow> r | _ \<Rightarrow> 0)"

record category =
  items :: "obj list"
  total :: rat

record categories =
  staff_c :: category
  travel_c :: category
  equipment_c :: category
  consumables_c :: category
  other_c :: category
  subcontracting_c :: category

record summary =
  directCosts :: rat
  indirectCosts :: rat
  overheadRate_s :: rat
  fullEconomicCost :: rat
  costModel_s :: string
  funderRate :: rat
  funderContribution :: rat
  institutionContribution :: rat

record budget =
  categories :: categories
  summary :: summary

text \<open>The \<open>switch\<close> on the cost model: funder contribution, institution contribution, rate.\<close>

definition contributions :: "string \<Rightarrow> rat \<Rightarrow> rat \<Rightarrow> rat \<Rightarrow> rat \<times> rat \<times> rat" where
  "contributions cm fec custom fullEC =
     (if cm = ''fEC'' then
        (let rate = fec / 100; funder = round_js (fullEC * rate)
         in (funder, round_js (fullEC - funder), rate))
      else if cm = ''full'' then (fullEC, 0, 1)
      else if cm = ''custom'' then
        (let rate = custom / 100; funder = round_js (fullEC * rate)
         in (funder, round_js (fullEC - funder), rate))
      else
        (let rate = fec / 100; funder = round_js (fullEC * rate)
         in (funder, round_js (fullEC - funder), rate)))"

definition calculateBudget :: "budgetData \<Rightarrow> budget" where
  "calculateBudget budgetData =
     (let cm = orElse (costModel budgetData) ''fEC'';
          fec = orElse (fecRate budgetData) 80;
          overhead = orElse (overheadRate budgetData) 25;
          custom = orElse (customRate budgetData) 100;
          staffItems = map staffCalc (orElse (staff budgetData) []);
          travelItems = map travelCalc (orElse (travel budgetData) []);
          equipmentItems = map costCalc (orElse (equipment budgetData) []);
          consumablesItems = map costCalc (orElse (consumables budgetData) []);
          otherItems = map costCalc (orElse (other budgetData) []);
          subItems = map costCalc (orElse (subcontracting budgetData) []);
          staffTotal = sum_js (map totalOf staffItems);
          travelTotal = sum_js (map totalOf travelItems);
          equipmentTotal = sum_js (map totalOf equipmentItems);
          consumablesTotal = sum_js (map totalOf consumablesItems);
          otherTotal = sum_js (map totalOf otherItems);
          subTotal = sum_js (map totalOf subItems);
          direct = staffTotal + travelTotal + equipmentTotal + consumablesTotal + otherTotal + subTotal;
          indirect = round_js (direct * (overhead / 100));
          fullEC = round_js (direct + indirect);
          (funder, institution, rate) = contributions cm fec custom fullEC
      in \<lparr>categories =
            \<lparr>staff_c = \<lparr>items = staffItems, total = staffTotal\<rparr>,
             travel_c = \<lparr>items = travelItems, total = travelTotal\<rparr>,
             equipment_c = \<lparr>items = equipmentItems, total = equipmentTotal\<rparr>,
             consumables_c = \<lparr>items = consumablesItems, total = consumablesTotal\<rparr>,
             other_c = \<lparr>items = otherItems, total = otherTotal\<rparr>,
             subcontracting_c = \<lparr>items = subItems, total = subTotal\<rparr>\<rparr>,
          summary =
            \<lparr>directCosts = direct,
             indirectCosts = indirect,
             overheadRate_s = overhead,
             fullEconomicCost = fullEC,
             costModel_s = cm,
             funderRate = round_js (rate * 100),
             funderContribution = funder,
             institutionContribution = institution\<rparr>\<rparr>)"

text \<open>
  The staff subtotal in the words of the specification, section 4.1:
  \<open>subtotal = (salary \<times> fte/100 / 12 \<times> months) \<times> (1 + onCostRate)\<close>.
\<close>

definition staffSubtotal_spec :: "rat \<Rightarrow> rat \<Rightarrow> rat \<Rightarrow> rat \<Rightarrow> rat" where
  "staffSubtotal_spec salary fte months onCostRate = (salary * (fte / 100) / 12 * months) * (1 + onCostRate)"

text \<open>A budget holding nothing but the given staff items.\<close>

definition staff_only :: "obj list \<Rightarrow> budgetData" where
  "staff_only xs =
     \<lparr>staff = Some xs, travel = None, equipment = None, consumables = None, other = None,
      subcontracting = None, costModel = None, fecRate = None, overheadRate = None, customRate = None\<rparr>"

section \<open>Compliance checking (lib/templates.js)\<close>

subsection \<open>Strings\<close>

definition trim :: "string \<Rightarrow> string" where
  "trim s = rev (dropWhile isWhiteSpace (rev (dropWhile isWhiteSpace s)))"

text \<open>
  \<open>text.split(/\s+/)\<close>: the pieces between maximal runs of white space; a run at either
  end leaves an empty piece there, and the empty string splits into one empty piece.
\<close>

fun split_ws :: "string \<Rightarrow> string \<Rightarrow> bool \<Rightarrow> string list" where
  "split_ws cur [] inRun = [rev cur]"
| "split_ws cur (c # cs) inRun =
     (if isWhiteSpace c then (if inRun then split_ws cur cs True else rev cur # split_ws [] cs True)
      else split_ws (c # cur) cs False)"

definition countWords :: "string \<Rightarrow> nat" where
  "countWords text =
     (if text = [] then 0
      else length (filter (\<lambda>w. length w > 0) (split_ws [] (trim text) False)))"

definition estimatePages :: "string \<Rightarrow> int" where
  "estimatePages text = \<lceil>(of_nat (countWords text) :: rat) / 300\<rceil>"

text \<open>\<open>toLowerCase\<close> on the letters of ASCII.\<close>

definition lowerChar :: "char \<Rightarrow> char" where
  "lowerChar c =
     (case map_of (zip ''ABCDEFGHIJKLMNOPQRSTUVWXYZ'' ''abcdefghijklmnopqrstuvwxyz'') c of
        None \<Rightarrow> c
      | Some l \<Rightarrow> l)"

definition toLowerCase :: "string \<Rightarrow> string" where
  "toLowerCase s = map lowerChar s"

text \<open>\<open>s.includes(sub)\<close>.\<close>

fun includes_js :: "string \<Rightarrow> string \<Rightarrow> bool" where
  "includes_js [] sub = (sub = [])"
| "includes_js (c # cs) sub = (take (length sub) (c # cs) = sub \<or> includes_js cs sub)"

text \<open>\<open>arr.join(sep)\<close>.\<close>

fun join :: "string \<Rightarrow> string list \<Rightarrow> string" where
  "join sep [] = []"
| "join sep [x] = x"
| "join sep (x # y # ys) = x @ sep @ join sep (y # ys)"

text \<open>A word character of a regular expression, \<open>\w\<close>.\<close>

definition isWordChar :: "char \<Rightarrow> bool" where
  "isWordChar c \<longleftrightarrow>
     isDigit c \<or> c = CHR ''_''
     \<or> ((65::nat) \<le> of_char c \<and> of_char c \<le> (90::nat))
     \<or> ((97::nat) \<le> of_char c \<and> of_char c \<le> (122::nat))"

text \<open>
  The number of matches of \<open>\bterm\b\<close> with the flag \<open>g\<close>, for a term made of word
  characters: the places where the term stands with no word character before or after it.
  \<open>ic\<close> is the flag \<open>i\<close>; \<open>prevWord\<close> tells whether the character before is a word character.
\<close>

fun countWholeWord :: "bool \<Rightarrow> string \<Rightarrow> bool \<Rightarrow> string \<Rightarrow> nat" where
  "countWholeWord ic term prevWord [] = 0"
| "countWholeWord ic term prevWord (c # cs) =
     (if \<not> prevWord
         \<and> (if ic then toLowerCase (take (length term) (c # cs)) = toLowerCase term
             else take (length term) (c # cs) = term)
         \<and> (case drop (length term) (c # cs) of [] \<Rightarrow> True | d # r \<Rightarrow> \<not> isWordChar d)
      then 1 else 0)
     + countWholeWord ic term (isWordChar c) cs"

subsection \<open>The heading pattern of findSection\<close>

text \<open>
  \<open>findSection\<close> searches the full text with the regular expression
  \<^verbatim>\<open>(?:^|\n)#+\s*(?:\d+\.?\s*)?NAME[\s\S]*?(?=\n#+\s|$)\<close>, flag \<open>i\<close>, where \<open>NAME\<close> is the
  section name with its special characters escaped, that is, the name taken literally.
  Each function below matches one piece of the pattern followed by the rest \<open>k\<close>, trying
  the alternatives in the order of a backtracking matcher, and returns the number of
  characters matched.
\<close>

text \<open>\<open>p+\<close>, greedy.\<close>

fun rx_plus :: "(char \<Rightarrow> bool) \<Rightarrow> (string \<Rightarrow> nat option) \<Rightarrow> string \<Rightarrow> nat option" where
  "rx_plus p k [] = None"
| "rx_plus p k (c # cs) =
     (if p c then
        (case rx_plus p k cs of
           Some n \<Rightarrow> Some (Suc n)
         | None \<Rightarrow> map_option Suc (k cs))
      else None)"

text \<open>\<open>p*\<close>, greedy.\<close>

definition rx_star :: "(char \<Rightarrow> bool) \<Rightarrow> (string \<Rightarrow> nat option) \<Rightarrow> string \<Rightarrow> nat option" where
  "rx_star p k s = (case rx_plus p k s of Some n \<Rightarrow> Some n | None \<Rightarrow> k s)"

text \<open>\<open>c?\<close>, greedy.\<close>

definition rx_opt :: "char \<Rightarrow> (string \<Rightarrow> nat option) \<Rightarrow> string \<Rightarrow> nat option" where
  "rx_opt c k s =
     (case s of
        [] \<Rightarrow> k s
      | d # r \<Rightarrow>
          if d = c then (case k r of Some n \<Rightarrow> Some (Suc n) | None \<Rightarrow> k s)
          else k s)"

text \<open>The lookahead \<^verbatim>\<open>(?=\n#+\s|$)\<close>.\<close>

definition lookahead :: "string \<Rightarrow> bool" where
  "lookahead s =
     (case s of
        [] \<Rightarrow> True
      | c # cs \<Rightarrow>
          c = CHR 0x0A \<and> takeWhile (\<lambda>h. h = CHR ''#'') cs \<noteq> []
          \<and> (case dropWhile (\<lambda>h. h = CHR ''#'') cs of [] \<Rightarrow> False | w # r \<Rightarrow> isWhiteSpace w))"

text \<open>\<^verbatim>\<open>[\s\S]*?\<close> before the lookahead: as few characters as possible.\<close>

fun rx_lazy_tail :: "string \<Rightarrow> nat" where
  "rx_lazy_tail [] = 0"
| "rx_lazy_tail (c # cs) = (if lookahead (c # cs) then 0 else Suc (rx_lazy_tail cs))"

text \<open>The literal name, letters compared without case, and then the tail.\<close>

definition rx_name :: "string \<Rightarrow> string \<Rightarrow> nat option" where
  "rx_name sectionName s =
     (if length sectionName \<le> length s
         \<and> toLowerCase (take (length sectionName) s) = toLowerCase sectionName
      then Some (length sectionName + rx_lazy_tail (drop (length sectionName) s))
      else None)"

text \<open>\<^verbatim>\<open>(?:\d+\.?\s*)?\<close> and what follows it.\<close>

definition rx_numbering :: "(string \<Rightarrow> nat option) \<Rightarrow> string \<Rightarrow> nat option" where
  "rx_numbering k s =
     (case rx_plus isDigit (rx_opt (CHR ''.'') (rx_star isWhiteSpace k)) s of
        Some n \<Rightarrow> Some n
      | None \<Rightarrow> k s)"

text \<open>The pattern after \<^verbatim>\<open>(?:^|\n)\<close>.\<close>

definition rx_heading :: "string \<Rightarrow> string \<Rightarrow> nat option" where
  "rx_heading sectionName s =
     rx_plus (\<lambda>h. h = CHR ''#'') (rx_star isWhiteSpace (rx_numbering (rx_name sectionName))) s"

text \<open>
  The first match, scanning the start positions from the left. \<open>atStart\<close> holds at the
  first position only, where \<open>^\<close> matches.
\<close>

fun rx_search :: "string \<Rightarrow> bool \<Rightarrow> string \<Rightarrow> string option" where
  "rx_search sectionName atStart [] = None"
| "rx_search sectionName atStart (c # cs) =
     (case (if atStart then rx_heading sectionName (c # cs) else None) of
        Some n \<Rightarrow> Some (take n (c # cs))
      | None \<Rightarrow>
          (case (if c = CHR 0x0A then rx_heading sectionName cs else None) of
             Some n \<Rightarrow> Some (take (Suc n) (c # cs))
           | None \<Rightarrow> rx_search sectionName False cs))"

subsection \<open>Findings\<close>

datatype status = Pass | Warn | Fail

text \<open>
  A template literal: literal text, a number printed by string conversion, or a number
  printed by \<open>toLocaleString()\<close>, whose output depends on the host's locale.
\<close>

datatype part = Lit string | Num rat | Loc rat

record finding =
  check :: string
  status :: status
  message :: "part list"
  advice :: "part list option"

record verdict =
  overall :: status
  results :: "finding list"

record reqSection =
  name :: string
  required :: bool
  maxWords :: "rat option"
  maxPages :: "rat option"

record scheme =
  maxAmount :: "rat option"
  minAmount :: "rat option"
  maxDuration :: "rat option"
  minDuration :: "rat option"
  sections :: "reqSection list option"
  eligibility :: "string option"

record funderData =
  schemes :: "scheme list option"

text \<open>The pound sign in UTF-8, a double quote and an apostrophe.\<close>

definition pound :: string where
  "pound = [CHR 0xC2, CHR 0xA3]"

definition dq :: string where
  "dq = [CHR 0x22]"

definition apostrophe :: string where
  "apostrophe = [CHR 0x27]"

text \<open>A number that is present and not zero is truthy; so is a string that is not empty.\<close>

definition truthyNum :: "rat option \<Rightarrow> bool" where
  "truthyNum x = (case x of None \<Rightarrow> False | Some v \<Rightarrow> v \<noteq> 0)"

definition truthyStr :: "string option \<Rightarrow> bool" where
  "truthyStr x = (case x of None \<Rightarrow> False | Some s \<Rightarrow> s \<noteq> [])"

subsection \<open>findSection\<close>

text \<open>
  The section map is an object whose keys and values are strings, given as the list of
  its properties in the order of \<open>Object.keys\<close>.
\<close>

definition findSection :: "(string \<times> string) list option \<Rightarrow> string option \<Rightarrow> string \<Rightarrow> string option" where
  "findSection sectionMap fullText sectionName =
     (let fromText =
            (if truthyStr fullText then rx_search sectionName True (the fullText) else None)
      in case sectionMap of
           None \<Rightarrow> fromText
         | Some m \<Rightarrow>
             if truthyStr (map_of m sectionName) then map_of m sectionName
             else
               (case find (\<lambda>k. includes_js (toLowerCase k) (toLowerCase sectionName)
                               \<or> includes_js (toLowerCase sectionName) (toLowerCase k)) (map fst m) of
                  None \<Rightarrow> fromText
                | Some key \<Rightarrow> if key \<noteq> [] then map_of m key else fromText))"

subsection \<open>runComplianceChecks\<close>

definition schemeSelectionFinding :: finding where
  "schemeSelectionFinding =
     \<lparr>check = ''Scheme Selection'', status = Fail,
      message = [Lit ''No valid scheme selected for compliance checking.''],
      advice = Some [Lit ''Select a specific grant scheme from the funder dropdown.'']\<rparr>"

text \<open>\<open>funderData.schemes && funderData.schemes[schemeIndex]\<close>; an index outside the array reads \<open>undefined\<close>.\<close>

definition resolveScheme :: "funderData \<Rightarrow> int option \<Rightarrow> scheme option" where
  "resolveScheme funder schemeIndex =
     (case schemes funder of
        None \<Rightarrow> None
      | Some ss \<Rightarrow>
          (let i = orElse schemeIndex 0
           in if 0 \<le> i \<and> i < int (length ss) then Some (ss ! nat i) else None))"

definition budgetMaxChecks :: "scheme \<Rightarrow> jsval \<Rightarrow> finding list" where
  "budgetMaxChecks sch budget =
     (if truthyNum (maxAmount sch) then
        (let budgetNum = orDefault (parseFloat budget) 0; maxA = the (maxAmount sch)
         in if budgetNum > maxA then
              [\<lparr>check = ''Budget Maximum'', status = Fail,
                message = [Lit (''Budget '' @ pound), Loc budgetNum, Lit ('' exceeds maximum '' @ pound),
                           Loc maxA, Lit ''.''],
                advice = Some [Lit (''Reduce your budget to under '' @ pound), Loc maxA,
                               Lit '' for this scheme.'']\<rparr>]
            else if budgetNum > maxA * (95 / 100) then
              [\<lparr>check = ''Budget Maximum'', status = Warn,
                message = [Lit (''Budget '' @ pound), Loc budgetNum, Lit ('' is within 5% of the '' @ pound),
                           Loc maxA, Lit '' maximum.''],
                advice = Some [Lit ''Consider whether you need budget headroom for adjustments.'']\<rparr>]
            else
              [\<lparr>check = ''Budget Maximum'', status = Pass,
                message = [Lit (''Budget '' @ pound), Loc budgetNum, Lit ('' is within the '' @ pound),
                           Loc maxA, Lit '' limit.''],
                advice = None\<rparr>])
      else [])"

definition budgetMinChecks :: "scheme \<Rightarrow> jsval \<Rightarrow> finding list" where
  "budgetMinChecks sch budget =
     (if truthyNum (minAmount sch) then
        (let budgetNum = orDefault (parseFloat budget) 0; minA = the (minAmount sch)
         in if budgetNum < minA \<and> budgetNum > 0 then
              [\<lparr>check = ''Budget Minimum'', status = Fail,
                message = [Lit (''Budget '' @ pound), Loc budgetNum, Lit ('' is below the minimum '' @ pound),
                           Loc minA, Lit ''.''],
                advice = Some [Lit (''This scheme requires a minimum budget of '' @ pound), Loc minA,
                               Lit ''.'']\<rparr>]
            else if budgetNum \<ge> minA then
              [\<lparr>check = ''Budget Minimum'', status = Pass,
                message = [Lit (''Budget meets the minimum '' @ pound), Loc minA, Lit '' threshold.''],
                advice = None\<rparr>]
            else [])
      else [])"

definition durationMaxChecks :: "scheme \<Rightarrow> jsval \<Rightarrow> finding list" where
  "durationMaxChecks sch duration =
     (if truthyNum (maxDuration sch) then
        (let dur = orDefault (parseFloat duration) 0; maxD = the (maxDuration sch)
         in if dur > maxD then
              [\<lparr>check = ''Duration'', status = Fail,
                message = [Lit ''Duration '', Num dur, Lit '' months exceeds maximum '', Num maxD,
                           Lit '' months.''],
                advice = Some [Lit ''Reduce project duration to '', Num maxD, Lit '' months or less.'']\<rparr>]
            else if dur > 0 then
              [\<lparr>check = ''Duration'', status = Pass,
                message = [Lit ''Duration '', Num dur, Lit '' months is within the '', Num maxD,
                           Lit '' month limit.''],
                advice = None\<rparr>]
            else [])
      else [])"

definition durationMinChecks :: "scheme \<Rightarrow> jsval \<Rightarrow> finding list" where
  "durationMinChecks sch duration =
     (if truthyNum (minDuration sch) then
        (let dur = orDefault (parseFloat duration) 0; minD = the (minDuration sch)
         in if dur < minD \<and> dur > 0 then
              [\<lparr>check = ''Duration Minimum'', status = Fail,
                message = [Lit ''Duration '', Num dur, Lit '' months is below the minimum '', Num minD,
                           Lit '' months.''],
                advice = Some [Lit ''This scheme requires at least '', Num minD,
                               Lit '' months duration.'']\<rparr>]
            else [])
      else [])"

definition missingSectionFinding :: "reqSection \<Rightarrow> finding" where
  "missingSectionFinding r =
     \<lparr>check = ''Section: '' @ name r, status = Fail,
      message = [Lit (''Required section '' @ dq @ name r @ dq @ '' is missing or too short.'')],
      advice = Some [Lit (''Add a substantive '' @ dq @ name r @ dq @ '' section to your proposal.'')]\<rparr>"

definition presentFinding :: "reqSection \<Rightarrow> finding" where
  "presentFinding r =
     \<lparr>check = ''Section: '' @ name r @ '' (Present)'', status = Pass,
      message = [Lit (''Required section '' @ dq @ name r @ dq @ '' is present.'')],
      advice = None\<rparr>"

definition wordLimitChecks :: "reqSection \<Rightarrow> string option \<Rightarrow> finding list" where
  "wordLimitChecks r sectionText =
     (if truthyNum (maxWords r) \<and> truthyStr sectionText then
        (let wc = countWords (the sectionText); maxW = the (maxWords r)
         in if of_nat wc > maxW then
              [\<lparr>check = ''Section: '' @ name r @ '' (Word Limit)'', status = Fail,
                message = [Lit (dq @ name r @ dq @ '' is ''), Num (of_nat wc), Lit '' words (limit: '',
                           Num maxW, Lit '').''],
                advice = Some [Lit ''Reduce by '', Num (of_nat wc - maxW), Lit '' words. Current: '',
                               Num (of_nat wc), Lit ''/'', Num maxW, Lit ''.'']\<rparr>]
            else if of_nat wc > maxW * (9 / 10) then
              [\<lparr>check = ''Section: '' @ name r @ '' (Word Limit)'', status = Warn,
                message = [Lit (dq @ name r @ dq @ '' is ''), Num (of_nat wc), Lit ''/'', Num maxW,
                           Lit '' words ('', Num (Math_round (of_nat wc / maxW * 100)), Lit ''%).''],
                advice = Some [Lit ''Close to the word limit. Leave some margin for final edits.'']\<rparr>]
            else if wc > 0 then
              [\<lparr>check = ''Section: '' @ name r @ '' (Word Limit)'', status = Pass,
                message = [Lit (dq @ name r @ dq @ '' is ''), Num (of_nat wc), Lit ''/'', Num maxW,
                           Lit '' words.''],
                advice = None\<rparr>]
            else [])
      else [])"

definition pageLimitChecks :: "reqSection \<Rightarrow> string option \<Rightarrow> finding list" where
  "pageLimitChecks r sectionText =
     (if truthyNum (maxPages r) \<and> truthyStr sectionText then
        (let pages = estimatePages (the sectionText); maxP = the (maxPages r)
         in if of_int pages > maxP then
              [\<lparr>check = ''Section: '' @ name r @ '' (Page Limit)'', status = Fail,
                message = [Lit (dq @ name r @ dq @ '' is approximately ''), Num (of_int pages),
                           Lit '' pages (limit: '', Num maxP, Lit '').''],
                advice = Some [Lit ''Estimated at ~300 words/page. Reduce content to fit within '',
                               Num maxP, Lit '' page(s).'']\<rparr>]
            else
              [\<lparr>check = ''Section: '' @ name r @ '' (Page Limit)'', status = Pass,
                message = [Lit (dq @ name r @ dq @ '' fits within ''), Num maxP, Lit '' page(s).''],
                advice = None\<rparr>])
      else [])"

text \<open>
  The body of the loop over the required sections: the findings one iteration pushes.
  The first branch is the one that ends with \<open>continue\<close>.
\<close>

definition sectionChecks :: "(string \<times> string) list option \<Rightarrow> string option \<Rightarrow> reqSection \<Rightarrow> finding list" where
  "sectionChecks sectionMap proposalText r =
     (let sectionText = findSection sectionMap proposalText (name r)
      in if required r \<and> (\<not> truthyStr sectionText \<or> length (trim (the sectionText)) < 50) then
           [missingSectionFinding r]
         else
           (if required r then [presentFinding r] else [])
           @ wordLimitChecks r sectionText
           @ pageLimitChecks r sectionText)"

fun sectionLoop :: "(string \<times> string) list option \<Rightarrow> string option \<Rightarrow> reqSection list \<Rightarrow> finding list \<Rightarrow> finding list" where
  "sectionLoop sectionMap proposalText [] res = res"
| "sectionLoop sectionMap proposalText (r # rs) res =
     sectionLoop sectionMap proposalText rs (res @ sectionChecks sectionMap proposalText r)"

text \<open>\<open>proposalText || Object.values(sections || {}).join('\n')\<close>.\<close>

definition fullTextOf :: "string option \<Rightarrow> (string \<times> string) list option \<Rightarrow> string" where
  "fullTextOf proposalText sectionMap =
     (if truthyStr proposalText then the proposalText
      else join [CHR 0x0A] (map snd (orElse sectionMap [])))"

definition vagueTerms :: "string list" where
  "vagueTerms = [''very'', ''quite'', ''somewhat'', ''fairly'', ''rather'', ''extremely'']"

definition textChecks :: "string \<Rightarrow> finding list" where
  "textChecks fullText =
     (if fullText \<noteq> [] then
        (let totalWords = countWords fullText;
             firstPersonCount = countWholeWord False ''I'' False fullText;
             vagueCount = foldl (\<lambda>count term. count + countWholeWord True term False fullText) 0 vagueTerms
         in [\<lparr>check = ''Total Word Count'', status = Pass,
              message = [Lit ''Total proposal text: '', Loc (of_nat totalWords), Lit '' words.''],
              advice = None\<rparr>]
            @ (if firstPersonCount > 10 then
                 [\<lparr>check = ''First Person Usage'', status = Warn,
                   message = [Lit ''Found '', Num (of_nat firstPersonCount),
                              Lit ('' instances of '' @ dq @ ''I'' @ dq @ ''. Most funders prefer '' @ dq
                                   @ ''we'' @ dq @ '' or passive voice.'')],
                   advice = Some [Lit (''Consider using '' @ dq @ ''we'' @ dq
                                       @ '' for team applications or passive constructions.'')]\<rparr>]
               else [])
            @ (if vagueCount > 15 then
                 [\<lparr>check = ''Vague Language'', status = Warn,
                   message = [Lit ''Found '', Num (of_nat vagueCount),
                              Lit '' instances of vague qualifiers (very, quite, somewhat, etc.).''],
                   advice = Some [Lit ''Replace vague qualifiers with specific, evidence-based language.'']\<rparr>]
               else []))
      else [])"

definition eligibilityChecks :: "scheme \<Rightarrow> finding list" where
  "eligibilityChecks sch =
     (if truthyStr (eligibility sch) then
        [\<lparr>check = ''Eligibility'', status = Warn,
          message = [Lit (''Eligibility requirement: '' @ the (eligibility sch))],
          advice = Some [Lit ''Ensure you meet this eligibility criterion before submitting.'']\<rparr>]
      else [])"

definition attachmentNames :: "string list" where
  "attachmentNames = [''CV'', ''Letter of Support'', ''Ethics Approval'', ''Data Management Plan'']"

definition attachmentChecks :: "scheme \<Rightarrow> finding list" where
  "attachmentChecks sch =
     (case sections sch of
        None \<Rightarrow> []
      | Some reqs \<Rightarrow>
          (let attachmentSections =
                 filter (\<lambda>s. list_ex (\<lambda>a. includes_js (toLowerCase (name s)) (toLowerCase a)) attachmentNames) reqs
           in if length attachmentSections > 0 then
                [\<lparr>check = ''Required Attachments'', status = Warn,
                  message = [Lit (''Don'' @ apostrophe @ ''t forget: ''
                                  @ join '', '' (map name attachmentSections))],
                  advice = Some [Lit ''Ensure all required attachments are prepared before submission.'']\<rparr>]
              else []))"

definition overallStatus :: "finding list \<Rightarrow> status" where
  "overallStatus res =
     (if list_ex (\<lambda>r. status r = Fail) res then Fail
      else if list_ex (\<lambda>r. status r = Warn) res then Warn
      else Pass)"

definition runComplianceChecks ::
  "string option \<Rightarrow> (string \<times> string) list option \<Rightarrow> funderData \<Rightarrow> int option \<Rightarrow> jsval \<Rightarrow> jsval \<Rightarrow> verdict" where
  "runComplianceChecks proposalText sectionMap funder schemeIndex budget duration =
     (case resolveScheme funder schemeIndex of
        None \<Rightarrow> \<lparr>overall = Fail, results = [schemeSelectionFinding]\<rparr>
      | Some sch \<Rightarrow>
          (let res0 = budgetMaxChecks sch budget @ budgetMinChecks sch budget
                      @ durationMaxChecks sch duration @ durationMinChecks sch duration;
               res1 = (case sections sch of
                         None \<Rightarrow> res0
                       | Some reqs \<Rightarrow> sectionLoop sectionMap proposalText reqs res0);
               res2 = res1 @ textChecks (fullTextOf proposalText sectionMap)
                      @ eligibilityChecks sch @ attachmentChecks sch
           in \<lparr>overall = overallStatus res2, results = res2\<rparr>))"


text \<open>A funder with one scheme that declares nothing but the given sections.\<close>

definition funder_with_sections :: "reqSection list \<Rightarrow> funderData" where
  "funder_with_sections rs =
     \<lparr>schemes = Some [\<lparr>maxAmount = None, minAmount = None, maxDuration = None, minDuration = None,
                        sections = Some rs, eligibility = None\<rparr>]\<rparr>"

text \<open>A funder with one scheme that declares nothing at all.\<close>

definition funder_bare :: funderData where
  "funder_bare =
     \<lparr>schemes = Some [\<lparr>maxAmount = None, minAmount = None, maxDuration = None, minDuration = None,
                        sections = None, eligibility = None\<rparr>]\<rparr>"

section \<open>Binary floating point (IEEE 754 binary64)\<close>

text \<open>
  A JavaScript number is a double: a finite value, one of the two infinities, or \<open>NaN\<close>.
  A finite double is written as the rational it denotes; the negative zero is not told
  apart from zero (the engine never divides by a value it computed, and \<open>-0 === 0\<close>).
  Every operation below returns a double, the rounding \<open>rnd\<close> of the exact result, and a
  number literal \<open>r\<close> of an example is written \<open>rnd r\<close>.
\<close>

datatype double = Fin rat | PInf | NInf | NaN

text \<open>
  The binary exponent of a positive magnitude, kept within the range of the format:
  the least \<open>e\<close> from \<open>-1022\<close> on with \<open>a < 2 ^ (e + 1)\<close>, and at most 1024.
\<close>

fun expo :: "nat \<Rightarrow> int \<Rightarrow> rat \<Rightarrow> int" where
  "expo 0 e a = e"
| "expo (Suc n) e a = (if a < 2 powi (e + 1) then e else expo n (e + 1) a)"

definition exponent :: "rat \<Rightarrow> int" where
  "exponent a = expo 2046 (- 1022) a"

text \<open>The nearest integer, a tie going to the even one.\<close>

definition roundEven :: "rat \<Rightarrow> int" where
  "roundEven x =
     (if x - of_int \<lfloor>x\<rfloor> < 1 / 2 then \<lfloor>x\<rfloor>
      else if x - of_int \<lfloor>x\<rfloor> > 1 / 2 then \<lfloor>x\<rfloor> + 1
      else if even \<lfloor>x\<rfloor> then \<lfloor>x\<rfloor> else \<lfloor>x\<rfloor> + 1)"

definition overflowBound :: rat where
  "overflowBound = 2 powi 1024"

text \<open>
  The double nearest to a rational, ties to even: the magnitude is rounded to a multiple of
  the spacing \<open>2 ^ (e - 52)\<close> of the doubles at its exponent \<open>e\<close> (the spacing of the
  subnormal numbers below \<open>2 ^ -1022\<close>), and a result of \<open>2 ^ 1024\<close> is an infinity.
\<close>

definition rnd :: "rat \<Rightarrow> double" where
  "rnd x =
     (let q = 2 powi (exponent \<bar>x\<bar> - 52);
          y = of_int (roundEven (\<bar>x\<bar> / q)) * q
      in if overflowBound \<le> y then (if x < 0 then NInf else PInf)
         else Fin (if x < 0 then - y else y))"

fun dneg :: "double \<Rightarrow> double" where
  "dneg (Fin a) = Fin (- a)"
| "dneg PInf = NInf"
| "dneg NInf = PInf"
| "dneg NaN = NaN"

text \<open>\<open>x + y\<close>.\<close>

fun dadd :: "double \<Rightarrow> double \<Rightarrow> double" where
  "dadd (Fin a) (Fin b) = rnd (a + b)"
| "dadd NaN y = NaN"
| "dadd x NaN = NaN"
| "dadd PInf NInf = NaN"
| "dadd NInf PInf = NaN"
| "dadd PInf y = PInf"
| "dadd NInf y = NInf"
| "dadd x PInf = PInf"
| "dadd x NInf = NInf"

text \<open>\<open>x - y\<close>.\<close>

definition dsub :: "double \<Rightarrow> double \<Rightarrow> double" where
  "dsub x y = dadd x (dneg y)"

text \<open>The sign of a product with an infinity; an infinity times zero is \<open>NaN\<close>.\<close>

definition signedInf :: "rat \<Rightarrow> double" where
  "signedInf s = (if s = 0 then NaN else if 0 < s then PInf else NInf)"

text \<open>\<open>x * y\<close>.\<close>

fun dmul :: "double \<Rightarrow> double \<Rightarrow> double" where
  "dmul (Fin a) (Fin b) = rnd (a * b)"
| "dmul NaN y = NaN"
| "dmul x NaN = NaN"
| "dmul PInf (Fin b) = signedInf b"
| "dmul NInf (Fin b) = signedInf (- b)"
| "dmul (Fin a) PInf = signedInf a"
| "dmul (Fin a) NInf = signedInf (- a)"
| "dmul PInf PInf = PInf"
| "dmul PInf NInf = NInf"
| "dmul NInf PInf = NInf"
| "dmul NInf NInf = PInf"

text \<open>
  \<open>x / c\<close> for a literal \<open>c\<close> that is positive. Every division of the engine is by the
  literal 12 or the literal 100.
\<close>

fun ddiv :: "double \<Rightarrow> rat \<Rightarrow> double" where
  "ddiv (Fin a) c = rnd (a / c)"
| "ddiv PInf c = PInf"
| "ddiv NInf c = NInf"
| "ddiv NaN c = NaN"

text \<open>
  \<open>Math.round\<close>: the nearest integer, a tie going up. The nearest integer of a double is
  a double.
\<close>

fun Math_round_d :: "double \<Rightarrow> double" where
  "Math_round_d (Fin x) = Fin (of_int \<lfloor>x + 1 / 2\<rfloor>)"
| "Math_round_d PInf = PInf"
| "Math_round_d NInf = NInf"
| "Math_round_d NaN = NaN"

text \<open>\<open>x || d\<close> on a number \<open>x\<close>: \<open>NaN\<close> and zero are falsy.\<close>

definition orDefault_d :: "double \<Rightarrow> double \<Rightarrow> double" where
  "orDefault_d x d = (if x = NaN \<or> x = Fin 0 then d else x)"

text \<open>A primitive value whose numbers are doubles, and an object of such values.\<close>

datatype dval = DUndefined | DNull | DBool bool | DNum double | DStr string

type_synonym obj_d = "string \<rightharpoonup> dval"

definition get_d :: "obj_d \<Rightarrow> string \<Rightarrow> dval" where
  "get_d item k = (case item k of None \<Rightarrow> DUndefined | Some v \<Rightarrow> v)"

text \<open>
  An unsigned \<open>StrDecimalLiteral\<close> at the head of a string: the word \<open>Infinity\<close>, or a
  decimal literal, whose value is rounded to the nearest double.
\<close>

definition unsignedLiteral_d :: "string \<Rightarrow> double" where
  "unsignedLiteral_d u =
     (if take 8 u = ''Infinity'' then PInf
      else case unsignedDecimal u of None \<Rightarrow> NaN | Some r \<Rightarrow> rnd r)"

definition parseFloat_str_d :: "string \<Rightarrow> double" where
  "parseFloat_str_d s =
     (case dropWhile isWhiteSpace s of
        [] \<Rightarrow> NaN
      | c # r \<Rightarrow>
          if c = CHR ''-'' then dneg (unsignedLiteral_d r)
          else if c = CHR ''+'' then unsignedLiteral_d r
          else unsignedLiteral_d (c # r))"

text \<open>
  \<open>parseFloat\<close> converts its argument to a string first. A number prints as the shortest
  decimal that reads back as the same double, an infinity as \<open>Infinity\<close> and \<open>NaN\<close> as
  \<open>NaN\<close>, so a number is returned as it is.
\<close>

fun parseFloat_d :: "dval \<Rightarrow> double" where
  "parseFloat_d (DNum x) = x"
| "parseFloat_d (DStr s) = parseFloat_str_d s"
| "parseFloat_d DUndefined = NaN"
| "parseFloat_d DNull = NaN"
| "parseFloat_d (DBool b) = NaN"

section \<open>Budget calculation in double arithmetic (lib/budget-calc.js)\<close>

text \<open>
  The engine once more, with every arithmetic operation of the source rounded as the
  machine rounds it. Where a statement depends on the figures computed it is made in this
  model; the exact model above serves where only the choice of a default is in question.
\<close>

definition DEFAULT_ON_COST_RATE_d :: double where
  "DEFAULT_ON_COST_RATE_d = Fin (25 / 100)"

definition round_d :: "double \<Rightarrow> double" where
  "round_d n = ddiv (Math_round_d (dmul n (Fin 100))) 100"

definition sum_d :: "double list \<Rightarrow> double" where
  "sum_d arr = round_d (foldl (\<lambda>a b. dadd a b) (Fin 0) arr)"

text \<open>
  The argument of \<open>calculateBudget\<close>; \<open>'a\<close> is what stands for an array of line items.
\<close>

record 'a budgetData_d =
  staff_d :: "'a option"
  travel_d :: "'a option"
  equipment_d :: "'a option"
  consumables_d :: "'a option"
  other_d :: "'a option"
  subcontracting_d :: "'a option"
  costModel_d :: "string option"
  fecRate_d :: "double option"
  overheadRate_d :: "double option"
  customRate_d :: "double option"

definition staffCalc_d :: "obj_d \<Rightarrow> obj_d" where
  "staffCalc_d item =
     (let baseSalary = orDefault_d (parseFloat_d (get_d item ''salary'')) (Fin 0);
          fte = ddiv (orDefault_d (parseFloat_d (get_d item ''fte'')) (Fin 100)) 100;
          months = orDefault_d (parseFloat_d (get_d item ''months'')) (Fin 0);
          onCostRate = orDefault_d (parseFloat_d (get_d item ''onCostRate'')) DEFAULT_ON_COST_RATE_d;
          annualCost = dmul baseSalary fte;
          monthlyCost = ddiv annualCost 12;
          totalBase = dmul monthlyCost months;
          onCosts = dmul totalBase onCostRate;
          totalWithOnCosts = dadd totalBase onCosts
      in item(''fte'' \<mapsto> DNum (dmul fte (Fin 100)),
              ''annualCost'' \<mapsto> DNum annualCost,
              ''monthlyCost'' \<mapsto> DNum monthlyCost,
              ''totalBase'' \<mapsto> DNum (round_d totalBase),
              ''onCosts'' \<mapsto> DNum (round_d onCosts),
              ''total'' \<mapsto> DNum (round_d totalWithOnCosts)))"

definition travelCalc_d :: "obj_d \<Rightarrow> obj_d" where
  "travelCalc_d item =
     (let costPerTrip = orDefault_d (parseFloat_d (get_d item ''costPerTrip'')) (Fin 0);
          numTrips = orDefault_d (parseFloat_d (get_d item ''numTrips'')) (Fin 1)
      in item(''total'' \<mapsto> DNum (round_d (dmul costPerTrip numTrips))))"

definition costCalc_d :: "obj_d \<Rightarrow> obj_d" where
  "costCalc_d item =
     item(''total'' \<mapsto> DNum (round_d (orDefault_d (parseFloat_d (get_d item ''cost'')) (Fin 0))))"

text \<open>Reading \<open>i.total\<close> of a computed item, which is always a number.\<close>

definition totalOf_d :: "obj_d \<Rightarrow> double" where
  "totalOf_d i = (case get_d i ''total'' of DNum r \<Rightarrow> r | _ \<Rightarrow> NaN)"

record 'a category_d =
  items_d :: 'a
  total_d :: double

record 'a categories_d =
  staff_cd :: "'a category_d"
  travel_cd :: "'a category_d"
  equipment_cd :: "'a category_d"
  consumables_cd :: "'a category_d"
  other_cd :: "'a category_d"
  subcontracting_cd :: "'a category_d"

record summary_d =
  directCosts_d :: double
  indirectCosts_d :: double
  overheadRate_sd :: double
  fullEconomicCost_d :: double
  costModel_sd :: string
  funderRate_d :: double
  funderContribution_d :: double
  institutionContribution_d :: double

record 'a budget_d =
  categories_d :: "'a categories_d"
  summary_d :: summary_d

definition contributions_d :: "string \<Rightarrow> double \<Rightarrow> double \<Rightarrow> double \<Rightarrow> double \<times> double \<times> double" where
  "contributions_d cm fec custom fullEC =
     (if cm = ''fEC'' then
        (let rate = ddiv fec 100; funder = round_d (dmul fullEC rate)
         in (funder, round_d (dsub fullEC funder), rate))
      else if cm = ''full'' then (fullEC, Fin 0, Fin 1)
      else if cm = ''custom'' then
        (let rate = ddiv custom 100; funder = round_d (dmul fullEC rate)
         in (funder, round_d (dsub fullEC funder), rate))
      else
        (let rate = ddiv fec 100; funder = round_d (dmul fullEC rate)
         in (funder, round_d (dsub fullEC funder), rate)))"

text \<open>
  Lines 87 to 145: the category totals and the summary, from the six computed arrays;
  \<open>elems\<close> reads the elements of an array.
\<close>

definition summarise :: "('a \<Rightarrow> obj_d list) \<Rightarrow> string \<Rightarrow> double \<Rightarrow> double \<Rightarrow> double \<Rightarrow>
    'a \<Rightarrow> 'a \<Rightarrow> 'a \<Rightarrow> 'a \<Rightarrow> 'a \<Rightarrow> 'a \<Rightarrow> 'a budget_d" where
  "summarise elems cm fec overhead custom staffItems travelItems equipmentItems consumablesItems otherItems subItems =
     (let staffTotal = sum_d (map totalOf_d (elems staffItems));
          travelTotal = sum_d (map totalOf_d (elems travelItems));
          equipmentTotal = sum_d (map totalOf_d (elems equipmentItems));
          consumablesTotal = sum_d (map totalOf_d (elems consumablesItems));
          otherTotal = sum_d (map totalOf_d (elems otherItems));
          subTotal = sum_d (map totalOf_d (elems subItems));
          direct = dadd (dadd (dadd (dadd (dadd staffTotal travelTotal) equipmentTotal) consumablesTotal)
                     otherTotal) subTotal;
          indirect = round_d (dmul direct (ddiv overhead 100));
          fullEC = round_d (dadd direct indirect);
          (funder, institution, rate) = contributions_d cm fec custom fullEC
      in \<lparr>categories_d =
            \<lparr>staff_cd = \<lparr>items_d = staffItems, total_d = staffTotal\<rparr>,
             travel_cd = \<lparr>items_d = travelItems, total_d = travelTotal\<rparr>,
             equipment_cd = \<lparr>items_d = equipmentItems, total_d = equipmentTotal\<rparr>,
             consumables_cd = \<lparr>items_d = consumablesItems, total_d = consumablesTotal\<rparr>,
             other_cd = \<lparr>items_d = otherItems, total_d = otherTotal\<rparr>,
             subcontracting_cd = \<lparr>items_d = subItems, total_d = subTotal\<rparr>\<rparr>,
          summary_d =
            \<lparr>directCosts_d = direct,
             indirectCosts_d = indirect,
             overheadRate_sd = overhead,
             fullEconomicCost_d = fullEC,
             costModel_sd = cm,
             funderRate_d = round_d (dmul rate (Fin 100)),
             funderContribution_d = funder,
             institutionContribution_d = institution\<rparr>\<rparr>)"

text \<open>
  \<open>calculateBudget\<close> on values: an array is the list of its items, and \<open>map\<close> on it the
  list of the results.
\<close>

definition calculateBudget_d :: "obj_d list budgetData_d \<Rightarrow> obj_d list budget_d" where
  "calculateBudget_d budgetData =
     summarise (\<lambda>xs. xs)
       (orElse (costModel_d budgetData) ''fEC'')
       (orElse (fecRate_d budgetData) (Fin 80))
       (orElse (overheadRate_d budgetData) (Fin 25))
       (orElse (customRate_d budgetData) (Fin 100))
       (map staffCalc_d (orElse (staff_d budgetData) []))
       (map travelCalc_d (orElse (travel_d budgetData) []))
       (map costCalc_d (orElse (equipment_d budgetData) []))
       (map costCalc_d (orElse (consumables_d budgetData) []))
       (map costCalc_d (orElse (other_d budgetData) []))
       (map costCalc_d (orElse (subcontracting_d budgetData) []))"

text \<open>An argument with no field at all.\<close>

definition noItems :: "'a budgetData_d" where
  "noItems = \<lparr>staff_d = None, travel_d = None, equipment_d = None, consumables_d = None, other_d = None,
      subcontracting_d = None, costModel_d = None, fecRate_d = None, overheadRate_d = None, customRate_d = None\<rparr>"

section \<open>The engine on a store of objects\<close>

text \<open>
  Line items are objects and categories are arrays of them, and the caller keeps references
  to both. To say what the engine does to the caller's objects the store is made explicit:
  a list of cells, a reference being an index into it. A new cell goes to the end.
\<close>

type_synonym addr = nat

datatype cell = Object obj_d | Array "addr list"

type_synonym store = "cell list"

definition alloc :: "cell \<Rightarrow> store \<Rightarrow> addr \<times> store" where
  "alloc c s = (length s, s @ [c])"

text \<open>
  A binding of the destructuring pattern with the default \<open>[]\<close>: the array given, or a new
  empty array.
\<close>

definition orEmptyArray :: "addr option \<Rightarrow> store \<Rightarrow> addr \<times> store" where
  "orEmptyArray a s = (case a of None \<Rightarrow> alloc (Array []) s | Some arr \<Rightarrow> (arr, s))"

text \<open>The object behind a reference; a reference to anything else has no fields to read.\<close>

definition objAt :: "store \<Rightarrow> addr \<Rightarrow> obj_d" where
  "objAt s a = (if a < length s then (case s ! a of Object item \<Rightarrow> item | Array xs \<Rightarrow> Map.empty) else Map.empty)"

text \<open>
  The loop of \<open>arr.map(f)\<close> for a callback \<open>item => ({...item, ...})\<close>: each element is
  read and the object literal allocates a new object. An element that is not a line item
  object is outside the model (\<open>null\<close> and \<open>undefined\<close> make the callback throw).
\<close>

fun mapElems :: "(obj_d \<Rightarrow> obj_d) \<Rightarrow> addr list \<Rightarrow> store \<Rightarrow> (addr list \<times> store) option" where
  "mapElems f [] s = Some ([], s)"
| "mapElems f (a # as) s =
     (if a < length s then
        (case s ! a of
           Object item \<Rightarrow>
             (let (b, s1) = alloc (Object (f item)) s
              in case mapElems f as s1 of
                   None \<Rightarrow> None
                 | Some (bs, s2) \<Rightarrow> Some (b # bs, s2))
         | Array xs \<Rightarrow> None)
      else None)"

text \<open>
  \<open>arr.map(f)\<close>: a new array is created, the loop runs, and the results are stored in the
  new array. On something that is no array the call throws.
\<close>

definition array_map :: "(obj_d \<Rightarrow> obj_d) \<Rightarrow> addr \<Rightarrow> store \<Rightarrow> (addr \<times> store) option" where
  "array_map f arr s =
     (if arr < length s then
        (case s ! arr of
           Array xs \<Rightarrow>
             (let (A, s1) = alloc (Array []) s
              in case mapElems f xs s1 of
                   None \<Rightarrow> None
                 | Some (ys, s2) \<Rightarrow> Some (A, s2[A := Array ys]))
         | Object item \<Rightarrow> None)
      else None)"

text \<open>The elements of an array of objects.\<close>

definition elemsAt :: "store \<Rightarrow> addr \<Rightarrow> obj_d list" where
  "elemsAt s a = (if a < length s then (case s ! a of Array xs \<Rightarrow> map (objAt s) xs | Object item \<Rightarrow> []) else [])"

text \<open>
  \<open>calculateBudget\<close> on the store: the argument holds references to the six arrays, and
  the result references to the six new arrays, next to the store after the call.
\<close>

definition calculateBudget_s :: "addr budgetData_d \<Rightarrow> store \<Rightarrow> (addr budget_d \<times> store) option" where
  "calculateBudget_s budgetData s0 =
     (let (staffArr, s1) = orEmptyArray (staff_d budgetData) s0;
          (travelArr, s2) = orEmptyArray (travel_d budgetData) s1;
          (equipmentArr, s3) = orEmptyArray (equipment_d budgetData) s2;
          (consumablesArr, s4) = orEmptyArray (consumables_d budgetData) s3;
          (otherArr, s5) = orEmptyArray (other_d budgetData) s4;
          (subArr, s6) = orEmptyArray (subcontracting_d budgetData) s5
      in case array_map staffCalc_d staffArr s6 of None \<Rightarrow> None | Some (staffItems, s7) \<Rightarrow>
         (case array_map travelCalc_d travelArr s7 of None \<Rightarrow> None | Some (travelItems, s8) \<Rightarrow>
         (case array_map costCalc_d equipmentArr s8 of None \<Rightarrow> None | Some (equipmentItems, s9) \<Rightarrow>
         (case array_map costCalc_d consumablesArr s9 of None \<Rightarrow> None | Some (consumablesItems, s10) \<Rightarrow>
         (case array_map costCalc_d otherArr s10 of None \<Rightarrow> None | Some (otherItems, s11) \<Rightarrow>
         (case array_map costCalc_d subArr s11 of None \<Rightarrow> None | Some (subItems, s12) \<Rightarrow>
            Some (summarise (elemsAt s12)
                    (orElse (costModel_d budgetData) ''fEC'')
                    (orElse (fecRate_d budgetData) (Fin 80))
                    (orElse (overheadRate_d budgetData) (Fin 25))
                    (orElse (customRate_d budgetData) (Fin 100))
                    staffItems travelItems equipmentItems consumablesItems otherItems subItems, s12)))))))"

text \<open>A reference to an object, and a reference to an array of objects.\<close>

definition isObject :: "store \<Rightarrow> addr \<Rightarrow> bool" where
  "isObject s a \<longleftrightarrow> a < length s \<and> (case s ! a of Object item \<Rightarrow> True | Array xs \<Rightarrow> False)"

definition isItemArray :: "store \<Rightarrow> addr \<Rightarrow> bool" where
  "isItemArray s a \<longleftrightarrow>
     a < length s \<and> (case s ! a of Array xs \<Rightarrow> list_all (isObject s) xs | Object item \<Rightarrow> False)"

text \<open>What the caller passes: each category is absent or a reference to an array of objects.\<close>

definition validInput :: "addr budgetData_d \<Rightarrow> store \<Rightarrow> bool" where
  "validInput d s \<longleftrightarrow>
     list_all (\<lambda>c. case c of None \<Rightarrow> True | Some a \<Rightarrow> isItemArray s a)
       [staff_d d, travel_d d, equipment_d d, consumables_d d, other_d d, subcontracting_d d]"

text \<open>The items of a category as the caller passes them; an absent category has none.\<close>

definition inputItems :: "store \<Rightarrow> addr option \<Rightarrow> obj_d list" where
  "inputItems s a = (case a of None \<Rightarrow> [] | Some arr \<Rightarrow> elemsAt s arr)"

text \<open>
  An output item against its input item: it has the fields of the input item and the keys
  the engine writes, agrees with the input item outside these keys, and holds a number
  under each of them.
\<close>

definition annotated :: "string list \<Rightarrow> obj_d \<Rightarrow> obj_d \<Rightarrow> bool" where
  "annotated keys item out \<longleftrightarrow>
     dom out = dom item \<union> set keys \<and>
     (\<forall>k. k \<notin> set keys \<longrightarrow> out k = item k) \<and>
     (\<forall>k \<in> set keys. \<exists>x. out k = Some (DNum x))"

text \<open>
  \<open>A\<close> is, in the store \<open>s'\<close>, an array that did not exist in the store \<open>s\<close>, of objects
  that did not exist in \<open>s\<close>, one for each of the items \<open>ins\<close> and in their order, each
  annotated under \<open>keys\<close>.
\<close>

definition newItems :: "string list \<Rightarrow> store \<Rightarrow> obj_d list \<Rightarrow> store \<Rightarrow> addr \<Rightarrow> bool" where
  "newItems keys s ins s' A \<longleftrightarrow>
     length s \<le> A \<and> A < length s' \<and>
     (\<exists>ys. s' ! A = Array ys \<and> length ys = length ins \<and>
        (\<forall>n < length ys. length s \<le> ys ! n \<and> isObject s' (ys ! n) \<and>
           annotated keys (ins ! n) (objAt s' (ys ! n))))"

text \<open>
  \<open>A\<close> is, in the store \<open>s'\<close>, an array that did not exist in \<open>s\<close>, of objects that did
  not exist in \<open>s\<close>: the results of \<open>f\<close> on the items \<open>ins\<close>, in their order.
\<close>

definition mappedItems :: "(obj_d \<Rightarrow> obj_d) \<Rightarrow> store \<Rightarrow> obj_d list \<Rightarrow> store \<Rightarrow> addr \<Rightarrow> bool" where
  "mappedItems f s ins s' A \<longleftrightarrow>
     length s \<le> A \<and> A < length s' \<and>
     (\<exists>ys. s' ! A = Array ys \<and> length ys = length ins \<and>
        (\<forall>n < length ys. length s \<le> ys ! n \<and> isObject s' (ys ! n) \<and> objAt s' (ys ! n) = f (ins ! n)))"

text \<open>The keys that the callback of the staff category writes.\<close>

definition staffKeys :: "string list" where
  "staffKeys = [''fte'', ''annualCost'', ''monthlyCost'', ''totalBase'', ''onCosts'', ''total'']"

text \<open>The argument and the result with each array replaced by the list of its items.\<close>

definition derefData :: "store \<Rightarrow> addr budgetData_d \<Rightarrow> obj_d list budgetData_d" where
  "derefData s d =
     \<lparr>staff_d = map_option (elemsAt s) (staff_d d),
      travel_d = map_option (elemsAt s) (travel_d d),
      equipment_d = map_option (elemsAt s) (equipment_d d),
      consumables_d = map_option (elemsAt s) (consumables_d d),
      other_d = map_option (elemsAt s) (other_d d),
      subcontracting_d = map_option (elemsAt s) (subcontracting_d d),
      costModel_d = costModel_d d, fecRate_d = fecRate_d d, overheadRate_d = overheadRate_d d,
      customRate_d = customRate_d d\<rparr>"

definition derefCategory :: "store \<Rightarrow> addr category_d \<Rightarrow> obj_d list category_d" where
  "derefCategory s c = \<lparr>items_d = elemsAt s (items_d c), total_d = total_d c\<rparr>"

definition derefBudget :: "store \<Rightarrow> addr budget_d \<Rightarrow> obj_d list budget_d" where
  "derefBudget s b =
     \<lparr>categories_d =
        \<lparr>staff_cd = derefCategory s (staff_cd (categories_d b)),
         travel_cd = derefCategory s (travel_cd (categories_d b)),
         equipment_cd = derefCategory s (equipment_cd (categories_d b)),
         consumables_cd = derefCategory s (consumables_cd (categories_d b)),
         other_cd = derefCategory s (other_cd (categories_d b)),
         subcontracting_cd = derefCategory s (subcontracting_cd (categories_d b))\<rparr>,
      summary_d = summary_d b\<rparr>"

section \<open>Examples\<close>

text \<open>The worked example of the specification, section 8.\<close>

definition example_staff_d :: "obj_d list budgetData_d" where
  "example_staff_d =
     \<lparr>staff_d = Some [[''salary'' \<mapsto> DNum (Fin 40000), ''fte'' \<mapsto> DNum (Fin 100),
                        ''months'' \<mapsto> DNum (Fin 12), ''onCostRate'' \<mapsto> DNum (Fin (1 / 4))]],
      travel_d = None, equipment_d = None, consumables_d = None, other_d = None, subcontracting_d = None,
      costModel_d = Some ''fEC'', fecRate_d = Some (Fin 80), overheadRate_d = Some (Fin 25),
      customRate_d = None\<rparr>"

text \<open>The worked example with an \<open>fte\<close> of 0.\<close>

definition example_fte_zero :: "obj_d list budgetData_d" where
  "example_fte_zero =
     noItems\<lparr>staff_d := Some [[''salary'' \<mapsto> DNum (Fin 40000), ''fte'' \<mapsto> DNum (Fin 0),
                                  ''months'' \<mapsto> DNum (Fin 12), ''onCostRate'' \<mapsto> DNum (Fin (1 / 4))]]\<rparr>"

text \<open>An equipment item of cost 0.1 and a consumables item of cost 0.2.\<close>

definition example_tenths :: "obj_d list budgetData_d" where
  "example_tenths =
     noItems\<lparr>equipment_d := Some [[''cost'' \<mapsto> DNum (rnd (1 / 10))]],
             consumables_d := Some [[''cost'' \<mapsto> DNum (rnd (1 / 5))]]\<rparr>"

text \<open>An equipment item whose cost is the string \<open>Infinity\<close>, and one of cost 28165318651924.56.\<close>

definition example_infinite :: "obj_d list budgetData_d" where
  "example_infinite = noItems\<lparr>equipment_d := Some [[''cost'' \<mapsto> DStr ''Infinity'']]\<rparr>"

definition example_large :: "obj_d list budgetData_d" where
  "example_large = noItems\<lparr>equipment_d := Some [[''cost'' \<mapsto> DNum (rnd (2816531865192456 / 100))]]\<rparr>"

text \<open>A staff item whose \<open>fte\<close> is a string, a store that holds it in an array, and the argument that refers to the array.\<close>

definition example_ada :: obj_d where
  "example_ada = [''name'' \<mapsto> DStr ''Ada'', ''salary'' \<mapsto> DNum (Fin 1000), ''fte'' \<mapsto> DStr ''50'',
                  ''months'' \<mapsto> DNum (Fin 12)]"

definition example_store :: store where
  "example_store = [Object example_ada, Array [0]]"

definition example_refs :: "addr budgetData_d" where
  "example_refs = noItems\<lparr>staff_d := Some 1\<rparr>"

section \<open>Evaluating floors of rational numerals\<close>

lemma floor_numeral_div_rat: "\<lfloor>(numeral a :: rat) / numeral b\<rfloor> = numeral a div numeral b"
  using floor_divide_of_int_eq [of "numeral a" "numeral b", where ?'a = rat] by simp

lemma floor_one_div_rat: "\<lfloor>(1 :: rat) / numeral b\<rfloor> = 1 div numeral b"
  using floor_divide_of_int_eq [of 1 "numeral b", where ?'a = rat] by simp

lemma floor_neg_numeral_div_rat: "\<lfloor>- ((numeral a :: rat) / numeral b)\<rfloor> = - numeral a div numeral b"
  using floor_divide_of_int_eq [of "- numeral a" "numeral b", where ?'a = rat] by simp

lemmas floor_rat = floor_numeral_div_rat floor_one_div_rat floor_neg_numeral_div_rat

lemmas round_eval = round_js_def Math_round_def floor_rat

section \<open>The parts of the budget calculation in exact arithmetic\<close>

lemma totalOf_staffCalc:
  "totalOf (staffCalc item) =
     round_js (staffSubtotal_spec (orDefault (parseFloat (get item ''salary'')) 0)
                 (orDefault (parseFloat (get item ''fte'')) 100)
                 (orDefault (parseFloat (get item ''months'')) 0)
                 (orDefault (parseFloat (get item ''onCostRate'')) (1 / 4)))"
  by (simp add: totalOf_def staffCalc_def Let_def get_def staffSubtotal_spec_def DEFAULT_ON_COST_RATE_def
        ring_distribs add_divide_distrib)

lemma totalOf_cong: "x ''total'' = y ''total'' \<Longrightarrow> totalOf x = totalOf y"
  by (simp add: totalOf_def get_def)

lemma calculateBudget_items:
  "items (staff_c (categories (calculateBudget d))) = map staffCalc (orElse (staff d) [])"
  "items (travel_c (categories (calculateBudget d))) = map travelCalc (orElse (travel d) [])"
  "items (equipment_c (categories (calculateBudget d))) = map costCalc (orElse (equipment d) [])"
  "items (consumables_c (categories (calculateBudget d))) = map costCalc (orElse (consumables d) [])"
  "items (other_c (categories (calculateBudget d))) = map costCalc (orElse (other d) [])"
  "items (subcontracting_c (categories (calculateBudget d))) = map costCalc (orElse (subcontracting d) [])"
  by (simp_all add: calculateBudget_def Let_def split: prod.splits)

text \<open>A parsed zero is falsy, so the default takes its place.\<close>

lemma get_upd: "get (item(k \<mapsto> v)) k' = (if k' = k then v else get item k')"
  by (simp add: get_def)

lemma staffCalc_fte_zero:
  assumes "parseFloat v = Some 0"
  shows "staffCalc (item(''fte'' \<mapsto> v)) = staffCalc (item(''fte'' \<mapsto> JNum 100))"
  using assms by (simp add: staffCalc_def Let_def get_upd orDefault_def)

lemma staffCalc_onCostRate_zero:
  assumes "parseFloat v = Some 0" and "k \<noteq> ''onCostRate''"
  shows "staffCalc (item(''onCostRate'' \<mapsto> v)) k = staffCalc (item(''onCostRate'' \<mapsto> JNum (1 / 4))) k"
  using assms by (simp add: staffCalc_def Let_def get_upd orDefault_def DEFAULT_ON_COST_RATE_def)

lemma travelCalc_numTrips_zero:
  assumes "parseFloat v = Some 0" and "k \<noteq> ''numTrips''"
  shows "travelCalc (item(''numTrips'' \<mapsto> v)) k = travelCalc (item(''numTrips'' \<mapsto> JNum 1)) k"
  using assms by (simp add: travelCalc_def Let_def get_upd orDefault_def)

lemma summary_staff_cong:
  assumes "map totalOf (map staffCalc xs) = map totalOf (map staffCalc ys)"
  shows "summary (calculateBudget (d\<lparr>staff := Some xs\<rparr>)) = summary (calculateBudget (d\<lparr>staff := Some ys\<rparr>))"
  using assms by (simp add: calculateBudget_def Let_def orElse_def split: prod.splits)

lemma summary_travel_cong:
  assumes "map totalOf (map travelCalc xs) = map totalOf (map travelCalc ys)"
  shows "summary (calculateBudget (d\<lparr>travel := Some xs\<rparr>)) = summary (calculateBudget (d\<lparr>travel := Some ys\<rparr>))"
  using assms by (simp add: calculateBudget_def Let_def orElse_def split: prod.splits)

lemma staff_only_fields:
  "staff (staff_only xs) = Some xs"
  "travel (staff_only xs) = None" "equipment (staff_only xs) = None" "consumables (staff_only xs) = None"
  "other (staff_only xs) = None" "subcontracting (staff_only xs) = None"
  "costModel (staff_only xs) = None" "fecRate (staff_only xs) = None"
  "overheadRate (staff_only xs) = None" "customRate (staff_only xs) = None"
  by (simp_all add: staff_only_def)

section \<open>Powers of two and the binary exponent\<close>

lemma pow2_less: "m < n \<Longrightarrow> (2::rat) powi m < 2 powi n"
  by (rule power_int_strict_increasing) simp_all

lemma pow2_le: "m \<le> n \<Longrightarrow> (2::rat) powi m \<le> 2 powi n"
  by (rule power_int_increasing) simp_all

lemma pow2_less_cancel: "(2::rat) powi m < 2 powi n \<Longrightarrow> m < n"
  using pow2_le [of n m] by (cases "m < n") auto

lemma pow2_le_cancel: "(2::rat) powi m \<le> 2 powi n \<Longrightarrow> m \<le> n"
  using pow2_less [of n m] by (cases "m \<le> n") auto

lemma expo_range: "e \<le> expo n e a \<and> expo n e a \<le> e + int n"
proof (induction n arbitrary: e)
  case 0
  show ?case by simp
next
  case (Suc n)
  from Suc [of "e + 1"] show ?case by simp
qed

lemma expo_upper: "expo n e a < e + int n \<Longrightarrow> a < 2 powi (expo n e a + 1)"
proof (induction n arbitrary: e)
  case 0
  then show ?case by simp
next
  case (Suc n)
  show ?case
  proof (cases "a < 2 powi (e + 1)")
    case True
    then show ?thesis by simp
  next
    case False
    with Suc.prems have "expo n (e + 1) a < (e + 1) + int n" by simp
    from Suc.IH [OF this] False show ?thesis by simp
  qed
qed

lemma expo_lower: "e < expo n e a \<Longrightarrow> 2 powi (expo n e a) \<le> a"
proof (induction n arbitrary: e)
  case 0
  then show ?case by simp
next
  case (Suc n)
  show ?case
  proof (cases "a < 2 powi (e + 1)")
    case True
    with Suc.prems show ?thesis by simp
  next
    case False
    show ?thesis
    proof (cases "e + 1 < expo n (e + 1) a")
      case True
      from Suc.IH [OF this] False show ?thesis by simp
    next
      case b: False
      with expo_range [of "e + 1" n a] have "expo n (e + 1) a = e + 1" by simp
      with False show ?thesis by simp
    qed
  qed
qed

lemma exponent_range: "- 1022 \<le> exponent a \<and> exponent a \<le> 1024"
  using expo_range [of "- 1022" 2046 a] by (simp add: exponent_def)

lemma exponent_upper: "a < 2 powi 1024 \<Longrightarrow> a < 2 powi (exponent a + 1)"
proof -
  assume a: "a < 2 powi 1024"
  have "exponent a \<noteq> 1024"
  proof
    assume "exponent a = 1024"
    then have "2 powi 1024 \<le> a"
      using expo_lower [of "- 1022" 2046 a] by (simp add: exponent_def)
    with a show False by simp
  qed
  with exponent_range [of a] have "exponent a < 1024" by simp
  then show ?thesis
    using expo_upper [of 2046 "- 1022" a] by (simp add: exponent_def)
qed

lemma exponent_lower: "- 1022 < exponent a \<Longrightarrow> 2 powi (exponent a) \<le> a"
  using expo_lower [of "- 1022" 2046 a] by (simp add: exponent_def)

lemma exponent_eq:
  assumes "- 1022 \<le> e" and "e \<le> 1023" and "e = - 1022 \<or> 2 powi e \<le> a" and "a < 2 powi (e + 1)"
  shows "exponent a = e"
proof -
  have "a < 2 powi 1024"
    using assms(2,4) pow2_le [of "e + 1" 1024] by simp
  then have u: "a < 2 powi (exponent a + 1)" by (rule exponent_upper)
  show ?thesis
  proof (rule antisym)
    show "exponent a \<le> e"
    proof (rule ccontr)
      assume "\<not> exponent a \<le> e"
      then have g: "e < exponent a" by simp
      with assms(1) have "2 powi (exponent a) \<le> a" by (intro exponent_lower) simp
      with assms(4) have "(2::rat) powi (exponent a) < 2 powi (e + 1)" by simp
      then have "exponent a < e + 1" by (rule pow2_less_cancel)
      with g show False by simp
    qed
    show "e \<le> exponent a"
    proof (rule ccontr)
      assume "\<not> e \<le> exponent a"
      then have g: "exponent a < e" by simp
      with exponent_range [of a] assms(3) have "2 powi e \<le> a" by auto
      with u have "(2::rat) powi e < 2 powi (exponent a + 1)" by simp
      then have "e < exponent a + 1" by (rule pow2_less_cancel)
      with g show False by simp
    qed
  qed
qed

section \<open>The double nearest to a rational\<close>

lemma roundEven_eq:
  assumes "\<bar>of_int m - x\<bar> < 1 / 2 \<or> (\<bar>of_int m - x\<bar> = 1 / 2 \<and> even m)"
  shows "roundEven x = m"
proof -
  have f: "of_int \<lfloor>x\<rfloor> \<le> x" "x < of_int \<lfloor>x\<rfloor> + 1"
    by linarith+
  consider (lo) "\<lfloor>x\<rfloor> = m" | (hi) "\<lfloor>x\<rfloor> = m - 1"
    using assms f by (cases "of_int m \<le> x") (auto simp: abs_if split: if_splits, linarith+)
  then show ?thesis
  proof cases
    case lo
    with assms show ?thesis
      by (auto simp: roundEven_def abs_if split: if_splits)
  next
    case hi
    with assms f show ?thesis
      by (auto simp: roundEven_def abs_if split: if_splits)
  qed
qed

lemma roundEven_close: "\<bar>of_int (roundEven x) - x\<bar> \<le> 1 / 2"
proof -
  have "of_int \<lfloor>x\<rfloor> \<le> x" "x < of_int \<lfloor>x\<rfloor> + 1"
    by linarith+
  then show ?thesis
    unfolding roundEven_def by (simp add: abs_if) linarith
qed

text \<open>A double is found by giving its exponent and its significand.\<close>

lemma rnd_eval:
  assumes "- 1022 \<le> e" and "e \<le> 1023"
    and "e = - 1022 \<or> 2 powi e \<le> \<bar>x\<bar>" and "\<bar>x\<bar> < 2 powi (e + 1)"
    and "\<bar>of_int m - \<bar>x\<bar> / 2 powi (e - 52)\<bar> < 1 / 2
         \<or> (\<bar>of_int m - \<bar>x\<bar> / 2 powi (e - 52)\<bar> = 1 / 2 \<and> even m)"
    and "y = of_int m * 2 powi (e - 52)" and "y < overflowBound"
  shows "rnd x = Fin (if x < 0 then - y else y)"
proof -
  have e: "exponent \<bar>x\<bar> = e"
    using assms(1-4) by (rule exponent_eq)
  have m: "roundEven (\<bar>x\<bar> / 2 powi (e - 52)) = m"
    using assms(5) by (rule roundEven_eq)
  have n: "\<not> overflowBound \<le> y"
    using assms(7) by simp
  show ?thesis
    unfolding rnd_def Let_def e m assms(6) [symmetric] by (simp only: n if_False)
qed

lemma roundEven_le:
  assumes "z \<le> of_int n"
  shows "roundEven z \<le> n"
proof -
  have "\<bar>of_int (roundEven z) - z\<bar> \<le> 1 / 2"
    by (rule roundEven_close)
  with assms have "(of_int (roundEven z) :: rat) < of_int (n + 1)"
    by (simp add: abs_if split: if_splits)
  then show ?thesis by simp
qed

lemma roundEven_nonneg:
  assumes "0 \<le> z"
  shows "0 \<le> roundEven z"
proof -
  have "\<bar>of_int (roundEven z) - z\<bar> \<le> 1 / 2"
    by (rule roundEven_close)
  with assms have "(of_int (- 1) :: rat) < of_int (roundEven z)"
    by (simp add: abs_if split: if_splits)
  then show ?thesis by (simp only: of_int_less_iff)
qed

lemma pow2_add: "(2::rat) powi m * 2 powi n = 2 powi (m + n)"
  by (simp add: power_int_add)

lemma pow2_pos: "0 < (2::rat) powi n"
  by simp

lemma pow2_nat: "0 \<le> n \<Longrightarrow> (2::rat) powi n = of_int (2 ^ nat n)"
  by (simp add: power_int_def)

text \<open>Rounding is off by at most half a unit in the last place, and never past a power of two.\<close>

lemma rnd_close:
  assumes "\<bar>x\<bar> \<le> 2 powi k" and "- 1022 \<le> k" and "k \<le> 1023"
  shows "\<exists>y. rnd x = Fin y \<and> \<bar>y - x\<bar> \<le> 2 powi (k - 53) \<and> \<bar>y\<bar> \<le> 2 powi k"
proof -
  define a where "a = \<bar>x\<bar>"
  define e where "e = exponent a"
  define q :: rat where "q = 2 powi (e - 52)"
  define m where "m = roundEven (a / q)"
  define ya where "ya = of_int m * q"
  have q: "0 < q" unfolding q_def by (rule pow2_pos)
  have a0: "0 \<le> a" by (simp add: a_def)
  have "(2::rat) powi k \<le> 2 powi 1023"
    using assms(3) by (rule pow2_le)
  also have "\<dots> < overflowBound" unfolding overflowBound_def by (rule pow2_less) simp
  finally have k1024: "(2::rat) powi k < overflowBound" .
  have ak: "a \<le> 2 powi k"
    using assms(1) by (simp only: a_def)
  have ek: "e \<le> k"
  proof (rule ccontr)
    assume "\<not> e \<le> k"
    then have g: "k < e" by simp
    with assms(2) have "2 powi e \<le> a"
      unfolding e_def by (intro exponent_lower) simp
    with ak have "(2::rat) powi e \<le> 2 powi k" by linarith
    then have "e \<le> k" by (rule pow2_le_cancel)
    with g show False by simp
  qed
  have "\<bar>of_int m - a / q\<bar> \<le> 1 / 2"
    unfolding m_def by (rule roundEven_close)
  then have "\<bar>of_int m - a / q\<bar> * q \<le> 1 / 2 * q"
    using q by (intro mult_right_mono) simp_all
  moreover have "\<bar>of_int m - a / q\<bar> * q = \<bar>ya - a\<bar>"
  proof -
    have "\<bar>of_int m - a / q\<bar> * q = \<bar>of_int m - a / q\<bar> * \<bar>q\<bar>"
      using q by simp
    also have "\<dots> = \<bar>(of_int m - a / q) * q\<bar>"
      by (simp only: abs_mult)
    also have "(of_int m - a / q) * q = ya - a"
      using q by (simp add: ya_def left_diff_distrib)
    finally show ?thesis .
  qed
  moreover have "1 / 2 * q = 2 powi (e - 53)"
  proof -
    have "(2::rat) powi (- 1) * 2 powi (e - 52) = 2 powi (- 1 + (e - 52))"
      by (rule pow2_add)
    moreover have "(2::rat) powi (- 1) = 1 / 2"
      by (simp add: power_int_minus_divide)
    moreover have "- 1 + (e - 52) = e - 53" by simp
    ultimately show ?thesis by (simp only: q_def)
  qed
  moreover have "(2::rat) powi (e - 53) \<le> 2 powi (k - 53)"
    using ek by (intro pow2_le) simp
  ultimately have err: "\<bar>ya - a\<bar> \<le> 2 powi (k - 53)" by simp
  have kq: "2 powi (k - e + 52) * q = 2 powi k"
  proof -
    have "(2::rat) powi (k - e + 52) * 2 powi (e - 52) = 2 powi (k - e + 52 + (e - 52))"
      by (rule pow2_add)
    moreover have "k - e + 52 + (e - 52) = k" by simp
    ultimately show ?thesis by (simp only: q_def)
  qed
  have "a = a / q * q" using q by simp
  have "a / q * q \<le> 2 powi (k - e + 52) * q"
    using ak q kq by simp
  then have "a / q \<le> 2 powi (k - e + 52)"
    using q by (simp only: mult_le_cancel_right_pos)
  also have "\<dots> = of_int (2 ^ nat (k - e + 52))"
    using ek by (intro pow2_nat) simp
  finally have "m \<le> 2 ^ nat (k - e + 52)"
    unfolding m_def by (rule roundEven_le)
  then have "(of_int m :: rat) \<le> of_int (2 ^ nat (k - e + 52))"
    by (simp only: of_int_le_iff)
  also have "(of_int (2 ^ nat (k - e + 52)) :: rat) = 2 powi (k - e + 52)"
    using ek by (intro pow2_nat [symmetric]) simp
  finally have "ya \<le> 2 powi (k - e + 52) * q"
    unfolding ya_def using q by (intro mult_right_mono) simp_all
  then have yk: "ya \<le> 2 powi k" by (simp only: kq)
  have "0 \<le> a / q" using a0 q by simp
  then have "0 \<le> m"
    unfolding m_def by (rule roundEven_nonneg)
  then have y0: "0 \<le> ya"
    using q by (simp add: ya_def)
  have no: "\<not> overflowBound \<le> ya"
    using yk k1024 by simp
  have r: "rnd x = Fin (if x < 0 then - ya else ya)"
    unfolding rnd_def Let_def a_def [symmetric] e_def [symmetric] q_def [symmetric]
      m_def [symmetric] ya_def [symmetric]
    by (simp only: no if_False)
  have "\<bar>(if x < 0 then - ya else ya) - x\<bar> = \<bar>ya - a\<bar>"
    by (simp add: a_def abs_if)
  moreover have "\<bar>if x < 0 then - ya else ya\<bar> = ya"
    using y0 by simp
  ultimately show ?thesis
    using r err yk by auto
qed

text \<open>The same for a rational of known sign and moderate size, as the examples need it.\<close>

lemma small_no_overflow: "y \<le> 2 ^ 64 \<Longrightarrow> y < overflowBound"
proof -
  assume "y \<le> 2 ^ 64"
  also have "(2::rat) ^ 64 = 2 powi 64" by simp
  also have "\<dots> < overflowBound" unfolding overflowBound_def by (rule pow2_less) simp
  finally show ?thesis .
qed

lemma rnd_eval_pos:
  assumes "0 \<le> x" and "- 1022 \<le> e" and "e \<le> 1023"
    and "e = - 1022 \<or> 2 powi e \<le> x" and "x < 2 powi (e + 1)"
    and "\<bar>of_int m - x / 2 powi (e - 52)\<bar> < 1 / 2
         \<or> (\<bar>of_int m - x / 2 powi (e - 52)\<bar> = 1 / 2 \<and> even m)"
    and "y = of_int m * 2 powi (e - 52)" and "y \<le> 2 ^ 64"
  shows "rnd x = Fin y"
proof -
  have a: "\<bar>x\<bar> = x" using assms(1) by simp
  have n: "\<not> x < 0" using assms(1) by simp
  have o: "y < overflowBound" using assms(8) by (rule small_no_overflow)
  show ?thesis
    using rnd_eval [of e x m y] assms(2-7) o by (simp only: a n if_False)
qed

lemma rnd_eval_neg:
  assumes "x < 0" and "- 1022 \<le> e" and "e \<le> 1023"
    and "e = - 1022 \<or> 2 powi e \<le> - x" and "- x < 2 powi (e + 1)"
    and "\<bar>of_int m - (- x) / 2 powi (e - 52)\<bar> < 1 / 2
         \<or> (\<bar>of_int m - (- x) / 2 powi (e - 52)\<bar> = 1 / 2 \<and> even m)"
    and "y = - (of_int m * 2 powi (e - 52))" and "- y \<le> 2 ^ 64"
  shows "rnd x = Fin y"
proof -
  have a: "\<bar>x\<bar> = - x" using assms(1) by simp
  have y: "- y = of_int m * 2 powi (e - 52)" using assms(7) by simp
  have o: "- y < overflowBound" using assms(8) by (rule small_no_overflow)
  have "rnd x = Fin (if x < 0 then - (- y) else - y)"
    by (rule rnd_eval [of e x m "- y"]) (use assms(2-6) y o in \<open>simp_all only: a\<close>)
  thus ?thesis using assms(1) by simp
qed

section \<open>The parts of the budget calculation in double arithmetic\<close>

lemma calculateBudget_d_items:
  "items_d (staff_cd (categories_d (calculateBudget_d d))) = map staffCalc_d (orElse (staff_d d) [])"
  "items_d (travel_cd (categories_d (calculateBudget_d d))) = map travelCalc_d (orElse (travel_d d) [])"
  "items_d (equipment_cd (categories_d (calculateBudget_d d))) = map costCalc_d (orElse (equipment_d d) [])"
  "items_d (consumables_cd (categories_d (calculateBudget_d d))) = map costCalc_d (orElse (consumables_d d) [])"
  "items_d (other_cd (categories_d (calculateBudget_d d))) = map costCalc_d (orElse (other_d d) [])"
  "items_d (subcontracting_cd (categories_d (calculateBudget_d d))) = map costCalc_d (orElse (subcontracting_d d) [])"
  by (simp_all add: calculateBudget_d_def summarise_def Let_def split: prod.splits)

lemma calculateBudget_d_totals:
  "total_d (staff_cd (categories_d (calculateBudget_d d)))
     = sum_d (map totalOf_d (items_d (staff_cd (categories_d (calculateBudget_d d)))))"
  "total_d (travel_cd (categories_d (calculateBudget_d d)))
     = sum_d (map totalOf_d (items_d (travel_cd (categories_d (calculateBudget_d d)))))"
  "total_d (equipment_cd (categories_d (calculateBudget_d d)))
     = sum_d (map totalOf_d (items_d (equipment_cd (categories_d (calculateBudget_d d)))))"
  "total_d (consumables_cd (categories_d (calculateBudget_d d)))
     = sum_d (map totalOf_d (items_d (consumables_cd (categories_d (calculateBudget_d d)))))"
  "total_d (other_cd (categories_d (calculateBudget_d d)))
     = sum_d (map totalOf_d (items_d (other_cd (categories_d (calculateBudget_d d)))))"
  "total_d (subcontracting_cd (categories_d (calculateBudget_d d)))
     = sum_d (map totalOf_d (items_d (subcontracting_cd (categories_d (calculateBudget_d d)))))"
  by (simp_all add: calculateBudget_d_def summarise_def Let_def split: prod.splits)

lemma calculateBudget_d_directCosts:
  "directCosts_d (summary_d (calculateBudget_d d)) =
     dadd (dadd (dadd (dadd (dadd (total_d (staff_cd (categories_d (calculateBudget_d d))))
       (total_d (travel_cd (categories_d (calculateBudget_d d)))))
       (total_d (equipment_cd (categories_d (calculateBudget_d d)))))
       (total_d (consumables_cd (categories_d (calculateBudget_d d)))))
       (total_d (other_cd (categories_d (calculateBudget_d d)))))
       (total_d (subcontracting_cd (categories_d (calculateBudget_d d))))"
  by (simp add: calculateBudget_d_def summarise_def Let_def split: prod.splits)

lemma calculateBudget_d_indirectCosts:
  "indirectCosts_d (summary_d (calculateBudget_d d)) =
     round_d (dmul (directCosts_d (summary_d (calculateBudget_d d)))
       (ddiv (orElse (overheadRate_d d) (Fin 25)) 100))"
  by (simp add: calculateBudget_d_def summarise_def Let_def split: prod.splits)

lemma calculateBudget_d_fullEconomicCost:
  "fullEconomicCost_d (summary_d (calculateBudget_d d)) =
     round_d (dadd (directCosts_d (summary_d (calculateBudget_d d)))
       (indirectCosts_d (summary_d (calculateBudget_d d))))"
  by (simp add: calculateBudget_d_def summarise_def Let_def split: prod.splits)

lemma calculateBudget_d_contributions:
  "(funderContribution_d (summary_d (calculateBudget_d d)),
    institutionContribution_d (summary_d (calculateBudget_d d))) =
   (case contributions_d (orElse (costModel_d d) ''fEC'') (orElse (fecRate_d d) (Fin 80))
       (orElse (customRate_d d) (Fin 100)) (fullEconomicCost_d (summary_d (calculateBudget_d d)))
    of (f, i, r) \<Rightarrow> (f, i))"
  by (simp add: calculateBudget_d_def summarise_def Let_def split: prod.splits)

lemma calculateBudget_d_split:
  "funderContribution_d (summary_d (calculateBudget_d d)) =
     (if orElse (costModel_d d) ''fEC'' = ''full'' then fullEconomicCost_d (summary_d (calculateBudget_d d))
      else round_d (dmul (fullEconomicCost_d (summary_d (calculateBudget_d d)))
             (ddiv (if orElse (costModel_d d) ''fEC'' = ''custom'' then orElse (customRate_d d) (Fin 100)
                    else orElse (fecRate_d d) (Fin 80)) 100)))"
  "institutionContribution_d (summary_d (calculateBudget_d d)) =
     (if orElse (costModel_d d) ''fEC'' = ''full'' then Fin 0
      else round_d (dsub (fullEconomicCost_d (summary_d (calculateBudget_d d)))
             (funderContribution_d (summary_d (calculateBudget_d d)))))"
  by (simp_all add: calculateBudget_d_def summarise_def contributions_d_def Let_def split: prod.splits)

lemma noItems_fields:
  "staff_d noItems = None" "travel_d noItems = None" "equipment_d noItems = None"
  "consumables_d noItems = None" "other_d noItems = None" "subcontracting_d noItems = None"
  "costModel_d noItems = None" "fecRate_d noItems = None" "overheadRate_d noItems = None"
  "customRate_d noItems = None"
  by (simp_all add: noItems_def)

lemma rnd_zero: "rnd 0 = Fin 0"
  by (rule rnd_eval_pos [where e = "- 1022" and m = 0]) simp_all

lemma sum_d_Nil: "sum_d [] = Fin 0"
  by (simp add: sum_d_def round_d_def rnd_zero floor_rat)

text \<open>A parsed zero is falsy in double arithmetic as well, so the default takes its place.\<close>

lemma get_d_upd: "get_d (item(k \<mapsto> v)) k' = (if k' = k then v else get_d item k')"
  by (simp add: get_d_def)

lemma staffCalc_d_fte_zero:
  assumes "parseFloat_d v = Fin 0"
  shows "staffCalc_d (item(''fte'' \<mapsto> v)) = staffCalc_d (item(''fte'' \<mapsto> DNum (Fin 100)))"
  using assms by (simp add: staffCalc_d_def Let_def get_d_upd orDefault_d_def)

lemma staffCalc_d_onCostRate_zero:
  assumes "parseFloat_d v = Fin 0" and "k \<noteq> ''onCostRate''"
  shows "staffCalc_d (item(''onCostRate'' \<mapsto> v)) k = staffCalc_d (item(''onCostRate'' \<mapsto> DNum (Fin (1 / 4)))) k"
  using assms by (simp add: staffCalc_d_def Let_def get_d_upd orDefault_d_def DEFAULT_ON_COST_RATE_d_def)

lemma travelCalc_d_numTrips_zero:
  assumes "parseFloat_d v = Fin 0" and "k \<noteq> ''numTrips''"
  shows "travelCalc_d (item(''numTrips'' \<mapsto> v)) k = travelCalc_d (item(''numTrips'' \<mapsto> DNum (Fin 1))) k"
  using assms by (simp add: travelCalc_d_def Let_def get_d_upd orDefault_d_def)

section \<open>Rounding amounts of a bounded size\<close>

lemma roundEven_ge:
  assumes "of_int n \<le> z"
  shows "n \<le> roundEven z"
proof -
  have "\<bar>of_int (roundEven z) - z\<bar> \<le> 1 / 2"
    by (rule roundEven_close)
  with assms have "(of_int (n - 1) :: rat) < of_int (roundEven z)"
    by (simp add: abs_if split: if_splits)
  then show ?thesis by (simp only: of_int_less_iff)
qed

text \<open>Rounding does not take a magnitude below a power of two that it has reached.\<close>

lemma rnd_lower:
  assumes "2 powi k \<le> \<bar>x\<bar>" and "- 1022 \<le> k" and "k \<le> 1023" and "rnd x = Fin y"
  shows "2 powi k \<le> \<bar>y\<bar>"
proof -
  define a where "a = \<bar>x\<bar>"
  define e where "e = exponent a"
  define q :: rat where "q = 2 powi (e - 52)"
  define m where "m = roundEven (a / q)"
  define ya where "ya = of_int m * q"
  have q: "0 < q" unfolding q_def by (rule pow2_pos)
  have ka: "2 powi k \<le> a" using assms(1) by (simp only: a_def)
  have r: "rnd x = (if overflowBound \<le> ya then (if x < 0 then NInf else PInf)
                    else Fin (if x < 0 then - ya else ya))"
    unfolding rnd_def Let_def a_def [symmetric] e_def [symmetric] q_def [symmetric]
      m_def [symmetric] ya_def [symmetric] ..
  have y: "y = (if x < 0 then - ya else ya)"
    using assms(4) r by (simp split: if_splits)
  have ke: "k \<le> e"
  proof (rule ccontr)
    assume "\<not> k \<le> e"
    then have g: "e < k" by simp
    with assms(3) have "expo 2046 (- 1022) a < - 1022 + int 2046"
      by (simp add: e_def exponent_def)
    then have "a < 2 powi (expo 2046 (- 1022) a + 1)"
      by (rule expo_upper)
    then have "a < 2 powi (e + 1)" by (simp only: e_def exponent_def)
    moreover have "(2::rat) powi (e + 1) \<le> 2 powi k" using g by (intro pow2_le) simp
    ultimately show False using ka by linarith
  qed
  have ea: "2 powi e \<le> a"
  proof (cases "- 1022 < e")
    case True
    then show ?thesis unfolding e_def by (rule exponent_lower)
  next
    case False
    with exponent_range [of a] have "e = - 1022" by (simp add: e_def)
    with ke assms(2) have "k = e" by simp
    with ka show ?thesis by simp
  qed
  have eq: "2 powi 52 * q = 2 powi e"
  proof -
    have "(2::rat) powi 52 * 2 powi (e - 52) = 2 powi (52 + (e - 52))"
      by (rule pow2_add)
    moreover have "52 + (e - 52) = e" by simp
    ultimately show ?thesis by (simp only: q_def)
  qed
  have "2 powi 52 * q \<le> a" using ea by (simp only: eq)
  then have "2 powi 52 \<le> a / q" using q by (simp add: pos_le_divide_eq)
  moreover have "(2::rat) powi 52 = of_int (2 ^ nat 52)" by (rule pow2_nat) simp
  ultimately have "of_int (2 ^ nat 52) \<le> a / q" by simp
  then have "2 ^ nat 52 \<le> m" unfolding m_def by (rule roundEven_ge)
  then have "(of_int (2 ^ nat 52) :: rat) \<le> of_int m" by (simp only: of_int_le_iff)
  then have "(2::rat) powi 52 \<le> of_int m" by simp
  then have "2 powi 52 * q \<le> of_int m * q" using q by (intro mult_right_mono) simp_all
  then have "2 powi e \<le> ya" by (simp only: eq ya_def)
  moreover have "(2::rat) powi k \<le> 2 powi e" using ke by (rule pow2_le)
  ultimately have "2 powi k \<le> ya" by linarith
  moreover have "0 < ya" using \<open>2 powi e \<le> ya\<close> pow2_pos [of e] by linarith
  ultimately show ?thesis using y by (simp add: abs_if)
qed

lemma rnd_bounded:
  assumes "rnd x = Fin y" and "\<bar>y\<bar> < 2 powi k" and "- 1022 \<le> k" and "k \<le> 1023"
  shows "\<bar>x\<bar> < 2 powi k" and "\<bar>y - x\<bar> \<le> 2 powi (k - 53)"
proof -
  show b: "\<bar>x\<bar> < 2 powi k"
  proof (rule ccontr)
    assume "\<not> \<bar>x\<bar> < 2 powi k"
    then have "2 powi k \<le> \<bar>x\<bar>" by simp
    then have "2 powi k \<le> \<bar>y\<bar>" using assms(3,4,1) by (rule rnd_lower)
    with assms(2) show False by simp
  qed
  then have "\<bar>x\<bar> \<le> 2 powi k" by simp
  from rnd_close [OF this assms(3,4)] assms(1) show "\<bar>y - x\<bar> \<le> 2 powi (k - 53)" by auto
qed

text \<open>An amount of at most \<open>10 ^ 12\<close> is within \<open>2 ^ -13\<close> of what was rounded to it.\<close>

lemma amount_close:
  assumes "rnd x = Fin y" and "\<bar>y\<bar> \<le> 10 ^ 12"
  shows "\<bar>x\<bar> < 1099511627776" and "\<bar>y - x\<bar> \<le> 1 / 8192"
proof -
  have "\<bar>y\<bar> < 2 powi 40" using assms(2) by simp
  from rnd_bounded [OF assms(1) this] show "\<bar>x\<bar> < 1099511627776" and "\<bar>y - x\<bar> \<le> 1 / 8192"
    by simp_all
qed

lemma rnd_close_41:
  assumes "\<bar>x\<bar> \<le> 2199023255552"
  obtains y where "rnd x = Fin y" and "\<bar>y - x\<bar> \<le> 1 / 4096"
proof -
  have "\<bar>x\<bar> \<le> 2 powi 41" using assms by simp
  from rnd_close [OF this] that show thesis by auto
qed

lemma rnd_close_49:
  assumes "\<bar>x\<bar> \<le> 562949953421312"
  obtains y where "rnd x = Fin y" and "\<bar>y - x\<bar> \<le> 1 / 16"
proof -
  have "\<bar>x\<bar> \<le> 2 powi 49" using assms by simp
  from rnd_close [OF this] that show thesis by auto
qed

text \<open>A result of \<open>round_d\<close> that is finite is a whole number of pence, rounded to a double.\<close>

lemma round_d_FinE:
  assumes "round_d n = Fin y"
  obtains K :: int where "rnd (of_int K / 100) = Fin y"
proof (cases "dmul n (Fin 100)")
  case (Fin p)
  then have "round_d n = rnd (of_int \<lfloor>p + 1 / 2\<rfloor> / 100)" by (simp add: round_d_def)
  with assms that [of "\<lfloor>p + 1 / 2\<rfloor>"] show thesis by simp
qed (use assms in \<open>simp_all add: round_d_def\<close>)

text \<open>A double close to a whole number of pence is rounded to that number of pence.\<close>

lemma round_d_near:
  assumes "\<bar>s - of_int N / 100\<bar> \<le> 1 / 1024" and "\<bar>of_int N / 100 :: rat\<bar> \<le> 2199023255552"
  shows "round_d (Fin s) = rnd (of_int N / 100)"
proof -
  have "\<bar>s * 100\<bar> \<le> 562949953421312" using assms by linarith
  then obtain p where p: "rnd (s * 100) = Fin p" and e: "\<bar>p - s * 100\<bar> \<le> 1 / 16"
    by (rule rnd_close_49)
  have "of_int N \<le> p + 1 / 2" "p + 1 / 2 < of_int N + 1"
    using assms(1) e by linarith+
  then have "\<lfloor>p + 1 / 2\<rfloor> = N" by (simp add: floor_eq_iff)
  then show ?thesis by (simp add: round_d_def p)
qed

lemma sum_rounds_back:
  assumes "rnd (of_int K / 100) = Fin a" and "\<bar>a\<bar> \<le> 10 ^ 12"
    and "\<bar>i + b - of_int K / 100\<bar> \<le> 1 / 2048"
  shows "round_d (dadd (Fin i) (Fin b)) = Fin a"
proof -
  note k = amount_close [OF assms(1,2)]
  have "\<bar>i + b\<bar> \<le> 2199023255552" using k(1) assms(3) by linarith
  then obtain s where s: "rnd (i + b) = Fin s" and e: "\<bar>s - (i + b)\<bar> \<le> 1 / 4096"
    by (rule rnd_close_41)
  have "\<bar>s - of_int K / 100\<bar> \<le> 1 / 1024" using e assms(3) by linarith
  moreover have "\<bar>of_int K / 100 :: rat\<bar> \<le> 2199023255552" using k(1) by linarith
  ultimately have "round_d (Fin s) = rnd (of_int K / 100)" by (rule round_d_near)
  then show ?thesis by (simp add: s assms(1))
qed

lemma diff_rounds:
  assumes "rnd (of_int K / 100) = Fin a" and "\<bar>a\<bar> \<le> 10 ^ 12"
    and "rnd (of_int K2 / 100) = Fin b" and "\<bar>b\<bar> \<le> 10 ^ 12"
  shows "\<exists>i. round_d (dsub (Fin a) (Fin b)) = Fin i \<and> \<bar>i + b - of_int K / 100\<bar> \<le> 1 / 2048
           \<and> \<bar>i + b - a\<bar> \<le> 1 / 2048"
proof -
  note ka = amount_close [OF assms(1,2)]
  note kb = amount_close [OF assms(3,4)]
  have "\<bar>a\<bar> \<le> 1000000000000" and "\<bar>b\<bar> \<le> 1000000000000"
    using assms(2,4) by simp_all
  then have "\<bar>a - b\<bar> \<le> 2199023255552" by linarith
  then obtain d where d: "rnd (a - b) = Fin d" and ed: "\<bar>d - (a - b)\<bar> \<le> 1 / 4096"
    by (rule rnd_close_41)
  have split: "(of_int (K - K2) / 100 :: rat) = of_int K / 100 - of_int K2 / 100"
    by (simp add: diff_divide_distrib)
  have n: "\<bar>of_int (K - K2) / 100 :: rat\<bar> \<le> 2199023255552"
    unfolding split using ka(1) kb(1) by linarith
  have "\<bar>d - of_int (K - K2) / 100\<bar> \<le> 1 / 1024"
    unfolding split using ed ka(2) kb(2) by linarith
  then have r: "round_d (Fin d) = rnd (of_int (K - K2) / 100)"
    using n by (rule round_d_near)
  obtain i where i: "rnd (of_int (K - K2) / 100) = Fin i"
    and ei: "\<bar>i - of_int (K - K2) / 100\<bar> \<le> 1 / 4096"
    using n by (rule rnd_close_41)
  have "dsub (Fin a) (Fin b) = Fin d"
    by (simp add: dsub_def d)
  then have "round_d (dsub (Fin a) (Fin b)) = Fin i"
    by (simp only: r i)
  moreover have "\<bar>i + b - of_int K / 100\<bar> \<le> 1 / 2048"
    using ei kb(2) unfolding split by linarith
  moreover have "\<bar>i + b - a\<bar> \<le> 1 / 2048"
    using ei kb(2) ka(2) unfolding split by linarith
  ultimately show ?thesis by blast
qed

section \<open>The engine on the store\<close>

lemma isObject_append: "isObject s a \<Longrightarrow> isObject (s @ t) a"
  by (simp add: isObject_def nth_append)

lemma objAt_append: "a < length s \<Longrightarrow> objAt (s @ t) a = objAt s a"
  by (simp add: objAt_def nth_append)

lemma isObject_objAt: "isObject s a \<Longrightarrow> s ! a = Object (objAt s a)"
  by (auto simp: isObject_def objAt_def split: cell.splits)

text \<open>The loop allocates one object after the other at the end of the store.\<close>

lemma mapElems_closed:
  assumes "list_all (isObject s) xs"
  shows "mapElems f xs (s @ t) =
     Some (map (\<lambda>n. length s + length t + n) [0..<length xs],
           s @ t @ map (\<lambda>a. Object (f (objAt s a))) xs)"
  using assms
proof (induction xs arbitrary: t)
  case Nil
  then show ?case by simp
next
  case (Cons a as)
  then have a: "isObject s a" and as: "list_all (isObject s) as" by simp_all
  from a have l: "a < length s" and o: "s ! a = Object (objAt s a)"
    by (simp_all add: isObject_def isObject_objAt)
  have "mapElems f as (s @ (t @ [Object (f (objAt s a))])) =
     Some (map (\<lambda>n. length s + length (t @ [Object (f (objAt s a))]) + n) [0..<length as],
           s @ (t @ [Object (f (objAt s a))]) @ map (\<lambda>a. Object (f (objAt s a))) as)"
    using as by (rule Cons.IH)
  moreover have "map (\<lambda>n. length s + length t + n) [0..<length (a # as)] =
     (length s + length t) # map (\<lambda>n. length s + length (t @ [Object (f (objAt s a))]) + n) [0..<length as]"
    by (simp add: upt_conv_Cons map_Suc_upt [symmetric] del: upt_Suc)
  ultimately show ?case
    using l o by (simp add: alloc_def nth_append del: upt_Suc)
qed

text \<open>\<open>arr.map(f)\<close> puts a new array and then the new objects at the end of the store.\<close>

lemma array_map_closed:
  assumes "isItemArray s arr" and "s ! arr = Array xs"
  shows "array_map f arr (s @ t) =
     Some (length s + length t,
           s @ t @ Array (map (\<lambda>n. length s + length t + 1 + n) [0..<length xs])
                 # map (\<lambda>a. Object (f (objAt s a))) xs)"
proof -
  from assms have l: "arr < length s" and o: "list_all (isObject s) xs"
    by (simp_all add: isItemArray_def)
  have "mapElems f xs (s @ (t @ [Array []])) =
     Some (map (\<lambda>n. length s + length (t @ [Array []]) + n) [0..<length xs],
           s @ (t @ [Array []]) @ map (\<lambda>a. Object (f (objAt s a))) xs)"
    using o by (rule mapElems_closed)
  then show ?thesis
    using l assms(2) by (simp add: array_map_def alloc_def nth_append list_update_append)
qed

lemma elemsAt_array: "a < length s \<Longrightarrow> s ! a = Array xs \<Longrightarrow> elemsAt s a = map (objAt s) xs"
  by (simp add: elemsAt_def)

text \<open>What \<open>arr.map(f)\<close> leaves in the store, and in every store that extends it.\<close>

lemma array_map_spec:
  assumes "isItemArray s arr"
  shows "\<exists>u. array_map f arr (s @ t) = Some (length s + length t, s @ t @ u)
    \<and> (\<forall>v. mappedItems f s (elemsAt s arr) (s @ t @ u @ v) (length s + length t))"
proof -
  from assms obtain xs where l: "arr < length s" and x: "s ! arr = Array xs"
    by (auto simp: isItemArray_def split: cell.splits)
  define ys where "ys = map (\<lambda>n. length s + length t + 1 + n) [0..<length xs]"
  define objs where "objs = map (\<lambda>a. Object (f (objAt s a))) xs"
  have ly: "length ys = length xs" and lo: "length objs = length xs"
    by (simp_all add: ys_def objs_def)
  have yn: "ys ! n = length s + length t + 1 + n" and on: "objs ! n = Object (f (objAt s (xs ! n)))"
    if "n < length xs" for n
    using that by (simp_all add: ys_def objs_def)
  have e: "elemsAt s arr = map (objAt s) xs"
    using l x by (rule elemsAt_array)
  have 1: "array_map f arr (s @ t) = Some (length s + length t, s @ t @ (Array ys # objs))"
    unfolding ys_def objs_def using assms x by (rule array_map_closed)
  have 2: "mappedItems f s (elemsAt s arr) (s @ t @ (Array ys # objs) @ v) (length s + length t)" for v
    unfolding mappedItems_def
  proof (intro exI conjI allI impI)
    show "length s \<le> length s + length t" by simp
    show "length s + length t < length (s @ t @ (Array ys # objs) @ v)" by simp
    show "(s @ t @ (Array ys # objs) @ v) ! (length s + length t) = Array ys"
      by (simp add: nth_append)
    show "length ys = length (elemsAt s arr)"
      by (simp add: e ly)
  next
    fix n
    assume "n < length ys"
    then have n: "n < length xs" by (simp only: ly)
    note y = yn [OF n]
    show "length s \<le> ys ! n" by (simp add: y)
    have c: "(s @ t @ (Array ys # objs) @ v) ! (length s + length t + 1 + n) = Object (f (objAt s (xs ! n)))"
      using n by (simp add: nth_append lo on)
    have b: "length s + length t + 1 + n < length (s @ t @ (Array ys # objs) @ v)"
      using n by (simp add: lo)
    show "isObject (s @ t @ (Array ys # objs) @ v) (ys ! n)"
      unfolding y isObject_def by (simp only: b c cell.case simp_thms)
    show "objAt (s @ t @ (Array ys # objs) @ v) (ys ! n) = f (elemsAt s arr ! n)"
      unfolding y objAt_def using n by (simp only: b c cell.case if_True e nth_map)
  qed
  from 1 2 show ?thesis by blast
qed

lemma isItemArray_append: "isItemArray s a \<Longrightarrow> isItemArray (s @ t) a"
  by (auto simp: isItemArray_def nth_append list_all_iff isObject_append split: cell.splits)

lemma elemsAt_append:
  assumes "isItemArray s a"
  shows "elemsAt (s @ t) a = elemsAt s a"
proof -
  from assms obtain xs where l: "a < length s" and x: "s ! a = Array xs"
    and o: "list_all (isObject s) xs"
    by (auto simp: isItemArray_def split: cell.splits)
  have "objAt (s @ t) y = objAt s y" if "y \<in> set xs" for y
    using that o by (intro objAt_append) (simp add: list_all_iff isObject_def)
  then show ?thesis
    using l x by (simp add: elemsAt_def nth_append)
qed

text \<open>A binding with the default \<open>[]\<close> yields an array of objects: the items passed, or none.\<close>

lemma orEmptyArray_spec:
  assumes "case a of None \<Rightarrow> True | Some arr \<Rightarrow> isItemArray s arr"
  shows "\<exists>arr ds. orEmptyArray a (s @ t) = (arr, s @ t @ ds)
    \<and> (\<forall>v. isItemArray (s @ t @ ds @ v) arr)
    \<and> (\<forall>v. elemsAt (s @ t @ ds @ v) arr = inputItems s a)"
proof (cases a)
  case None
  have "orEmptyArray a (s @ t) = (length s + length t, s @ t @ [Array []])"
    by (simp add: orEmptyArray_def alloc_def None)
  moreover have "isItemArray (s @ t @ [Array []] @ v) (length s + length t)" for v
    by (simp add: isItemArray_def nth_append)
  moreover have "elemsAt (s @ t @ [Array []] @ v) (length s + length t) = inputItems s a" for v
    by (simp add: elemsAt_def inputItems_def None nth_append)
  ultimately show ?thesis by blast
next
  case (Some arr)
  with assms have i: "isItemArray s arr" by simp
  have "orEmptyArray a (s @ t) = (arr, s @ t @ [])"
    by (simp add: orEmptyArray_def Some)
  moreover have "isItemArray (s @ t @ [] @ v) arr" for v
    using i by (simp add: isItemArray_append)
  moreover have "elemsAt (s @ t @ [] @ v) arr = inputItems s a" for v
    using i by (simp add: elemsAt_append inputItems_def Some)
  ultimately show ?thesis by blast
qed

lemma mappedItems_base:
  "mappedItems f s6 ins s' A \<Longrightarrow> length s \<le> length s6 \<Longrightarrow> mappedItems f s ins s' A"
  by (fastforce simp: mappedItems_def)

lemma mappedItems_elems:
  assumes "mappedItems f s ins s' A"
  shows "elemsAt s' A = map f ins"
proof -
  from assms obtain ys where l: "A < length s'" and y: "s' ! A = Array ys" and n: "length ys = length ins"
    and o: "\<forall>n < length ys. objAt s' (ys ! n) = f (ins ! n)"
    by (auto simp: mappedItems_def)
  have "map (objAt s') ys = map f ins"
    using n o by (intro nth_equalityI) simp_all
  then show ?thesis
    using l y by (simp add: elemsAt_def)
qed

lemma mappedItems_newItems:
  assumes "mappedItems f s ins s' A" and "\<And>item. annotated keys item (f item)"
  shows "newItems keys s ins s' A"
  using assms unfolding mappedItems_def newItems_def by fastforce

lemma staffCalc_d_annotated: "annotated staffKeys item (staffCalc_d item)"
  by (auto simp: annotated_def staffKeys_def staffCalc_d_def Let_def)

lemma travelCalc_d_annotated: "annotated [''total''] item (travelCalc_d item)"
  by (auto simp: annotated_def travelCalc_d_def Let_def)

lemma costCalc_d_annotated: "annotated [''total''] item (costCalc_d item)"
  by (auto simp: annotated_def costCalc_d_def)

text \<open>
  The whole run: on a valid input the call returns, the store after it is the store before
  it with new cells at its end, and each of the six arrays returned is new and holds the
  results of the category's callback on the items passed.
\<close>

lemma calculateBudget_s_closed:
  assumes "validInput d s"
  obtains A1 A2 A3 A4 A5 A6 w where
    "calculateBudget_s d s =
       Some (summarise (elemsAt (s @ w))
               (orElse (costModel_d d) ''fEC'') (orElse (fecRate_d d) (Fin 80))
               (orElse (overheadRate_d d) (Fin 25)) (orElse (customRate_d d) (Fin 100))
               A1 A2 A3 A4 A5 A6, s @ w)"
    and "mappedItems staffCalc_d s (inputItems s (staff_d d)) (s @ w) A1"
    and "mappedItems travelCalc_d s (inputItems s (travel_d d)) (s @ w) A2"
    and "mappedItems costCalc_d s (inputItems s (equipment_d d)) (s @ w) A3"
    and "mappedItems costCalc_d s (inputItems s (consumables_d d)) (s @ w) A4"
    and "mappedItems costCalc_d s (inputItems s (other_d d)) (s @ w) A5"
    and "mappedItems costCalc_d s (inputItems s (subcontracting_d d)) (s @ w) A6"
proof -
  from assms have v:
    "case staff_d d of None \<Rightarrow> True | Some arr \<Rightarrow> isItemArray s arr"
    "case travel_d d of None \<Rightarrow> True | Some arr \<Rightarrow> isItemArray s arr"
    "case equipment_d d of None \<Rightarrow> True | Some arr \<Rightarrow> isItemArray s arr"
    "case consumables_d d of None \<Rightarrow> True | Some arr \<Rightarrow> isItemArray s arr"
    "case other_d d of None \<Rightarrow> True | Some arr \<Rightarrow> isItemArray s arr"
    "case subcontracting_d d of None \<Rightarrow> True | Some arr \<Rightarrow> isItemArray s arr"
    by (simp_all add: validInput_def)
  obtain arr1 ds1 where o1: "orEmptyArray (staff_d d) (s @ []) = (arr1, s @ [] @ ds1)"
    and i1: "\<forall>v. isItemArray (s @ [] @ ds1 @ v) arr1"
    and e1: "\<forall>v. elemsAt (s @ [] @ ds1 @ v) arr1 = inputItems s (staff_d d)"
    using orEmptyArray_spec [OF v(1), where t = "[]"] by blast
  obtain arr2 ds2 where o2: "orEmptyArray (travel_d d) (s @ ds1) = (arr2, s @ ds1 @ ds2)"
    and i2: "\<forall>v. isItemArray (s @ ds1 @ ds2 @ v) arr2"
    and e2: "\<forall>v. elemsAt (s @ ds1 @ ds2 @ v) arr2 = inputItems s (travel_d d)"
    using orEmptyArray_spec [OF v(2), where t = "ds1"] by blast
  obtain arr3 ds3 where o3: "orEmptyArray (equipment_d d) (s @ (ds1 @ ds2)) = (arr3, s @ (ds1 @ ds2) @ ds3)"
    and i3: "\<forall>v. isItemArray (s @ (ds1 @ ds2) @ ds3 @ v) arr3"
    and e3: "\<forall>v. elemsAt (s @ (ds1 @ ds2) @ ds3 @ v) arr3 = inputItems s (equipment_d d)"
    using orEmptyArray_spec [OF v(3), where t = "(ds1 @ ds2)"] by blast
  obtain arr4 ds4 where o4: "orEmptyArray (consumables_d d) (s @ (ds1 @ ds2 @ ds3)) = (arr4, s @ (ds1 @ ds2 @ ds3) @ ds4)"
    and i4: "\<forall>v. isItemArray (s @ (ds1 @ ds2 @ ds3) @ ds4 @ v) arr4"
    and e4: "\<forall>v. elemsAt (s @ (ds1 @ ds2 @ ds3) @ ds4 @ v) arr4 = inputItems s (consumables_d d)"
    using orEmptyArray_spec [OF v(4), where t = "(ds1 @ ds2 @ ds3)"] by blast
  obtain arr5 ds5 where o5: "orEmptyArray (other_d d) (s @ (ds1 @ ds2 @ ds3 @ ds4)) = (arr5, s @ (ds1 @ ds2 @ ds3 @ ds4) @ ds5)"
    and i5: "\<forall>v. isItemArray (s @ (ds1 @ ds2 @ ds3 @ ds4) @ ds5 @ v) arr5"
    and e5: "\<forall>v. elemsAt (s @ (ds1 @ ds2 @ ds3 @ ds4) @ ds5 @ v) arr5 = inputItems s (other_d d)"
    using orEmptyArray_spec [OF v(5), where t = "(ds1 @ ds2 @ ds3 @ ds4)"] by blast
  obtain arr6 ds6 where o6: "orEmptyArray (subcontracting_d d) (s @ (ds1 @ ds2 @ ds3 @ ds4 @ ds5)) = (arr6, s @ (ds1 @ ds2 @ ds3 @ ds4 @ ds5) @ ds6)"
    and i6: "\<forall>v. isItemArray (s @ (ds1 @ ds2 @ ds3 @ ds4 @ ds5) @ ds6 @ v) arr6"
    and e6: "\<forall>v. elemsAt (s @ (ds1 @ ds2 @ ds3 @ ds4 @ ds5) @ ds6 @ v) arr6 = inputItems s (subcontracting_d d)"
    using orEmptyArray_spec [OF v(6), where t = "(ds1 @ ds2 @ ds3 @ ds4 @ ds5)"] by blast
  define s6 where "s6 = s @ ds1 @ ds2 @ ds3 @ ds4 @ ds5 @ ds6"
  have ls: "length s \<le> length s6" by (simp add: s6_def)
  have I1: "isItemArray s6 arr1" and E1: "elemsAt s6 arr1 = inputItems s (staff_d d)"
    using i1 [rule_format, of "ds2 @ ds3 @ ds4 @ ds5 @ ds6"] e1 [rule_format, of "ds2 @ ds3 @ ds4 @ ds5 @ ds6"] by (simp_all add: s6_def)
  have I2: "isItemArray s6 arr2" and E2: "elemsAt s6 arr2 = inputItems s (travel_d d)"
    using i2 [rule_format, of "ds3 @ ds4 @ ds5 @ ds6"] e2 [rule_format, of "ds3 @ ds4 @ ds5 @ ds6"] by (simp_all add: s6_def)
  have I3: "isItemArray s6 arr3" and E3: "elemsAt s6 arr3 = inputItems s (equipment_d d)"
    using i3 [rule_format, of "ds4 @ ds5 @ ds6"] e3 [rule_format, of "ds4 @ ds5 @ ds6"] by (simp_all add: s6_def)
  have I4: "isItemArray s6 arr4" and E4: "elemsAt s6 arr4 = inputItems s (consumables_d d)"
    using i4 [rule_format, of "ds5 @ ds6"] e4 [rule_format, of "ds5 @ ds6"] by (simp_all add: s6_def)
  have I5: "isItemArray s6 arr5" and E5: "elemsAt s6 arr5 = inputItems s (other_d d)"
    using i5 [rule_format, of "ds6"] e5 [rule_format, of "ds6"] by (simp_all add: s6_def)
  have I6: "isItemArray s6 arr6" and E6: "elemsAt s6 arr6 = inputItems s (subcontracting_d d)"
    using i6 [rule_format, of "[]"] e6 [rule_format, of "[]"] by (simp_all add: s6_def)
  obtain u1 where m1: "array_map staffCalc_d arr1 (s6 @ []) = Some (length s6 + length ([]::store), s6 @ [] @ u1)"
    and M1: "\<forall>v. mappedItems staffCalc_d s6 (elemsAt s6 arr1) (s6 @ [] @ u1 @ v) (length s6 + length ([]::store))"
    using array_map_spec [OF I1, where t = "[]" and f = staffCalc_d] by blast
  obtain u2 where m2: "array_map travelCalc_d arr2 (s6 @ u1) = Some (length s6 + length (u1), s6 @ u1 @ u2)"
    and M2: "\<forall>v. mappedItems travelCalc_d s6 (elemsAt s6 arr2) (s6 @ u1 @ u2 @ v) (length s6 + length (u1))"
    using array_map_spec [OF I2, where t = "u1" and f = travelCalc_d] by blast
  obtain u3 where m3: "array_map costCalc_d arr3 (s6 @ (u1 @ u2)) = Some (length s6 + length ((u1 @ u2)), s6 @ (u1 @ u2) @ u3)"
    and M3: "\<forall>v. mappedItems costCalc_d s6 (elemsAt s6 arr3) (s6 @ (u1 @ u2) @ u3 @ v) (length s6 + length ((u1 @ u2)))"
    using array_map_spec [OF I3, where t = "(u1 @ u2)" and f = costCalc_d] by blast
  obtain u4 where m4: "array_map costCalc_d arr4 (s6 @ (u1 @ u2 @ u3)) = Some (length s6 + length ((u1 @ u2 @ u3)), s6 @ (u1 @ u2 @ u3) @ u4)"
    and M4: "\<forall>v. mappedItems costCalc_d s6 (elemsAt s6 arr4) (s6 @ (u1 @ u2 @ u3) @ u4 @ v) (length s6 + length ((u1 @ u2 @ u3)))"
    using array_map_spec [OF I4, where t = "(u1 @ u2 @ u3)" and f = costCalc_d] by blast
  obtain u5 where m5: "array_map costCalc_d arr5 (s6 @ (u1 @ u2 @ u3 @ u4)) = Some (length s6 + length ((u1 @ u2 @ u3 @ u4)), s6 @ (u1 @ u2 @ u3 @ u4) @ u5)"
    and M5: "\<forall>v. mappedItems costCalc_d s6 (elemsAt s6 arr5) (s6 @ (u1 @ u2 @ u3 @ u4) @ u5 @ v) (length s6 + length ((u1 @ u2 @ u3 @ u4)))"
    using array_map_spec [OF I5, where t = "(u1 @ u2 @ u3 @ u4)" and f = costCalc_d] by blast
  obtain u6 where m6: "array_map costCalc_d arr6 (s6 @ (u1 @ u2 @ u3 @ u4 @ u5)) = Some (length s6 + length ((u1 @ u2 @ u3 @ u4 @ u5)), s6 @ (u1 @ u2 @ u3 @ u4 @ u5) @ u6)"
    and M6: "\<forall>v. mappedItems costCalc_d s6 (elemsAt s6 arr6) (s6 @ (u1 @ u2 @ u3 @ u4 @ u5) @ u6 @ v) (length s6 + length ((u1 @ u2 @ u3 @ u4 @ u5)))"
    using array_map_spec [OF I6, where t = "(u1 @ u2 @ u3 @ u4 @ u5)" and f = costCalc_d] by blast
  define w where "w = ds1 @ ds2 @ ds3 @ ds4 @ ds5 @ ds6 @ u1 @ u2 @ u3 @ u4 @ u5 @ u6"
  have sw: "s @ w = s6 @ u1 @ u2 @ u3 @ u4 @ u5 @ u6" by (simp add: w_def s6_def)
  have N1: "mappedItems staffCalc_d s (inputItems s (staff_d d)) (s @ w) (length s6 + length ([]::store))"
    using M1 [rule_format, of "u2 @ u3 @ u4 @ u5 @ u6"] ls by (simp add: sw E1 mappedItems_base)
  have N2: "mappedItems travelCalc_d s (inputItems s (travel_d d)) (s @ w) (length s6 + length (u1))"
    using M2 [rule_format, of "u3 @ u4 @ u5 @ u6"] ls by (simp add: sw E2 mappedItems_base)
  have N3: "mappedItems costCalc_d s (inputItems s (equipment_d d)) (s @ w) (length s6 + length (u1 @ u2))"
    using M3 [rule_format, of "u4 @ u5 @ u6"] ls by (simp add: sw E3 mappedItems_base)
  have N4: "mappedItems costCalc_d s (inputItems s (consumables_d d)) (s @ w) (length s6 + length (u1 @ u2 @ u3))"
    using M4 [rule_format, of "u5 @ u6"] ls by (simp add: sw E4 mappedItems_base)
  have N5: "mappedItems costCalc_d s (inputItems s (other_d d)) (s @ w) (length s6 + length (u1 @ u2 @ u3 @ u4))"
    using M5 [rule_format, of "u6"] ls by (simp add: sw E5 mappedItems_base)
  have N6: "mappedItems costCalc_d s (inputItems s (subcontracting_d d)) (s @ w) (length s6 + length (u1 @ u2 @ u3 @ u4 @ u5))"
    using M6 [rule_format, of "[]"] ls by (simp add: sw E6 mappedItems_base)
  have "calculateBudget_s d s =
       Some (summarise (elemsAt (s @ w))
               (orElse (costModel_d d) ''fEC'') (orElse (fecRate_d d) (Fin 80))
               (orElse (overheadRate_d d) (Fin 25)) (orElse (customRate_d d) (Fin 100))
               (length s6 + length ([]::store)) (length s6 + length u1) (length s6 + length (u1 @ u2))
               (length s6 + length (u1 @ u2 @ u3)) (length s6 + length (u1 @ u2 @ u3 @ u4))
               (length s6 + length (u1 @ u2 @ u3 @ u4 @ u5)), s @ w)"
    using o1 o2 o3 o4 o5 o6 m1 m2 m3 m4 m5 m6
    by (simp add: calculateBudget_s_def sw s6_def)
  then show thesis
    using N1 N2 N3 N4 N5 N6 by (rule that)
qed

lemma summarise_items:
  "items_d (staff_cd (categories_d (summarise el cm fec ov cu A1 A2 A3 A4 A5 A6))) = A1"
  "items_d (travel_cd (categories_d (summarise el cm fec ov cu A1 A2 A3 A4 A5 A6))) = A2"
  "items_d (equipment_cd (categories_d (summarise el cm fec ov cu A1 A2 A3 A4 A5 A6))) = A3"
  "items_d (consumables_cd (categories_d (summarise el cm fec ov cu A1 A2 A3 A4 A5 A6))) = A4"
  "items_d (other_cd (categories_d (summarise el cm fec ov cu A1 A2 A3 A4 A5 A6))) = A5"
  "items_d (subcontracting_cd (categories_d (summarise el cm fec ov cu A1 A2 A3 A4 A5 A6))) = A6"
  by (simp_all add: summarise_def Let_def split: prod.splits)

lemma summarise_deref:
  "derefBudget s (summarise (elemsAt s) cm fec ov cu A1 A2 A3 A4 A5 A6) =
     summarise (\<lambda>xs. xs) cm fec ov cu (elemsAt s A1) (elemsAt s A2) (elemsAt s A3) (elemsAt s A4)
       (elemsAt s A5) (elemsAt s A6)"
  by (simp add: derefBudget_def derefCategory_def summarise_def Let_def split: prod.splits)

lemma orElse_derefData:
  "orElse (staff_d (derefData s d)) [] = inputItems s (staff_d d)"
  "orElse (travel_d (derefData s d)) [] = inputItems s (travel_d d)"
  "orElse (equipment_d (derefData s d)) [] = inputItems s (equipment_d d)"
  "orElse (consumables_d (derefData s d)) [] = inputItems s (consumables_d d)"
  "orElse (other_d (derefData s d)) [] = inputItems s (other_d d)"
  "orElse (subcontracting_d (derefData s d)) [] = inputItems s (subcontracting_d d)"
  "costModel_d (derefData s d) = costModel_d d" "fecRate_d (derefData s d) = fecRate_d d"
  "overheadRate_d (derefData s d) = overheadRate_d d" "customRate_d (derefData s d) = customRate_d d"
  by (simp_all add: derefData_def orElse_def inputItems_def split: option.splits)

text \<open>
  The engine on the store computes what the engine on values computes: on a valid input the
  call returns, and its result read out of the store is the result of \<open>calculateBudget_d\<close>
  on the argument read out of the store.
\<close>

lemma calculateBudget_s_values:
  assumes "validInput d s"
  shows "\<exists>b s'. calculateBudget_s d s = Some (b, s') \<and> derefBudget s' b = calculateBudget_d (derefData s d)"
proof -
  from assms obtain A1 A2 A3 A4 A5 A6 w where
    c: "calculateBudget_s d s =
       Some (summarise (elemsAt (s @ w))
               (orElse (costModel_d d) ''fEC'') (orElse (fecRate_d d) (Fin 80))
               (orElse (overheadRate_d d) (Fin 25)) (orElse (customRate_d d) (Fin 100))
               A1 A2 A3 A4 A5 A6, s @ w)"
    and m: "mappedItems staffCalc_d s (inputItems s (staff_d d)) (s @ w) A1"
      "mappedItems travelCalc_d s (inputItems s (travel_d d)) (s @ w) A2"
      "mappedItems costCalc_d s (inputItems s (equipment_d d)) (s @ w) A3"
      "mappedItems costCalc_d s (inputItems s (consumables_d d)) (s @ w) A4"
      "mappedItems costCalc_d s (inputItems s (other_d d)) (s @ w) A5"
      "mappedItems costCalc_d s (inputItems s (subcontracting_d d)) (s @ w) A6"
    by (rule calculateBudget_s_closed)
  have "derefBudget (s @ w) (summarise (elemsAt (s @ w))
               (orElse (costModel_d d) ''fEC'') (orElse (fecRate_d d) (Fin 80))
               (orElse (overheadRate_d d) (Fin 25)) (orElse (customRate_d d) (Fin 100))
               A1 A2 A3 A4 A5 A6) = calculateBudget_d (derefData s d)"
    by (simp only: summarise_deref m [THEN mappedItems_elems] calculateBudget_d_def orElse_derefData)
  with c show ?thesis by blast
qed

section \<open>Doubles of the examples\<close>

text \<open>The roundings that the examples go through, each with its exponent and significand.\<close>

lemma rnd_a_0: "rnd (0) = Fin 0"
  by (rule rnd_eval_pos [where e = "- 1022" and m = 0]) simp_all

lemma rnd_a_1: "rnd (1 / 4) = Fin (1 / 4)"
  by (rule rnd_eval_pos [where e = "- 2" and m = 4503599627370496]) simp_all

lemma rnd_a_2: "rnd (4 / 5) = Fin (3602879701896397 / 4503599627370496)"
  by (rule rnd_eval_pos [where e = "- 1" and m = 7205759403792794]) simp_all

lemma rnd_a_3: "rnd (1) = Fin 1"
  by (rule rnd_eval_pos [where e = "0" and m = 4503599627370496]) simp_all

lemma rnd_a_4: "rnd (80) = Fin 80"
  by (rule rnd_eval_pos [where e = "6" and m = 5629499534213120]) simp_all

lemma rnd_a_5: "rnd (90071992547409925 / 1125899906842624) = Fin 80"
  by (rule rnd_eval_pos [where e = "6" and m = 5629499534213120]) simp_all

lemma rnd_a_6: "rnd (100) = Fin 100"
  by (rule rnd_eval_pos [where e = "6" and m = 7036874417766400]) simp_all

lemma rnd_a_7: "rnd (10000 / 3) = Fin (7330077518506667 / 2199023255552)"
  by (rule rnd_eval_pos [where e = "11" and m = 7330077518506667]) simp_all

lemma rnd_a_8: "rnd (8000) = Fin 8000"
  by (rule rnd_eval_pos [where e = "12" and m = 8796093022208000]) simp_all

lemma rnd_a_9: "rnd (10000) = Fin 10000"
  by (rule rnd_eval_pos [where e = "13" and m = 5497558138880000]) simp_all

lemma rnd_a_10: "rnd (12500) = Fin 12500"
  by (rule rnd_eval_pos [where e = "13" and m = 6871947673600000]) simp_all

lemma rnd_a_11: "rnd (40000) = Fin 40000"
  by (rule rnd_eval_pos [where e = "15" and m = 5497558138880000]) simp_all

lemma rnd_a_12: "rnd (21990232555520001 / 549755813888) = Fin 40000"
  by (rule rnd_eval_pos [where e = "15" and m = 5497558138880000]) simp_all

lemma rnd_a_13: "rnd (50000) = Fin 50000"
  by (rule rnd_eval_pos [where e = "15" and m = 6871947673600000]) simp_all

lemma rnd_a_14: "rnd (56294995342131203125 / 1125899906842624) = Fin 50000"
  by (rule rnd_eval_pos [where e = "15" and m = 6871947673600000]) simp_all

lemma rnd_a_15: "rnd (62500) = Fin 62500"
  by (rule rnd_eval_pos [where e = "15" and m = 8589934592000000]) simp_all

lemma rnd_a_16: "rnd (1000000) = Fin 1000000"
  by (rule rnd_eval_pos [where e = "19" and m = 8589934592000000]) simp_all

lemma rnd_a_17: "rnd (1250000) = Fin 1250000"
  by (rule rnd_eval_pos [where e = "20" and m = 5368709120000000]) simp_all

lemma rnd_a_18: "rnd (4000000) = Fin 4000000"
  by (rule rnd_eval_pos [where e = "21" and m = 8589934592000000]) simp_all

lemma rnd_a_19: "rnd (5000000) = Fin 5000000"
  by (rule rnd_eval_pos [where e = "22" and m = 5368709120000000]) simp_all

lemma rnd_a_20: "rnd (6250000) = Fin 6250000"
  by (rule rnd_eval_pos [where e = "22" and m = 6710886400000000]) simp_all

lemma rnd_c_1: "rnd (1351079888211149 / 18014398509481984) = Fin (1351079888211149 / 18014398509481984)"
  by (rule rnd_eval_pos [where e = "- 4" and m = 5404319552844596]) simp_all

lemma rnd_c_2: "rnd (2 / 25) = Fin (5764607523034235 / 72057594037927936)"
  by (rule rnd_eval_pos [where e = "- 4" and m = 5764607523034235]) simp_all

lemma rnd_c_3: "rnd (1441151880758559 / 18014398509481984) = Fin (1441151880758559 / 18014398509481984)"
  by (rule rnd_eval_pos [where e = "- 4" and m = 5764607523034236]) simp_all

lemma rnd_c_4: "rnd (1 / 10) = Fin (3602879701896397 / 36028797018963968)"
  by (rule rnd_eval_pos [where e = "- 4" and m = 7205759403792794]) simp_all

lemma rnd_c_5: "rnd (3602879701896397 / 36028797018963968) = Fin (3602879701896397 / 36028797018963968)"
  by (rule rnd_eval_pos [where e = "- 4" and m = 7205759403792794]) simp_all

lemma rnd_c_6: "rnd (1 / 5) = Fin (3602879701896397 / 18014398509481984)"
  by (rule rnd_eval_pos [where e = "- 3" and m = 7205759403792794]) simp_all

lemma rnd_c_7: "rnd (3602879701896397 / 18014398509481984) = Fin (3602879701896397 / 18014398509481984)"
  by (rule rnd_eval_pos [where e = "- 3" and m = 7205759403792794]) simp_all

lemma rnd_c_9: "rnd (3 / 10) = Fin (5404319552844595 / 18014398509481984)"
  by (rule rnd_eval_pos [where e = "- 2" and m = 5404319552844595]) simp_all

lemma rnd_c_10: "rnd (10808639105689191 / 36028797018963968) = Fin (1351079888211149 / 4503599627370496)"
  by (rule rnd_eval_pos [where e = "- 2" and m = 5404319552844596]) simp_all

lemma rnd_c_11: "rnd (1351079888211149 / 4503599627370496) = Fin (1351079888211149 / 4503599627370496)"
  by (rule rnd_eval_pos [where e = "- 2" and m = 5404319552844596]) simp_all

lemma rnd_c_12: "rnd (12331705039020216446422260218069 / 40564819207303340847894502572032) = Fin (1369094286720631 / 4503599627370496)"
  by (rule rnd_eval_pos [where e = "- 2" and m = 5476377146882524]) simp_all

lemma rnd_c_13: "rnd (19 / 50) = Fin (3422735716801577 / 9007199254740992)"
  by (rule rnd_eval_pos [where e = "- 2" and m = 6845471433603154]) simp_all

lemma rnd_c_14: "rnd (27381885734412619 / 72057594037927936) = Fin (6845471433603155 / 18014398509481984)"
  by (rule rnd_eval_pos [where e = "- 2" and m = 6845471433603155]) simp_all

lemma rnd_c_16: "rnd (33776997205278725 / 4503599627370496) = Fin (8444249301319681 / 1125899906842624)"
  by (rule rnd_eval_pos [where e = "2" and m = 8444249301319681]) simp_all

lemma rnd_c_17: "rnd (36028797018963975 / 4503599627370496) = Fin (4503599627370497 / 562949953421312)"
  by (rule rnd_eval_pos [where e = "3" and m = 4503599627370497]) simp_all

lemma rnd_c_18: "rnd (90071992547409925 / 9007199254740992) = Fin 10"
  by (rule rnd_eval_pos [where e = "3" and m = 5629499534213120]) simp_all

lemma rnd_c_19: "rnd (90071992547409925 / 4503599627370496) = Fin 20"
  by (rule rnd_eval_pos [where e = "4" and m = 5629499534213120]) simp_all

lemma rnd_c_20: "rnd (33776997205278725 / 1125899906842624) = Fin (8444249301319681 / 281474976710656)"
  by (rule rnd_eval_pos [where e = "4" and m = 8444249301319681]) simp_all

lemma rnd_c_21: "rnd (34227357168015775 / 1125899906842624) = Fin (1069604911500493 / 35184372088832)"
  by (rule rnd_eval_pos [where e = "4" and m = 8556839292003944]) simp_all

lemma rnd_c_22: "rnd (171136785840078875 / 4503599627370496) = Fin (5348024557502465 / 140737488355328)"
  by (rule rnd_eval_pos [where e = "5" and m = 5348024557502465]) simp_all

lemma rnd_d_6: "rnd (7210321574892687 / 1024) = Fin (7210321574892687 / 1024)"
  by (rule rnd_eval_pos [where e = "42" and m = 7210321574892687]) simp_all

lemma rnd_d_7: "rnd (352066483149057 / 50) = Fin (7210321574892687 / 1024)"
  by (rule rnd_eval_pos [where e = "42" and m = 7210321574892687]) simp_all

lemma rnd_d_8: "rnd (1802580393723173 / 256) = Fin (1802580393723173 / 256)"
  by (rule rnd_eval_pos [where e = "42" and m = 7210321574892692]) simp_all

lemma rnd_d_9: "rnd (140826593259623 / 20) = Fin (3605160787446349 / 512)"
  by (rule rnd_eval_pos [where e = "42" and m = 7210321574892698]) simp_all

lemma rnd_d_10: "rnd (7210321574892687 / 256) = Fin (7210321574892687 / 256)"
  by (rule rnd_eval_pos [where e = "44" and m = 7210321574892687]) simp_all

lemma rnd_d_11: "rnd (704132966298114 / 25) = Fin (7210321574892687 / 256)"
  by (rule rnd_eval_pos [where e = "44" and m = 7210321574892687]) simp_all

lemma rnd_d_12: "rnd (8118100389477039836654802764105 / 288230376151711744) = Fin (450645098430793 / 16)"
  by (rule rnd_eval_pos [where e = "44" and m = 7210321574892688]) simp_all

lemma rnd_d_13: "rnd (36051607874463435 / 1024) = Fin (4506450984307929 / 128)"
  by (rule rnd_eval_pos [where e = "45" and m = 4506450984307929]) simp_all

lemma rnd_d_14: "rnd (352066483149057 / 10) = Fin (2253225492153965 / 64)"
  by (rule rnd_eval_pos [where e = "45" and m = 4506450984307930]) simp_all

lemma rnd_d_15: "rnd (18025803937231723 / 512) = Fin (4506450984307931 / 128)"
  by (rule rnd_eval_pos [where e = "45" and m = 4506450984307931]) simp_all

lemma rnd_d_16: "rnd (3520664831490571 / 100) = Fin (4506450984307931 / 128)"
  by (rule rnd_eval_pos [where e = "45" and m = 4506450984307931]) simp_all

lemma rnd_d_17: "rnd (180258039372317175 / 256) = Fin 704132966298114"
  by (rule rnd_eval_pos [where e = "49" and m = 5633063730384912]) simp_all

lemma rnd_d_18: "rnd (45064509843079325 / 64) = Fin (1408265932596229 / 2)"
  by (rule rnd_eval_pos [where e = "49" and m = 5633063730384916]) simp_all

lemma rnd_d_19: "rnd (180258039372317175 / 64) = Fin 2816531865192456"
  by (rule rnd_eval_pos [where e = "51" and m = 5633063730384912]) simp_all

lemma rnd_d_20: "rnd (11266127460769825 / 4) = Fin 2816531865192456"
  by (rule rnd_eval_pos [where e = "51" and m = 5633063730384912]) simp_all

lemma rnd_d_21: "rnd (112661274607698225 / 32) = Fin (7041329662981139 / 2)"
  by (rule rnd_eval_pos [where e = "51" and m = 7041329662981139]) simp_all

lemma rnd_d_22: "rnd (112661274607698275 / 32) = Fin 3520664831490571"
  by (rule rnd_eval_pos [where e = "51" and m = 7041329662981142]) simp_all

lemma rnd_e_2: "rnd (1 / 2) = Fin (1 / 2)"
  by (rule rnd_eval_pos [where e = "- 1" and m = 4503599627370496]) simp_all

lemma rnd_e_4: "rnd (125 / 3) = Fin (5864062014805333 / 140737488355328)"
  by (rule rnd_eval_pos [where e = "5" and m = 5864062014805333]) simp_all

lemma rnd_e_5: "rnd (50) = Fin 50"
  by (rule rnd_eval_pos [where e = "5" and m = 7036874417766400]) simp_all

lemma rnd_e_8: "rnd (125) = Fin 125"
  by (rule rnd_eval_pos [where e = "6" and m = 8796093022208000]) simp_all

lemma rnd_e_9: "rnd (625 / 4) = Fin (625 / 4)"
  by (rule rnd_eval_pos [where e = "7" and m = 5497558138880000]) simp_all

lemma rnd_e_10: "rnd (17592186044415999 / 35184372088832) = Fin 500"
  by (rule rnd_eval_pos [where e = "8" and m = 8796093022208000]) simp_all

lemma rnd_e_11: "rnd (500) = Fin 500"
  by (rule rnd_eval_pos [where e = "8" and m = 8796093022208000]) simp_all

lemma rnd_e_12: "rnd (625) = Fin 625"
  by (rule rnd_eval_pos [where e = "9" and m = 5497558138880000]) simp_all

lemma rnd_e_13: "rnd (11258999068426240625 / 18014398509481984) = Fin 625"
  by (rule rnd_eval_pos [where e = "9" and m = 5497558138880000]) simp_all

lemma rnd_e_14: "rnd (3125 / 4) = Fin (3125 / 4)"
  by (rule rnd_eval_pos [where e = "9" and m = 6871947673600000]) simp_all

lemma rnd_e_17: "rnd (15625) = Fin 15625"
  by (rule rnd_eval_pos [where e = "13" and m = 8589934592000000]) simp_all

lemma rnd_e_20: "rnd (78125) = Fin 78125"
  by (rule rnd_eval_pos [where e = "16" and m = 5368709120000000]) simp_all

lemma rnd_f_6: "rnd (250 / 3) = Fin (5864062014805333 / 70368744177664)"
  by (rule rnd_eval_pos [where e = "6" and m = 5864062014805333]) simp_all

lemma rnd_f_8: "rnd (1000) = Fin 1000"
  by (rule rnd_eval_pos [where e = "9" and m = 8796093022208000]) simp_all

lemma rnd_g_2: "rnd (7 / 20) = Fin (3152519739159347 / 9007199254740992)"
  by (rule rnd_eval_pos [where e = "- 2" and m = 6305039478318694]) simp_all

lemma rnd_g_4: "rnd (78812993478983675 / 2251799813685248) = Fin 35"
  by (rule rnd_eval_pos [where e = "5" and m = 4925812092436480]) simp_all

lemma rnd_g_7: "rnd (22531 / 50) = Fin (3963695437667369 / 8796093022208)"
  by (rule rnd_eval_pos [where e = "8" and m = 7927390875334738]) simp_all

lemma rnd_g_8: "rnd (7927478836264959 / 17592186044416) = Fin (7927478836264959 / 17592186044416)"
  by (rule rnd_eval_pos [where e = "8" and m = 7927478836264959]) simp_all

lemma rnd_g_9: "rnd (2477331638774661 / 4398046511104) = Fin (2477331638774661 / 4398046511104)"
  by (rule rnd_eval_pos [where e = "9" and m = 4954663277549322]) simp_all

lemma rnd_g_10: "rnd (14082 / 25) = Fin (2477331638774661 / 4398046511104)"
  by (rule rnd_eval_pos [where e = "9" and m = 4954663277549322]) simp_all

lemma rnd_g_11: "rnd (1238665819387331 / 2199023255552) = Fin (1238665819387331 / 2199023255552)"
  by (rule rnd_eval_pos [where e = "9" and m = 4954663277549324]) simp_all

lemma rnd_g_12: "rnd (2642492945421653 / 4398046511104) = Fin (2642492945421653 / 4398046511104)"
  by (rule rnd_eval_pos [where e = "9" and m = 5284985890843306]) simp_all

lemma rnd_g_13: "rnd (7927478836264959 / 4398046511104) = Fin (7927478836264959 / 4398046511104)"
  by (rule rnd_eval_pos [where e = "10" and m = 7927478836264959]) simp_all

lemma rnd_g_14: "rnd (3605 / 2) = Fin (3605 / 2)"
  by (rule rnd_eval_pos [where e = "10" and m = 7927478836264960]) simp_all

lemma rnd_g_15: "rnd (2477331638774661 / 1099511627776) = Fin (2477331638774661 / 1099511627776)"
  by (rule rnd_eval_pos [where e = "11" and m = 4954663277549322]) simp_all

lemma rnd_g_16: "rnd (56328 / 25) = Fin (2477331638774661 / 1099511627776)"
  by (rule rnd_eval_pos [where e = "11" and m = 4954663277549322]) simp_all

lemma rnd_g_17: "rnd (22313819690517409999087477939241 / 9903520314283042199192993792) = Fin (4954663277549323 / 2199023255552)"
  by (rule rnd_eval_pos [where e = "11" and m = 4954663277549323]) simp_all

lemma rnd_g_18: "rnd (39637394181324795 / 17592186044416) = Fin (4954674272665599 / 2199023255552)"
  by (rule rnd_eval_pos [where e = "11" and m = 4954674272665599]) simp_all

lemma rnd_g_19: "rnd (12386658193873305 / 4398046511104) = Fin (1548332274234163 / 549755813888)"
  by (rule rnd_eval_pos [where e = "11" and m = 6193329096936652]) simp_all

lemma rnd_g_20: "rnd (14082 / 5) = Fin (6193329096936653 / 2199023255552)"
  by (rule rnd_eval_pos [where e = "11" and m = 6193329096936653]) simp_all

lemma rnd_g_21: "rnd (8117738328335318525 / 1125899906842624) = Fin (7927478836264959 / 1099511627776)"
  by (rule rnd_eval_pos [where e = "12" and m = 7927478836264959]) simp_all

lemma rnd_g_23: "rnd (198186970906623975 / 4398046511104) = Fin (6193342840831999 / 137438953472)"
  by (rule rnd_eval_pos [where e = "15" and m = 6193342840831999]) simp_all

lemma rnd_g_24: "rnd (61933290969366525 / 1099511627776) = Fin 56328"
  by (rule rnd_eval_pos [where e = "15" and m = 7741661371170816]) simp_all

lemma rnd_g_25: "rnd (30966645484683275 / 549755813888) = Fin (7741661371170819 / 137438953472)"
  by (rule rnd_eval_pos [where e = "15" and m = 7741661371170819]) simp_all

lemma rnd_g_26: "rnd (198186970906623975 / 1099511627776) = Fin (6193342840831999 / 34359738368)"
  by (rule rnd_eval_pos [where e = "17" and m = 6193342840831999]) simp_all

lemma rnd_g_27: "rnd (61933290969366525 / 274877906944) = Fin 225312"
  by (rule rnd_eval_pos [where e = "17" and m = 7741661371170816]) simp_all

lemma rnd_g_28: "rnd (123866581938733075 / 549755813888) = Fin (7741661371170817 / 34359738368)"
  by (rule rnd_eval_pos [where e = "17" and m = 7741661371170817]) simp_all

lemma rnd_g_29: "rnd (123866856816639975 / 549755813888) = Fin (3870839275519999 / 17179869184)"
  by (rule rnd_eval_pos [where e = "17" and m = 7741678551039998]) simp_all

lemma rnd_g_30: "rnd (38708306855854075 / 137438953472) = Fin (4838538356981759 / 17179869184)"
  by (rule rnd_eval_pos [where e = "18" and m = 4838538356981759]) simp_all

lemmas rnd_examples = rnd_a_0 rnd_a_1 rnd_a_2 rnd_a_3 rnd_a_4 rnd_a_5 rnd_a_6 rnd_a_7 rnd_a_8 rnd_a_9 rnd_a_10 rnd_a_11 rnd_a_12 rnd_a_13 rnd_a_14 rnd_a_15 rnd_a_16 rnd_a_17 rnd_a_18 rnd_a_19 rnd_a_20 rnd_c_1 rnd_c_2 rnd_c_3 rnd_c_4 rnd_c_5 rnd_c_6 rnd_c_7 rnd_c_9 rnd_c_10 rnd_c_11 rnd_c_12 rnd_c_13 rnd_c_14 rnd_c_16 rnd_c_17 rnd_c_18 rnd_c_19 rnd_c_20 rnd_c_21 rnd_c_22 rnd_d_6 rnd_d_7 rnd_d_8 rnd_d_9 rnd_d_10 rnd_d_11 rnd_d_12 rnd_d_13 rnd_d_14 rnd_d_15 rnd_d_16 rnd_d_17 rnd_d_18 rnd_d_19 rnd_d_20 rnd_d_21 rnd_d_22 rnd_e_2 rnd_e_4 rnd_e_5 rnd_e_8 rnd_e_9 rnd_e_10 rnd_e_11 rnd_e_12 rnd_e_13 rnd_e_14 rnd_e_17 rnd_e_20 rnd_f_6 rnd_f_8 rnd_g_2 rnd_g_4 rnd_g_7 rnd_g_8 rnd_g_9 rnd_g_10 rnd_g_11 rnd_g_12 rnd_g_13 rnd_g_14 rnd_g_15 rnd_g_16 rnd_g_17 rnd_g_18 rnd_g_19 rnd_g_20 rnd_g_21 rnd_g_23 rnd_g_24 rnd_g_25 rnd_g_26 rnd_g_27 rnd_g_28 rnd_g_29 rnd_g_30

lemmas eval_d = orElse_def totalOf_d_def get_d_def orDefault_d_def sum_d_def round_d_def floor_rat
  DEFAULT_ON_COST_RATE_d_def dsub_def signedInf_def

section \<open>The examples evaluated\<close>

lemma example_staff_d_fields:
  "staff_d example_staff_d = Some [[''salary'' \<mapsto> DNum (Fin 40000), ''fte'' \<mapsto> DNum (Fin 100),
                        ''months'' \<mapsto> DNum (Fin 12), ''onCostRate'' \<mapsto> DNum (Fin (1 / 4))]]"
  "travel_d example_staff_d = None" "equipment_d example_staff_d = None" "consumables_d example_staff_d = None"
  "other_d example_staff_d = None" "subcontracting_d example_staff_d = None"
  "costModel_d example_staff_d = Some ''fEC''" "fecRate_d example_staff_d = Some (Fin 80)"
  "overheadRate_d example_staff_d = Some (Fin 25)" "customRate_d example_staff_d = None"
  by (simp_all add: example_staff_d_def)

lemma staffCalc_d_example:
  "staffCalc_d [''salary'' \<mapsto> DNum (Fin 40000), ''fte'' \<mapsto> DNum (Fin 100),
                ''months'' \<mapsto> DNum (Fin 12), ''onCostRate'' \<mapsto> DNum (Fin (1 / 4))] ''total''
     = Some (DNum (Fin 50000))"
  by (simp add: staffCalc_d_def Let_def eval_d rnd_examples)

lemma example_staff_d_items:
  "map totalOf_d (items_d (staff_cd (categories_d (calculateBudget_d example_staff_d)))) = [Fin 50000]"
  by (simp add: calculateBudget_d_items example_staff_d_fields orElse_def totalOf_d_def get_d_def
      staffCalc_d_example)

lemma example_staff_d_totals:
  "total_d (staff_cd (categories_d (calculateBudget_d example_staff_d))) = Fin 50000"
  "total_d (travel_cd (categories_d (calculateBudget_d example_staff_d))) = Fin 0"
  "total_d (equipment_cd (categories_d (calculateBudget_d example_staff_d))) = Fin 0"
  "total_d (consumables_cd (categories_d (calculateBudget_d example_staff_d))) = Fin 0"
  "total_d (other_cd (categories_d (calculateBudget_d example_staff_d))) = Fin 0"
  "total_d (subcontracting_cd (categories_d (calculateBudget_d example_staff_d))) = Fin 0"
  by (simp_all add: calculateBudget_d_totals example_staff_d_items)
    (simp_all add: calculateBudget_d_items example_staff_d_fields eval_d rnd_examples)

lemma example_staff_d_direct:
  "directCosts_d (summary_d (calculateBudget_d example_staff_d)) = Fin 50000"
  by (simp add: calculateBudget_d_directCosts example_staff_d_totals rnd_examples)

lemma example_staff_d_indirect:
  "indirectCosts_d (summary_d (calculateBudget_d example_staff_d)) = Fin 12500"
  by (simp add: calculateBudget_d_indirectCosts example_staff_d_direct example_staff_d_fields eval_d rnd_examples)

lemma example_staff_d_fullEC:
  "fullEconomicCost_d (summary_d (calculateBudget_d example_staff_d)) = Fin 62500"
  by (simp add: calculateBudget_d_fullEconomicCost example_staff_d_direct example_staff_d_indirect eval_d rnd_examples)

lemma example_staff_d_funder:
  "funderContribution_d (summary_d (calculateBudget_d example_staff_d)) = Fin 50000"
  by (simp add: calculateBudget_d_split example_staff_d_fullEC example_staff_d_fields eval_d rnd_examples)

lemma example_staff_d_institution:
  "institutionContribution_d (summary_d (calculateBudget_d example_staff_d)) = Fin 12500"
  by (simp add: calculateBudget_d_split example_staff_d_fullEC example_staff_d_funder example_staff_d_fields
      eval_d rnd_examples)

lemma example_fte_zero_fields:
  "staff_d example_fte_zero = Some [[''salary'' \<mapsto> DNum (Fin 40000), ''fte'' \<mapsto> DNum (Fin 0),
                                  ''months'' \<mapsto> DNum (Fin 12), ''onCostRate'' \<mapsto> DNum (Fin (1 / 4))]]"
  "travel_d example_fte_zero = None"
  "equipment_d example_fte_zero = None"
  "consumables_d example_fte_zero = None"
  "other_d example_fte_zero = None"
  "subcontracting_d example_fte_zero = None"
  "costModel_d example_fte_zero = None" "fecRate_d example_fte_zero = None" "overheadRate_d example_fte_zero = None" "customRate_d example_fte_zero = None"
  by (simp_all add: example_fte_zero_def noItems_def)

lemma staffCalc_d_fte_zero_example:
  "staffCalc_d [''salary'' \<mapsto> DNum (Fin 40000), ''fte'' \<mapsto> DNum (Fin 0),
                ''months'' \<mapsto> DNum (Fin 12), ''onCostRate'' \<mapsto> DNum (Fin (1 / 4))] ''total''
     = Some (DNum (Fin 50000))"
  "staffCalc_d [''salary'' \<mapsto> DNum (Fin 40000), ''fte'' \<mapsto> DNum (Fin 0),
                ''months'' \<mapsto> DNum (Fin 12), ''onCostRate'' \<mapsto> DNum (Fin (1 / 4))] ''fte''
     = Some (DNum (Fin 100))"
  by (simp_all add: staffCalc_d_def Let_def eval_d rnd_examples)

lemma example_fte_zero_items:
  "map totalOf_d (items_d (staff_cd (categories_d (calculateBudget_d example_fte_zero)))) = [Fin 50000]"
  "map (\<lambda>i. get_d i ''fte'') (items_d (staff_cd (categories_d (calculateBudget_d example_fte_zero))))
     = [DNum (Fin 100)]"
  by (simp_all add: calculateBudget_d_items example_fte_zero_fields orElse_def totalOf_d_def get_d_def
      staffCalc_d_fte_zero_example)

lemma example_tenths_fields:
  "staff_d example_tenths = None"
  "travel_d example_tenths = None"
  "equipment_d example_tenths = Some [[''cost'' \<mapsto> DNum (rnd (1 / 10))]]"
  "consumables_d example_tenths = Some [[''cost'' \<mapsto> DNum (rnd (1 / 5))]]"
  "other_d example_tenths = None"
  "subcontracting_d example_tenths = None"
  "costModel_d example_tenths = None" "fecRate_d example_tenths = None" "overheadRate_d example_tenths = None" "customRate_d example_tenths = None"
  by (simp_all add: example_tenths_def noItems_def)

lemma example_tenths_totals:
  "total_d (staff_cd (categories_d (calculateBudget_d example_tenths))) = Fin 0"
  "total_d (travel_cd (categories_d (calculateBudget_d example_tenths))) = Fin 0"
  "total_d (equipment_cd (categories_d (calculateBudget_d example_tenths))) = Fin (3602879701896397 / 36028797018963968)"
  "total_d (consumables_cd (categories_d (calculateBudget_d example_tenths))) = Fin (3602879701896397 / 18014398509481984)"
  "total_d (other_cd (categories_d (calculateBudget_d example_tenths))) = Fin 0"
  "total_d (subcontracting_cd (categories_d (calculateBudget_d example_tenths))) = Fin 0"
  by (simp_all add: calculateBudget_d_totals calculateBudget_d_items example_tenths_fields costCalc_d_def eval_d
      rnd_examples)

lemma example_tenths_direct:
  "directCosts_d (summary_d (calculateBudget_d example_tenths)) = Fin (1351079888211149 / 4503599627370496)"
  by (simp add: calculateBudget_d_directCosts example_tenths_totals rnd_examples)

lemma example_tenths_rounded:
  "round_d (Fin (1351079888211149 / 4503599627370496)) = Fin (5404319552844595 / 18014398509481984)"
  by (simp add: eval_d rnd_examples)

lemma example_infinite_fields:
  "staff_d example_infinite = None"
  "travel_d example_infinite = None"
  "equipment_d example_infinite = Some [[''cost'' \<mapsto> DStr ''Infinity'']]"
  "consumables_d example_infinite = None"
  "other_d example_infinite = None"
  "subcontracting_d example_infinite = None"
  "costModel_d example_infinite = None" "fecRate_d example_infinite = None" "overheadRate_d example_infinite = None" "customRate_d example_infinite = None"
  by (simp_all add: example_infinite_def noItems_def)

lemma parseFloat_d_Infinity: "parseFloat_str_d ''Infinity'' = PInf"
  by (simp add: parseFloat_str_d_def unsignedLiteral_d_def isWhiteSpace_def)

lemma example_infinite_totals:
  "total_d (staff_cd (categories_d (calculateBudget_d example_infinite))) = Fin 0"
  "total_d (travel_cd (categories_d (calculateBudget_d example_infinite))) = Fin 0"
  "total_d (equipment_cd (categories_d (calculateBudget_d example_infinite))) = PInf"
  "total_d (consumables_cd (categories_d (calculateBudget_d example_infinite))) = Fin 0"
  "total_d (other_cd (categories_d (calculateBudget_d example_infinite))) = Fin 0"
  "total_d (subcontracting_cd (categories_d (calculateBudget_d example_infinite))) = Fin 0"
  by (simp_all add: calculateBudget_d_totals calculateBudget_d_items example_infinite_fields costCalc_d_def eval_d
      rnd_examples parseFloat_d_Infinity)

lemma example_infinite_direct:
  "directCosts_d (summary_d (calculateBudget_d example_infinite)) = PInf"
  by (simp add: calculateBudget_d_directCosts example_infinite_totals rnd_examples)

lemma example_infinite_indirect:
  "indirectCosts_d (summary_d (calculateBudget_d example_infinite)) = PInf"
  by (simp add: calculateBudget_d_indirectCosts example_infinite_direct example_infinite_fields eval_d rnd_examples)

lemma example_infinite_fullEC:
  "fullEconomicCost_d (summary_d (calculateBudget_d example_infinite)) = PInf"
  by (simp add: calculateBudget_d_fullEconomicCost example_infinite_direct example_infinite_indirect eval_d rnd_examples)

lemma example_infinite_funder:
  "funderContribution_d (summary_d (calculateBudget_d example_infinite)) = PInf"
  by (simp add: calculateBudget_d_split example_infinite_fullEC example_infinite_fields eval_d rnd_examples)

lemma example_infinite_institution:
  "institutionContribution_d (summary_d (calculateBudget_d example_infinite)) = NaN"
  by (simp add: calculateBudget_d_split example_infinite_fullEC example_infinite_funder example_infinite_fields eval_d rnd_examples)

lemma example_large_fields:
  "staff_d example_large = None"
  "travel_d example_large = None"
  "equipment_d example_large = Some [[''cost'' \<mapsto> DNum (rnd (2816531865192456 / 100))]]"
  "consumables_d example_large = None"
  "other_d example_large = None"
  "subcontracting_d example_large = None"
  "costModel_d example_large = None" "fecRate_d example_large = None" "overheadRate_d example_large = None" "customRate_d example_large = None"
  by (simp_all add: example_large_def noItems_def)

lemma example_large_totals:
  "total_d (staff_cd (categories_d (calculateBudget_d example_large))) = Fin 0"
  "total_d (travel_cd (categories_d (calculateBudget_d example_large))) = Fin 0"
  "total_d (equipment_cd (categories_d (calculateBudget_d example_large))) = Fin (7210321574892687 / 256)"
  "total_d (consumables_cd (categories_d (calculateBudget_d example_large))) = Fin 0"
  "total_d (other_cd (categories_d (calculateBudget_d example_large))) = Fin 0"
  "total_d (subcontracting_cd (categories_d (calculateBudget_d example_large))) = Fin 0"
  by (simp_all add: calculateBudget_d_totals calculateBudget_d_items example_large_fields costCalc_d_def eval_d
      rnd_examples)

lemma example_large_direct:
  "directCosts_d (summary_d (calculateBudget_d example_large)) = Fin (7210321574892687 / 256)"
  by (simp add: calculateBudget_d_directCosts example_large_totals rnd_examples)

lemma example_large_indirect:
  "indirectCosts_d (summary_d (calculateBudget_d example_large)) = Fin (7210321574892687 / 1024)"
  by (simp add: calculateBudget_d_indirectCosts example_large_direct example_large_fields eval_d rnd_examples)

lemma example_large_fullEC:
  "fullEconomicCost_d (summary_d (calculateBudget_d example_large)) = Fin (2253225492153965 / 64)"
  by (simp add: calculateBudget_d_fullEconomicCost example_large_direct example_large_indirect eval_d rnd_examples)

lemma example_large_funder:
  "funderContribution_d (summary_d (calculateBudget_d example_large)) = Fin (7210321574892687 / 256)"
  by (simp add: calculateBudget_d_split example_large_fullEC example_large_fields eval_d rnd_examples)

lemma example_large_institution:
  "institutionContribution_d (summary_d (calculateBudget_d example_large)) = Fin (3605160787446349 / 512)"
  by (simp add: calculateBudget_d_split example_large_fullEC example_large_funder example_large_fields eval_d rnd_examples)

lemma example_large_sum:
  "round_d (dadd (Fin (3605160787446349 / 512)) (Fin (7210321574892687 / 256))) = Fin (4506450984307931 / 128)"
  by (simp add: eval_d rnd_examples)

section \<open>Claims about the budget engine\<close>

text \<open>
  Claim C1, amended to what the code does. Under every cost model, recognised or not: when
  the full economic cost and the funder contribution that \<open>calculateBudget\<close> returns are
  finite and at most \<open>10 ^ 12\<close> in magnitude, the institution contribution is finite, the
  two contributions add up to the full economic cost to within half a penny, and their sum
  as the machine computes it, rounded to two decimal places, is the full economic cost.
\<close>

theorem contributions_sum_bounded:
  assumes "fullEconomicCost_d (summary_d (calculateBudget_d d)) = Fin e" and "\<bar>e\<bar> \<le> 10 ^ 12"
    and "funderContribution_d (summary_d (calculateBudget_d d)) = Fin f" and "\<bar>f\<bar> \<le> 10 ^ 12"
  shows "\<exists>i. institutionContribution_d (summary_d (calculateBudget_d d)) = Fin i
           \<and> \<bar>i + f - e\<bar> < 1 / 200
           \<and> round_d (dadd (Fin i) (Fin f)) = Fin e"
proof -
  let ?s = "summary_d (calculateBudget_d d)"
  have "round_d (dadd (directCosts_d ?s) (indirectCosts_d ?s)) = Fin e"
    using assms(1) by (simp only: calculateBudget_d_fullEconomicCost)
  then obtain K :: int where K: "rnd (of_int K / 100) = Fin e"
    by (rule round_d_FinE)
  note ke = amount_close [OF K assms(2)]
  show ?thesis
  proof (cases "orElse (costModel_d d) ''fEC'' = ''full''")
    case True
    then have i: "institutionContribution_d ?s = Fin 0" and fe: "f = e"
      using assms(1,3) by (simp_all add: calculateBudget_d_split)
    have "\<bar>0 + f - of_int K / 100\<bar> \<le> 1 / 2048" using ke(2) fe by simp
    with K assms(2) have "round_d (dadd (Fin 0) (Fin f)) = Fin e" by (rule sum_rounds_back)
    with i fe show ?thesis by simp
  next
    case False
    let ?r = "ddiv (if orElse (costModel_d d) ''fEC'' = ''custom'' then orElse (customRate_d d) (Fin 100)
                    else orElse (fecRate_d d) (Fin 80)) 100"
    have "round_d (dmul (Fin e) ?r) = Fin f"
      using assms(1,3) False by (simp add: calculateBudget_d_split)
    then obtain K2 :: int where K2: "rnd (of_int K2 / 100) = Fin f"
      by (rule round_d_FinE)
    have i: "institutionContribution_d ?s = round_d (dsub (Fin e) (Fin f))"
      using assms(1,3) False by (simp add: calculateBudget_d_split)
    from diff_rounds [OF K assms(2) K2 assms(4)] obtain i where
      a: "round_d (dsub (Fin e) (Fin f)) = Fin i" and b: "\<bar>i + f - of_int K / 100\<bar> \<le> 1 / 2048"
      and c: "\<bar>i + f - e\<bar> \<le> 1 / 2048"
      by blast
    from K assms(2) b have "round_d (dadd (Fin i) (Fin f)) = Fin e" by (rule sum_rounds_back)
    with i a c show ?thesis by simp
  qed
qed

text \<open>
  An instance: the worked example of the specification, with a full economic cost of 62500
  and a funder contribution of 50000.
\<close>

theorem contributions_sum_bounded_witness:
  "fullEconomicCost_d (summary_d (calculateBudget_d example_staff_d)) = Fin 62500
   \<and> \<bar>62500 :: rat\<bar> \<le> 10 ^ 12
   \<and> funderContribution_d (summary_d (calculateBudget_d example_staff_d)) = Fin 50000
   \<and> \<bar>50000 :: rat\<bar> \<le> 10 ^ 12
   \<and> (\<exists>i. institutionContribution_d (summary_d (calculateBudget_d example_staff_d)) = Fin i
          \<and> \<bar>i + 50000 - 62500\<bar> < 1 / 200
          \<and> round_d (dadd (Fin i) (Fin 50000)) = Fin 62500)"
  using contributions_sum_bounded [of example_staff_d 62500 50000]
  by (simp add: example_staff_d_fullEC example_staff_d_funder)

text \<open>
  Claim C1 as stated fails. For one equipment item with the cost \<open>Infinity\<close> the full
  economic cost and the funder contribution are infinite and the institution contribution
  is \<open>NaN\<close>, so that the sum is \<open>NaN\<close>. For one equipment item with the cost
  28165318651924.56 the full economic cost is 35206648314905.70, the funder contribution
  28165318651924.56 and the institution contribution 7041329662981.15: the sum is more
  than half a penny above the full economic cost and rounds to 35206648314905.71.
\<close>

theorem contributions_sum_counterexample:
  "fullEconomicCost_d (summary_d (calculateBudget_d example_infinite)) = PInf
   \<and> funderContribution_d (summary_d (calculateBudget_d example_infinite)) = PInf
   \<and> institutionContribution_d (summary_d (calculateBudget_d example_infinite)) = NaN
   \<and> dadd NaN PInf \<noteq> PInf
   \<and> fullEconomicCost_d (summary_d (calculateBudget_d example_large)) = Fin (2253225492153965 / 64)
   \<and> funderContribution_d (summary_d (calculateBudget_d example_large)) = Fin (7210321574892687 / 256)
   \<and> institutionContribution_d (summary_d (calculateBudget_d example_large)) = Fin (3605160787446349 / 512)
   \<and> (3605160787446349 / 512 + 7210321574892687 / 256 - 2253225492153965 / 64 :: rat) = 3 / 512
   \<and> round_d (dadd (Fin (3605160787446349 / 512)) (Fin (7210321574892687 / 256)))
        = Fin (4506450984307931 / 128)
   \<and> (4506450984307931 / 128 :: rat) \<noteq> 2253225492153965 / 64"
proof -
  have a: "dadd NaN PInf \<noteq> PInf" by simp
  have b: "(3605160787446349 / 512 + 7210321574892687 / 256 - 2253225492153965 / 64 :: rat) = 3 / 512"
    by simp
  have c: "(4506450984307931 / 128 :: rat) \<noteq> 2253225492153965 / 64" by simp
  show ?thesis
    by (intro conjI a b c example_infinite_fullEC example_infinite_funder example_infinite_institution
        example_large_fullEC example_large_funder example_large_institution example_large_sum)
qed

text \<open>
  Claim C3, at the input on which the code departs from it. The staff item
  \<open>{salary = 40000, fte = 0, months = 12, onCostRate = 0.25}\<close> has a numeric \<open>fte\<close>, and
  the formula of the claim, \<open>(salary \<times> fte/100 / 12 \<times> months) \<times> (1 + onCostRate)\<close>, gives
  the subtotal 0 for it. The code returns the subtotal 50000 and the \<open>fte\<close> 100. The worked
  example of the claim, with an \<open>fte\<close> of 100, is computed as the claim says: subtotal
  50000, direct costs 50000, indirect costs 12500, full economic cost 62500, funder
  contribution 50000 and institution contribution 12500.
\<close>

theorem staff_subtotal_fte_zero:
  "map totalOf_d (items_d (staff_cd (categories_d (calculateBudget_d example_fte_zero)))) = [Fin 50000]
   \<and> map (\<lambda>i. get_d i ''fte'') (items_d (staff_cd (categories_d (calculateBudget_d example_fte_zero))))
        = [DNum (Fin 100)]
   \<and> staffSubtotal_spec 40000 0 12 (1 / 4) = 0
   \<and> map totalOf_d (items_d (staff_cd (categories_d (calculateBudget_d example_staff_d)))) = [Fin 50000]
   \<and> staffSubtotal_spec 40000 100 12 (1 / 4) = 50000
   \<and> directCosts_d (summary_d (calculateBudget_d example_staff_d)) = Fin 50000
   \<and> indirectCosts_d (summary_d (calculateBudget_d example_staff_d)) = Fin 12500
   \<and> fullEconomicCost_d (summary_d (calculateBudget_d example_staff_d)) = Fin 62500
   \<and> funderContribution_d (summary_d (calculateBudget_d example_staff_d)) = Fin 50000
   \<and> institutionContribution_d (summary_d (calculateBudget_d example_staff_d)) = Fin 12500"
  by (simp add: example_fte_zero_items example_staff_d_items example_staff_d_direct example_staff_d_indirect
      example_staff_d_fullEC example_staff_d_funder example_staff_d_institution staffSubtotal_spec_def)

text \<open>
  Claim C5, at the input on which the code departs from it. For one equipment item of cost
  0.1 and one consumables item of cost 0.2 the two category totals are 0.1 and 0.2, and
  \<open>directCosts\<close>, which line 95 adds up without a call of \<open>round\<close>, is
  0.30000000000000004: not the sum of the category totals rounded to two decimal places,
  which is 0.3.
\<close>

theorem direct_costs_not_rounded:
  "total_d (equipment_cd (categories_d (calculateBudget_d example_tenths))) = rnd (1 / 10)
   \<and> total_d (consumables_cd (categories_d (calculateBudget_d example_tenths))) = rnd (1 / 5)
   \<and> directCosts_d (summary_d (calculateBudget_d example_tenths)) = Fin (1351079888211149 / 4503599627370496)
   \<and> round_d (directCosts_d (summary_d (calculateBudget_d example_tenths))) = rnd (3 / 10)
   \<and> rnd (3 / 10) = Fin (5404319552844595 / 18014398509481984)
   \<and> directCosts_d (summary_d (calculateBudget_d example_tenths))
        \<noteq> round_d (directCosts_d (summary_d (calculateBudget_d example_tenths)))"
  by (simp add: example_tenths_totals example_tenths_direct example_tenths_rounded rnd_examples)

text \<open>
  Claim C8, amended to what the code does. On every argument whose categories are each
  absent or an array of line item objects the call returns, and every object and array
  that was in the store before the call is the same after it. Each of the six arrays
  returned is a new array of new objects, one for each item passed and in the same order.
  A returned staff item has the fields of the item passed and the fields \<open>fte\<close>,
  \<open>annualCost\<close>, \<open>monthlyCost\<close>, \<open>totalBase\<close>, \<open>onCosts\<close> and \<open>total\<close>, agrees with the
  item passed on every other field, and holds a number in each of these six; a returned
  item of any other category does so with the one field \<open>total\<close>.
\<close>

theorem items_annotated_input_unchanged:
  assumes "validInput d s"
  shows "\<exists>b s'. calculateBudget_s d s = Some (b, s')
     \<and> take (length s) s' = s
     \<and> newItems staffKeys s (inputItems s (staff_d d)) s' (items_d (staff_cd (categories_d b)))
     \<and> newItems [''total''] s (inputItems s (travel_d d)) s' (items_d (travel_cd (categories_d b)))
     \<and> newItems [''total''] s (inputItems s (equipment_d d)) s' (items_d (equipment_cd (categories_d b)))
     \<and> newItems [''total''] s (inputItems s (consumables_d d)) s' (items_d (consumables_cd (categories_d b)))
     \<and> newItems [''total''] s (inputItems s (other_d d)) s' (items_d (other_cd (categories_d b)))
     \<and> newItems [''total''] s (inputItems s (subcontracting_d d)) s'
           (items_d (subcontracting_cd (categories_d b)))"
proof -
  from assms obtain A1 A2 A3 A4 A5 A6 w where
    c: "calculateBudget_s d s =
       Some (summarise (elemsAt (s @ w))
               (orElse (costModel_d d) ''fEC'') (orElse (fecRate_d d) (Fin 80))
               (orElse (overheadRate_d d) (Fin 25)) (orElse (customRate_d d) (Fin 100))
               A1 A2 A3 A4 A5 A6, s @ w)"
    and m1: "mappedItems staffCalc_d s (inputItems s (staff_d d)) (s @ w) A1"
    and m2: "mappedItems travelCalc_d s (inputItems s (travel_d d)) (s @ w) A2"
    and m3: "mappedItems costCalc_d s (inputItems s (equipment_d d)) (s @ w) A3"
    and m4: "mappedItems costCalc_d s (inputItems s (consumables_d d)) (s @ w) A4"
    and m5: "mappedItems costCalc_d s (inputItems s (other_d d)) (s @ w) A5"
    and m6: "mappedItems costCalc_d s (inputItems s (subcontracting_d d)) (s @ w) A6"
    by (rule calculateBudget_s_closed)
  have t: "take (length s) (s @ w) = s" by simp
  note n = mappedItems_newItems [OF m1 staffCalc_d_annotated] mappedItems_newItems [OF m2 travelCalc_d_annotated]
    mappedItems_newItems [OF m3 costCalc_d_annotated] mappedItems_newItems [OF m4 costCalc_d_annotated]
    mappedItems_newItems [OF m5 costCalc_d_annotated] mappedItems_newItems [OF m6 costCalc_d_annotated]
  show ?thesis
    by (intro exI conjI, rule c, rule t) (simp_all only: summarise_items n)
qed

text \<open>
  An instance: a store of one staff item and the array that holds it. The two cells are the
  same after the call, and the staff array returned holds one new object annotated under
  the six keys.
\<close>

theorem items_annotated_input_unchanged_witness:
  "validInput example_refs example_store
   \<and> (\<exists>b s'. calculateBudget_s example_refs example_store = Some (b, s')
         \<and> take 2 s' = [Object example_ada, Array [0]]
         \<and> newItems staffKeys example_store [example_ada] s' (items_d (staff_cd (categories_d b))))"
proof -
  have v: "validInput example_refs example_store"
    by (simp add: validInput_def example_refs_def noItems_def example_store_def isItemArray_def isObject_def)
  have i: "inputItems example_store (staff_d example_refs) = [example_ada]"
    by (simp add: inputItems_def example_refs_def noItems_def example_store_def elemsAt_def objAt_def)
  have l: "length example_store = 2" and e: "example_store = [Object example_ada, Array [0]]"
    by (simp_all add: example_store_def)
  from items_annotated_input_unchanged [OF v] obtain b s' where
    "calculateBudget_s example_refs example_store = Some (b, s')"
    "take (length example_store) s' = example_store"
    "newItems staffKeys example_store (inputItems example_store (staff_d example_refs)) s'
       (items_d (staff_cd (categories_d b)))"
    by blast
  then have "calculateBudget_s example_refs example_store = Some (b, s')
         \<and> take 2 s' = [Object example_ada, Array [0]]
         \<and> newItems staffKeys example_store [example_ada] s' (items_d (staff_cd (categories_d b)))"
    by (simp only: i l) (simp only: e simp_thms)
  with v show ?thesis by blast
qed

text \<open>
  Claim C8 as stated fails: a staff item passed with the \<open>fte\<close> \<open>'50'\<close>, a string, and
  without a field \<open>annualCost\<close> is returned with the \<open>fte\<close> 50, a number, and with the
  field \<open>annualCost\<close>; it is not the item passed with nothing but a subtotal added.
\<close>

theorem items_annotated_counterexample:
  "get_d example_ada ''fte'' = DStr ''50''
   \<and> map (\<lambda>i. get_d i ''fte'') (items_d (staff_cd (categories_d
        (calculateBudget_d (noItems\<lparr>staff_d := Some [example_ada]\<rparr>))))) = [DNum (Fin 50)]
   \<and> get_d example_ada ''annualCost'' = DUndefined
   \<and> map (\<lambda>i. get_d i ''annualCost'') (items_d (staff_cd (categories_d
        (calculateBudget_d (noItems\<lparr>staff_d := Some [example_ada]\<rparr>))))) = [DNum (Fin 500)]
   \<and> \<not> annotated [''total''] example_ada (hd (items_d (staff_cd (categories_d
        (calculateBudget_d (noItems\<lparr>staff_d := Some [example_ada]\<rparr>))))))"
proof -
  have s: "staff_d (noItems\<lparr>staff_d := Some [example_ada]\<rparr>) = Some [example_ada]"
    by (simp add: noItems_def)
  have p: "parseFloat_str_d ''50'' = Fin 50"
    by (simp add: parseFloat_str_d_def unsignedLiteral_d_def unsignedDecimal_def isWhiteSpace_def
        isDigit_def digitsValue_def exponentPart_def pow10_def rnd_examples)
  have f: "staffCalc_d example_ada ''fte'' = Some (DNum (Fin 50))"
    and a: "staffCalc_d example_ada ''annualCost'' = Some (DNum (Fin 500))"
    by (simp_all add: staffCalc_d_def Let_def example_ada_def eval_d p rnd_examples)
  have "\<not> annotated [''total''] example_ada (staffCalc_d example_ada)"
  proof
    assume "annotated [''total''] example_ada (staffCalc_d example_ada)"
    then have "staffCalc_d example_ada ''annualCost'' = example_ada ''annualCost''"
      by (simp add: annotated_def)
    with a show False by (simp add: example_ada_def)
  qed
  then show ?thesis
    using f a by (simp add: calculateBudget_d_items s orElse_def get_d_def) (simp add: example_ada_def)
qed

text \<open>
  Claim C9. A staff item whose \<open>fte\<close> parses to 0 is computed, in every field,
  as if its \<open>fte\<close> were 100; one whose \<open>onCostRate\<close> parses to 0 as
  if it were 0.25, and a travel item whose \<open>numTrips\<close> parses to 0 as if it were
  1, in every field but the one given. The whole result of \<open>calculateBudget\<close>,
  respectively its summary, is then the same.
\<close>

theorem falsy_values_take_defaults:
  assumes "parseFloat v = Some 0"
  shows "staffCalc (item(''fte'' \<mapsto> v)) = staffCalc (item(''fte'' \<mapsto> JNum 100))
     \<and> (\<forall>k. k \<noteq> ''onCostRate'' \<longrightarrow>
           staffCalc (item(''onCostRate'' \<mapsto> v)) k = staffCalc (item(''onCostRate'' \<mapsto> JNum (1 / 4))) k)
     \<and> (\<forall>k. k \<noteq> ''numTrips'' \<longrightarrow>
           travelCalc (item(''numTrips'' \<mapsto> v)) k = travelCalc (item(''numTrips'' \<mapsto> JNum 1)) k)
     \<and> calculateBudget (d\<lparr>staff := Some (xs @ item(''fte'' \<mapsto> v) # ys)\<rparr>)
         = calculateBudget (d\<lparr>staff := Some (xs @ item(''fte'' \<mapsto> JNum 100) # ys)\<rparr>)
     \<and> summary (calculateBudget (d\<lparr>staff := Some (xs @ item(''onCostRate'' \<mapsto> v) # ys)\<rparr>))
         = summary (calculateBudget (d\<lparr>staff := Some (xs @ item(''onCostRate'' \<mapsto> JNum (1 / 4)) # ys)\<rparr>))
     \<and> summary (calculateBudget (d\<lparr>travel := Some (xs @ item(''numTrips'' \<mapsto> v) # ys)\<rparr>))
         = summary (calculateBudget (d\<lparr>travel := Some (xs @ item(''numTrips'' \<mapsto> JNum 1) # ys)\<rparr>))"
proof -
  note f = staffCalc_fte_zero [OF assms, of item]
  have o: "\<forall>k. k \<noteq> ''onCostRate'' \<longrightarrow>
           staffCalc (item(''onCostRate'' \<mapsto> v)) k = staffCalc (item(''onCostRate'' \<mapsto> JNum (1 / 4))) k"
    using staffCalc_onCostRate_zero [OF assms] by blast
  have t: "\<forall>k. k \<noteq> ''numTrips'' \<longrightarrow>
           travelCalc (item(''numTrips'' \<mapsto> v)) k = travelCalc (item(''numTrips'' \<mapsto> JNum 1)) k"
    using travelCalc_numTrips_zero [OF assms] by blast
  have c1: "calculateBudget (d\<lparr>staff := Some (xs @ item(''fte'' \<mapsto> v) # ys)\<rparr>)
         = calculateBudget (d\<lparr>staff := Some (xs @ item(''fte'' \<mapsto> JNum 100) # ys)\<rparr>)"
    by (simp add: calculateBudget_def Let_def orElse_def f split: prod.splits)
  have "totalOf (staffCalc (item(''onCostRate'' \<mapsto> v))) = totalOf (staffCalc (item(''onCostRate'' \<mapsto> JNum (1 / 4))))"
    by (rule totalOf_cong) (simp add: o)
  then have c2: "summary (calculateBudget (d\<lparr>staff := Some (xs @ item(''onCostRate'' \<mapsto> v) # ys)\<rparr>))
         = summary (calculateBudget (d\<lparr>staff := Some (xs @ item(''onCostRate'' \<mapsto> JNum (1 / 4)) # ys)\<rparr>))"
    by (intro summary_staff_cong) simp
  have "totalOf (travelCalc (item(''numTrips'' \<mapsto> v))) = totalOf (travelCalc (item(''numTrips'' \<mapsto> JNum 1)))"
    by (rule totalOf_cong) (simp add: t)
  then have c3: "summary (calculateBudget (d\<lparr>travel := Some (xs @ item(''numTrips'' \<mapsto> v) # ys)\<rparr>))
         = summary (calculateBudget (d\<lparr>travel := Some (xs @ item(''numTrips'' \<mapsto> JNum 1) # ys)\<rparr>))"
    by (intro summary_travel_cong) simp
  show ?thesis
    using f o t c1 c2 c3 by blast
qed

text \<open>An instance: a salary of 40000 over 12 months at an fte of 0 costs 50000.\<close>

theorem falsy_values_take_defaults_witness:
  "parseFloat (JNum 0) = Some 0
   \<and> map totalOf (items (staff_c (categories (calculateBudget
       (staff_only [[''salary'' \<mapsto> JNum 40000, ''months'' \<mapsto> JNum 12, ''fte'' \<mapsto> JNum 0]]))))) = [50000]"
proof -
  have h: "parseFloat (JNum 0) = Some 0" by simp
  have "calculateBudget ((staff_only [])\<lparr>staff := Some ([] @ [''salary'' \<mapsto> JNum 40000, ''months'' \<mapsto> JNum 12](''fte'' \<mapsto> JNum 0) # [])\<rparr>)
       = calculateBudget ((staff_only [])\<lparr>staff := Some ([] @ [''salary'' \<mapsto> JNum 40000, ''months'' \<mapsto> JNum 12](''fte'' \<mapsto> JNum 100) # [])\<rparr>)"
    using falsy_values_take_defaults [OF h] by blast
  then have "calculateBudget (staff_only [[''salary'' \<mapsto> JNum 40000, ''months'' \<mapsto> JNum 12, ''fte'' \<mapsto> JNum 0]])
     = calculateBudget (staff_only [[''salary'' \<mapsto> JNum 40000, ''months'' \<mapsto> JNum 12, ''fte'' \<mapsto> JNum 100]])"
    by (simp add: staff_only_def)
  then show ?thesis
    by (simp add: calculateBudget_items staff_only_fields orElse_def totalOf_staffCalc get_def
      orDefault_def staffSubtotal_spec_def round_eval)
qed

section \<open>The parts of a compliance run\<close>

lemma sectionLoop_append:
  "sectionLoop sm t rs res = res @ concat (map (sectionChecks sm t) rs)"
  by (induction rs arbitrary: res) simp_all

lemma results_resolved:
  assumes "resolveScheme funder idx = Some sch"
  shows "results (runComplianceChecks t sm funder idx b d) =
     budgetMaxChecks sch b @ budgetMinChecks sch b @ durationMaxChecks sch d @ durationMinChecks sch d
     @ concat (map (sectionChecks sm t) (orElse (sections sch) []))
     @ textChecks (fullTextOf t sm) @ eligibilityChecks sch @ attachmentChecks sch"
  using assms
  by (simp add: runComplianceChecks_def Let_def sectionLoop_append orElse_def split: option.splits)











lemma length_trim_le: "length (trim t) \<le> length t"
proof -
  have "length (trim t) \<le> length (rev (dropWhile isWhiteSpace t))"
    unfolding trim_def length_rev [of "dropWhile isWhiteSpace (rev (dropWhile isWhiteSpace t))"]
    by (rule length_dropWhile_le)
  also have "\<dots> \<le> length t"
    by (simp add: length_dropWhile_le)
  finally show ?thesis .
qed

lemma resolveScheme_None:
  "resolveScheme funder idx = None \<longleftrightarrow>
     schemes funder = None
     \<or> (\<exists>ss. schemes funder = Some ss \<and> \<not> (0 \<le> orElse idx 0 \<and> orElse idx 0 < int (length ss)))"
  by (auto simp: resolveScheme_def Let_def split: option.splits)

lemma resolveScheme_single: "resolveScheme \<lparr>schemes = Some [sch]\<rparr> None = Some sch"
  by (simp add: resolveScheme_def orElse_def)







lemma sectionChecks_missing:
  assumes "required r"
    and "case findSection sm t (name r) of None \<Rightarrow> True | Some body \<Rightarrow> length body < 50"
  shows "sectionChecks sm t r = [missingSectionFinding r]"
proof (cases "findSection sm t (name r)")
  case None
  then show ?thesis
    using assms(1) by (simp add: sectionChecks_def truthyStr_def)
next
  case (Some body)
  with assms(2) have "length body < 50" by simp
  then have "length (trim body) < 50"
    using length_trim_le [of body] by linarith
  then show ?thesis
    using assms(1) Some by (simp add: sectionChecks_def)
qed

lemma funder_with_sections_resolves:
  "resolveScheme (funder_with_sections rs) None =
     Some \<lparr>maxAmount = None, minAmount = None, maxDuration = None, minDuration = None,
           sections = Some rs, eligibility = None\<rparr>"
  by (simp add: funder_with_sections_def resolveScheme_single)

lemma no_limit_checks:
  assumes "maxAmount sch = None" and "minAmount sch = None" and "maxDuration sch = None"
    and "minDuration sch = None"
  shows "budgetMaxChecks sch b = []" and "budgetMinChecks sch b = []"
    and "durationMaxChecks sch d = []" and "durationMinChecks sch d = []"
  using assms
  by (simp_all add: budgetMaxChecks_def budgetMinChecks_def durationMaxChecks_def durationMinChecks_def
      truthyNum_def)



lemma funder_bare_resolves:
  "resolveScheme funder_bare None =
     Some \<lparr>maxAmount = None, minAmount = None, maxDuration = None, minDuration = None,
           sections = None, eligibility = None\<rparr>"
  by (simp add: funder_bare_def resolveScheme_single)

text \<open>A small proposal: one heading in the text, one section in the map.\<close>

lemma toLowerCase_examples:
  "toLowerCase ''Methods'' = ''methods''" "toLowerCase ''Aims'' = ''aims''"
  by (simp_all add: toLowerCase_def lowerChar_def)

lemma rx_search_example: "rx_search ''Methods'' True ''# Aims'' = None"
  by (simp add: toLowerCase_examples rx_heading_def rx_star_def rx_numbering_def rx_opt_def rx_name_def
      isWhiteSpace_def isDigit_def)

lemma findSection_example:
  "findSection (Some [(''Aims'', ''To build.'')]) (Some ''# Aims'') ''Methods'' = None"
  by (simp add: findSection_def truthyStr_def toLowerCase_examples rx_search_example del: rx_search.simps)

lemma countWords_example: "countWords ''# Aims'' = 2"
  by (simp add: countWords_def trim_def isWhiteSpace_def)

lemma countWholeWord_examples:
  "countWholeWord False ''I'' False ''# Aims'' = 0"
  "countWholeWord True ''very'' False ''# Aims'' = 0"
  "countWholeWord True ''quite'' False ''# Aims'' = 0"
  "countWholeWord True ''somewhat'' False ''# Aims'' = 0"
  "countWholeWord True ''fairly'' False ''# Aims'' = 0"
  "countWholeWord True ''rather'' False ''# Aims'' = 0"
  "countWholeWord True ''extremely'' False ''# Aims'' = 0"
  by (simp_all add: isWordChar_def isDigit_def toLowerCase_def lowerChar_def)

lemma textChecks_example:
  "textChecks ''# Aims'' =
     [\<lparr>check = ''Total Word Count'', status = Pass,
       message = [Lit ''Total proposal text: '', Loc 2, Lit '' words.''], advice = None\<rparr>]"
  by (simp add: textChecks_def Let_def vagueTerms_def countWords_example countWholeWord_examples
      del: countWholeWord.simps)

lemma attachmentChecks_example:
  "attachmentChecks \<lparr>maxAmount = None, minAmount = None, maxDuration = None, minDuration = None,
      sections = Some [\<lparr>name = ''Methods'', required = True, maxWords = Some 500, maxPages = Some 2\<rparr>],
      eligibility = None\<rparr> = []"
  by (simp add: attachmentChecks_def attachmentNames_def toLowerCase_def lowerChar_def)

section \<open>Claims about the compliance checker\<close>

text \<open>
  Claim C2. When no scheme is resolvable, because the funder data has no
  \<open>schemes\<close> or has no entry at the scheme index, the result is exactly the
  overall status \<open>fail\<close> with the one finding \<open>Scheme Selection\<close>, a
  \<open>fail\<close>; no other check contributes.
\<close>

theorem no_scheme_short_circuit:
  assumes "schemes funder = None
     \<or> (\<exists>ss. schemes funder = Some ss \<and> \<not> (0 \<le> orElse idx 0 \<and> orElse idx 0 < int (length ss)))"
  shows "runComplianceChecks t sm funder idx b d = \<lparr>overall = Fail, results = [schemeSelectionFinding]\<rparr>
     \<and> check schemeSelectionFinding = ''Scheme Selection''
     \<and> status schemeSelectionFinding = Fail"
proof -
  have "resolveScheme funder idx = None"
    using assms by (simp only: resolveScheme_None)
  then show ?thesis
    by (simp add: runComplianceChecks_def schemeSelectionFinding_def)
qed

text \<open>Instances: an empty list of schemes, and no list at all.\<close>

theorem no_scheme_short_circuit_witness:
  "runComplianceChecks (Some ''# Aims'') None \<lparr>schemes = Some []\<rparr> None (JNum 5) (JNum 12)
     = \<lparr>overall = Fail, results = [schemeSelectionFinding]\<rparr>
   \<and> runComplianceChecks (Some ''# Aims'') None \<lparr>schemes = None\<rparr> (Some 2) (JNum 5) (JNum 12)
     = \<lparr>overall = Fail, results = [schemeSelectionFinding]\<rparr>"
proof -
  have a: "schemes \<lparr>schemes = Some []\<rparr> = None
     \<or> (\<exists>ss. schemes \<lparr>schemes = Some []\<rparr> = Some ss \<and> \<not> (0 \<le> orElse None 0 \<and> orElse None 0 < int (length ss)))"
    by (simp add: orElse_def)
  have b: "schemes \<lparr>schemes = None\<rparr> = None
     \<or> (\<exists>ss. schemes \<lparr>schemes = None\<rparr> = Some ss \<and> \<not> (0 \<le> orElse (Some 2) 0 \<and> orElse (Some 2) 0 < int (length ss)))"
    by simp
  show ?thesis
    using no_scheme_short_circuit [OF a] no_scheme_short_circuit [OF b] by blast
qed




text \<open>
  Claim C6. For a required section whose text \<open>findSection\<close> resolves neither
  from the section map nor from the full text, or resolves to fewer than 50 characters, the
  iteration of the loop yields exactly one finding, the \<open>fail\<close> named after the
  section, and so no word-limit or page-limit finding; in the results of the run this one
  finding stands between the findings of the sections before and those of the sections
  after.
\<close>

theorem missing_required_section:
  assumes "resolveScheme funder idx = Some sch"
    and "sections sch = Some (before @ r # after)"
    and "required r"
    and "case findSection sm t (name r) of None \<Rightarrow> True | Some body \<Rightarrow> length body < 50"
  shows "sectionChecks sm t r = [missingSectionFinding r]
     \<and> check (missingSectionFinding r) = ''Section: '' @ name r
     \<and> status (missingSectionFinding r) = Fail
     \<and> results (runComplianceChecks t sm funder idx b d) =
         budgetMaxChecks sch b @ budgetMinChecks sch b @ durationMaxChecks sch d @ durationMinChecks sch d
         @ concat (map (sectionChecks sm t) before) @ [missingSectionFinding r]
         @ concat (map (sectionChecks sm t) after)
         @ textChecks (fullTextOf t sm) @ eligibilityChecks sch @ attachmentChecks sch"
  using sectionChecks_missing [OF assms(3,4)]
  by (simp add: results_resolved [OF assms(1)] assms(2) orElse_def missingSectionFinding_def)

text \<open>
  An instance: the section \<open>Methods\<close>, with limits on words and pages, is neither in the map
  nor under a heading of the text.
\<close>

theorem missing_required_section_witness:
  "results (runComplianceChecks (Some ''# Aims'') (Some [(''Aims'', ''To build.'')])
      (funder_with_sections [\<lparr>name = ''Methods'', required = True, maxWords = Some 500, maxPages = Some 2\<rparr>])
      None JUndefined JUndefined)
   = [missingSectionFinding \<lparr>name = ''Methods'', required = True, maxWords = Some 500, maxPages = Some 2\<rparr>,
      \<lparr>check = ''Total Word Count'', status = Pass,
       message = [Lit ''Total proposal text: '', Loc 2, Lit '' words.''], advice = None\<rparr>]"
proof -
  let ?r = "\<lparr>name = ''Methods'', required = True, maxWords = Some 500, maxPages = Some 2\<rparr>"
  let ?sch = "\<lparr>maxAmount = None, minAmount = None, maxDuration = None, minDuration = None,
           sections = Some [?r], eligibility = None\<rparr>"
  have s: "sections ?sch = Some ([] @ ?r # [])"
    by simp
  have q: "required ?r" by simp
  have u: "case findSection (Some [(''Aims'', ''To build.'')]) (Some ''# Aims'') (name ?r) of
             None \<Rightarrow> True | Some body \<Rightarrow> length body < 50"
    by (simp add: findSection_example)
  have l: "budgetMaxChecks ?sch JUndefined = []" "budgetMinChecks ?sch JUndefined = []"
    "durationMaxChecks ?sch JUndefined = []" "durationMinChecks ?sch JUndefined = []"
    by (simp_all add: no_limit_checks)
  have f: "fullTextOf (Some ''# Aims'') (Some [(''Aims'', ''To build.'')]) = ''# Aims''"
    by (simp add: fullTextOf_def truthyStr_def)
  have e: "eligibilityChecks ?sch = []"
    by (simp add: eligibilityChecks_def truthyStr_def)
  show ?thesis
    using missing_required_section [OF funder_with_sections_resolves s q u, of JUndefined JUndefined]
    by (simp add: l f e textChecks_example attachmentChecks_example)
qed




text \<open>
  Claim C10. When the selected scheme exists and declares no \<open>maxAmount\<close>,
  \<open>minAmount\<close>, \<open>maxDuration\<close>, \<open>minDuration\<close>,
  \<open>sections\<close> or \<open>eligibility\<close>, and neither proposal text nor
  section values are supplied, the result is the overall status \<open>pass\<close> with no
  finding at all.
\<close>

theorem bare_scheme_passes_with_no_findings:
  assumes "resolveScheme funder idx = Some sch"
    and "maxAmount sch = None" and "minAmount sch = None" and "maxDuration sch = None"
    and "minDuration sch = None" and "sections sch = None" and "eligibility sch = None"
    and "t = None \<or> t = Some []" and "sm = None \<or> sm = Some []"
  shows "runComplianceChecks t sm funder idx b d = \<lparr>overall = Pass, results = []\<rparr>"
proof -
  have f: "fullTextOf t sm = []"
    using assms(8,9) by (auto simp: fullTextOf_def truthyStr_def orElse_def)
  have "budgetMaxChecks sch b = []" "budgetMinChecks sch b = []"
    "durationMaxChecks sch d = []" "durationMinChecks sch d = []"
    using assms(2-5) by (simp_all add: no_limit_checks)
  then show ?thesis
    using assms(1,6,7) f
    by (simp add: runComplianceChecks_def Let_def textChecks_def eligibilityChecks_def attachmentChecks_def
        truthyStr_def overallStatus_def)
qed

text \<open>An instance: the bare scheme, a budget of 5000 and 12 months.\<close>

theorem bare_scheme_passes_with_no_findings_witness:
  "runComplianceChecks None None funder_bare None (JNum 5000) (JNum 12) = \<lparr>overall = Pass, results = []\<rparr>"
proof -
  let ?sch = "\<lparr>maxAmount = None, minAmount = None, maxDuration = None, minDuration = None,
           sections = None, eligibility = None\<rparr>"
  have a: "maxAmount ?sch = None" "minAmount ?sch = None" "maxDuration ?sch = None"
    "minDuration ?sch = None" "sections ?sch = None" "eligibility ?sch = None"
    by simp_all
  have t: "(None :: string option) = None \<or> (None :: string option) = Some []" by simp
  have s: "(None :: (string \<times> string) list option) = None \<or> (None :: (string \<times> string) list option) = Some []"
    by simp
  show ?thesis
    by (rule bare_scheme_passes_with_no_findings [OF funder_bare_resolves a t s])
qed

end

